theory Spec2Isabelle
  imports Main "HOL-Library.Word" "HOL-Library.Signed_Division"
begin

section \<open>Lexer (codegen/lexer part of the IR pipeline)\<close>

text \<open>
  The hand-written scanner keeps a cursor \<open>position\<close> into \<open>source\<close> together with
  a line and column counter. The C++ fields are \<open>int\<close>; the cursor only ever grows from 0
  and is compared against \<open>source.length()\<close>, so it is modelled as a natural number
  (inputs shorter than \<open>2^31\<close> characters).
\<close>

datatype TokenType =
    T_INT | T_VOID | T_IF | T_ELSE | T_WHILE | T_BREAK | T_CONTINUE | T_RETURN
  | T_IDENTIFIER | T_NUMBER
  | T_PLUS | T_MINUS | T_MULTIPLY | T_DIVIDE | T_MODULO
  | T_ASSIGN
  | T_EQ | T_NEQ | T_LT | T_GT | T_LE | T_GE
  | T_AND | T_OR | T_NOT
  | T_LPAREN | T_RPAREN | T_LBRACE | T_RBRACE | T_SEMICOLON | T_COMMA
  | END_OF_FILE | T_UNKNOWN

record Token =
  ttype :: TokenType
  lexeme :: string
  tline :: int
  tcolumn :: int

definition mkToken :: "TokenType \<Rightarrow> string \<Rightarrow> int \<Rightarrow> int \<Rightarrow> Token" where
  "mkToken t lx l c = \<lparr>ttype = t, lexeme = lx, tline = l, tcolumn = c\<rparr>"

record Lexer =
  source :: string
  position :: nat
  line :: int
  column :: int

text \<open>Character classes of \<open><cctype>\<close> in the "C" locale.\<close>

definition isalpha :: "char \<Rightarrow> bool" where
  "isalpha c = (let n = (of_char c :: nat) in (65 \<le> n \<and> n \<le> 90) \<or> (97 \<le> n \<and> n \<le> 122))"

definition isdigit :: "char \<Rightarrow> bool" where
  "isdigit c = (let n = (of_char c :: nat) in 48 \<le> n \<and> n \<le> 57)"

definition isalnum :: "char \<Rightarrow> bool" where
  "isalnum c = (isalpha c \<or> isdigit c)"

definition keywords_table :: "string \<Rightarrow> TokenType option" where
  "keywords_table = map_of
     [(''int'', T_INT), (''void'', T_VOID), (''if'', T_IF), (''else'', T_ELSE),
      (''while'', T_WHILE), (''break'', T_BREAK), (''continue'', T_CONTINUE),
      (''return'', T_RETURN)]"

definition peek :: "Lexer \<Rightarrow> nat \<Rightarrow> char" where
  "peek L offset =
     (if position L + offset \<ge> length (source L) then CHR 0x00
      else source L ! (position L + offset))"

definition isAtEnd :: "Lexer \<Rightarrow> bool" where
  "isAtEnd L = (position L \<ge> length (source L))"

text \<open>
  \<open>advance\<close> reads \<open>source[position++]\<close>. Reading a \<open>std::string\<close> at its length yields
  the terminating NUL character.
\<close>

definition advance :: "Lexer \<Rightarrow> char \<times> Lexer" where
  "advance L =
     (let current = (if position L < length (source L) then source L ! position L else CHR 0x00)
      in if current = CHR 0x0A
         then (current, L\<lparr>position := position L + 1, line := line L + 1, column := 1\<rparr>)
         else (current, L\<lparr>position := position L + 1, column := column L + 1\<rparr>))"

text \<open>The line-comment loop of \<open>skipComment\<close>: \<open>while (!isAtEnd() && peek() != '\n') advance();\<close>\<close>

function skip_line_comment :: "Lexer \<Rightarrow> Lexer" where
  "skip_line_comment L =
     (if \<not> isAtEnd L \<and> peek L 0 \<noteq> CHR 0x0A then skip_line_comment (snd (advance L)) else L)"
  by pat_completeness auto
termination
  by (relation "measure (\<lambda>L. length (source L) - position L)")
     (auto simp: isAtEnd_def advance_def Let_def)

declare skip_line_comment.simps [simp del]

text \<open>The block-comment loop of \<open>skipComment\<close>; it also stops at the end of the input.\<close>

function skip_block_comment :: "Lexer \<Rightarrow> Lexer" where
  "skip_block_comment L =
     (if \<not> isAtEnd L then
        (if peek L 0 = CHR ''*'' \<and> peek L 1 = CHR ''/''
         then L\<lparr>position := position L + 2, column := column L + 2\<rparr>
         else if peek L 0 = CHR 0x0A
         then skip_block_comment (L\<lparr>line := line L + 1, column := 1, position := position L + 1\<rparr>)
         else skip_block_comment (L\<lparr>position := position L + 1, column := column L + 1\<rparr>))
      else L)"
  by pat_completeness auto
termination
  by (relation "measure (\<lambda>L. length (source L) - position L)")
     (auto simp: isAtEnd_def)

declare skip_block_comment.simps [simp del]

definition skipComment :: "Lexer \<Rightarrow> Lexer" where
  "skipComment L =
     (if peek L 0 = CHR ''/'' then
        (if peek L 1 = CHR ''/''
         then skip_line_comment (L\<lparr>position := position L + 2, column := column L + 2\<rparr>)
         else if peek L 1 = CHR ''*''
         then skip_block_comment (L\<lparr>position := position L + 2, column := column L + 2\<rparr>)
         else L)
      else L)"

lemma advance_source [simp]: "source (snd (advance L)) = source L"
  by (simp add: advance_def Let_def)

lemma advance_position [simp]: "position (snd (advance L)) = position L + 1"
  by (simp add: advance_def Let_def)

lemma skip_line_comment_source [simp]: "source (skip_line_comment L) = source L"
  by (induction L rule: skip_line_comment.induct) (subst skip_line_comment.simps, simp)

lemma skip_line_comment_position: "position L \<le> position (skip_line_comment L)"
proof (induction L rule: skip_line_comment.induct)
  case (1 L)
  show ?case
  proof (cases "\<not> isAtEnd L \<and> peek L 0 \<noteq> CHR 0x0A")
    case True
    with 1 have "position (snd (advance L)) \<le> position (skip_line_comment (snd (advance L)))"
      by simp
    with True show ?thesis
      by (subst skip_line_comment.simps) simp
  next
    case False
    then show ?thesis
      by (subst skip_line_comment.simps) auto
  qed
qed

lemma skip_block_comment_source [simp]: "source (skip_block_comment L) = source L"
  by (induction L rule: skip_block_comment.induct) (subst skip_block_comment.simps, simp)

lemma skip_block_comment_position: "position L \<le> position (skip_block_comment L)"
proof (induction L rule: skip_block_comment.induct)
  case (1 L)
  show ?case
  proof (cases "isAtEnd L")
    case True
    then show ?thesis by (subst skip_block_comment.simps) simp
  next
    case notEnd: False
    show ?thesis
    proof (cases "peek L 0 = CHR ''*'' \<and> peek L 1 = CHR ''/''")
      case True
      with notEnd show ?thesis by (subst skip_block_comment.simps) simp
    next
      case notClose: False
      show ?thesis
      proof (cases "peek L 0 = CHR 0x0A")
        case True
        with 1(1) notEnd notClose
        have "position L + 1 \<le> position (skip_block_comment
                (L\<lparr>line := line L + 1, column := 1, position := position L + 1\<rparr>))"
          by fastforce
        with True notEnd notClose show ?thesis
          by (subst skip_block_comment.simps) auto
      next
        case False
        with 1(2) notEnd notClose
        have "position L + 1 \<le> position (skip_block_comment
                (L\<lparr>position := position L + 1, column := column L + 1\<rparr>))"
          by fastforce
        with False notEnd notClose show ?thesis
          by (subst skip_block_comment.simps) auto
      qed
    qed
  qed
qed

lemma skipComment_source [simp]: "source (skipComment L) = source L"
  by (simp add: skipComment_def)

lemma skipComment_progress:
  assumes "peek L 0 = CHR ''/''" and "peek L 1 = CHR ''/'' \<or> peek L 1 = CHR ''*''"
  shows "position L + 2 \<le> position (skipComment L)"
proof (cases "peek L 1 = CHR ''/''")
  case True
  have "position (L\<lparr>position := position L + 2, column := column L + 2\<rparr>)
          \<le> position (skip_line_comment (L\<lparr>position := position L + 2, column := column L + 2\<rparr>))"
    by (rule skip_line_comment_position)
  with True assms(1) show ?thesis by (simp add: skipComment_def)
next
  case False
  with assms(2) have star: "peek L 1 = CHR ''*''" by simp
  have "position (L\<lparr>position := position L + 2, column := column L + 2\<rparr>)
          \<le> position (skip_block_comment (L\<lparr>position := position L + 2, column := column L + 2\<rparr>))"
    by (rule skip_block_comment_position)
  with False star assms(1) show ?thesis by (simp add: skipComment_def)
qed

function skipWhitespace :: "Lexer \<Rightarrow> Lexer" where
  "skipWhitespace L =
     (if \<not> isAtEnd L then
        (if peek L 0 = CHR '' '' \<or> peek L 0 = CHR 0x09 \<or> peek L 0 = CHR 0x0D
         then skipWhitespace (snd (advance L))
         else if peek L 0 = CHR 0x0A
         then skipWhitespace (snd (advance L))
         else if peek L 0 = CHR ''/''
         then (if peek L 1 = CHR ''/'' \<or> peek L 1 = CHR ''*''
               then skipWhitespace (skipComment L)
               else L)
         else L)
      else L)"
  by pat_completeness auto
termination
proof (relation "measure (\<lambda>L. length (source L) - position L)", goal_cases)
  case 1
  show ?case by simp
next
  case (2 L)
  then show ?case by (auto simp: isAtEnd_def)
next
  case (3 L)
  then show ?case by (auto simp: isAtEnd_def)
next
  case (4 L)
  then have "position L + 2 \<le> position (skipComment L)"
    by (intro skipComment_progress) auto
  with 4 show ?case by (auto simp: isAtEnd_def)
qed

declare skipWhitespace.simps [simp del]

lemma skipWhitespace_source [simp]: "source (skipWhitespace L) = source L"
  by (induction L rule: skipWhitespace.induct) (subst skipWhitespace.simps, simp)

lemma skipWhitespace_position: "position L \<le> position (skipWhitespace L)"
proof (induction L rule: skipWhitespace.induct)
  case (1 L)
  show ?case
  proof (cases "isAtEnd L")
    case True
    then show ?thesis by (subst skipWhitespace.simps) simp
  next
    case notEnd: False
    show ?thesis
    proof (cases "peek L 0 = CHR '' '' \<or> peek L 0 = CHR 0x09 \<or> peek L 0 = CHR 0x0D")
      case True
      with 1(1) notEnd have "position L + 1 \<le> position (skipWhitespace (snd (advance L)))"
        by simp
      with True notEnd show ?thesis by (subst skipWhitespace.simps) simp
    next
      case notBlank: False
      show ?thesis
      proof (cases "peek L 0 = CHR 0x0A")
        case True
        with 1(2) notEnd notBlank have "position L + 1 \<le> position (skipWhitespace (snd (advance L)))"
          by simp
        with True notEnd notBlank show ?thesis by (subst skipWhitespace.simps) simp
      next
        case notNl: False
        show ?thesis
        proof (cases "peek L 0 = CHR ''/'' \<and> (peek L 1 = CHR ''/'' \<or> peek L 1 = CHR ''*'')")
          case True
          with 1(3) notEnd notBlank notNl
          have "position (skipComment L) \<le> position (skipWhitespace (skipComment L))"
            by simp
          moreover from True have "position L + 2 \<le> position (skipComment L)"
            by (intro skipComment_progress) auto
          ultimately have "position L \<le> position (skipWhitespace (skipComment L))"
            by simp
          with True notEnd notBlank notNl show ?thesis
            by (subst skipWhitespace.simps) simp
        next
          case False
          with notEnd notBlank notNl show ?thesis
            by (subst skipWhitespace.simps) auto
        qed
      qed
    qed
  qed
qed

text \<open>The loops of \<open>scanIdentifier\<close> and \<open>scanNumber\<close>.\<close>

function scan_ident_loop :: "Lexer \<Rightarrow> Lexer" where
  "scan_ident_loop L =
     (if \<not> isAtEnd L \<and> (isalnum (peek L 0) \<or> peek L 0 = CHR ''_'')
      then scan_ident_loop (snd (advance L)) else L)"
  by pat_completeness auto
termination
  by (relation "measure (\<lambda>L. length (source L) - position L)")
     (auto simp: isAtEnd_def)

declare scan_ident_loop.simps [simp del]

function scan_digits_loop :: "Lexer \<Rightarrow> Lexer" where
  "scan_digits_loop L =
     (if \<not> isAtEnd L \<and> isdigit (peek L 0)
      then scan_digits_loop (snd (advance L)) else L)"
  by pat_completeness auto
termination
  by (relation "measure (\<lambda>L. length (source L) - position L)")
     (auto simp: isAtEnd_def)

declare scan_digits_loop.simps [simp del]

definition substr :: "string \<Rightarrow> nat \<Rightarrow> nat \<Rightarrow> string" where
  "substr s pos n = take n (drop pos s)"

definition scanIdentifier :: "Lexer \<Rightarrow> Token \<times> Lexer" where
  "scanIdentifier L0 =
     (let startPos = position L0; startColumn = column L0; startLine = line L0;
          L1 = (if isalpha (peek L0 0) \<or> peek L0 0 = CHR ''_'' then snd (advance L0) else L0);
          L2 = scan_ident_loop L1;
          lx = substr (source L2) startPos (position L2 - startPos)
      in case keywords_table lx of
           Some k \<Rightarrow> (mkToken k lx startLine startColumn, L2)
         | None \<Rightarrow> (mkToken T_IDENTIFIER lx startLine startColumn, L2))"

definition scanNumber :: "Lexer \<Rightarrow> Token \<times> Lexer" where
  "scanNumber L0 =
     (let startPos = position L0; startColumn = column L0; startLine = line L0;
          L1 = (if peek L0 0 = CHR ''-'' then snd (advance L0) else L0);
          L2 = scan_digits_loop L1;
          lx = substr (source L2) startPos (position L2 - startPos)
      in (mkToken T_NUMBER lx startLine startColumn, L2))"

text \<open>
  Two-character operators: \<open>if (peek() == second) { advance(); return two; } return one;\<close>
\<close>

definition two_char :: "Lexer \<Rightarrow> char \<Rightarrow> Token \<Rightarrow> Token \<Rightarrow> Token \<times> Lexer" where
  "two_char L second two one = (if peek L 0 = second then (two, snd (advance L)) else (one, L))"

definition scanToken :: "Lexer \<Rightarrow> Token \<times> Lexer" where
  "scanToken L0 =
     (let c = fst (advance L0); L = snd (advance L0) in
      if isalpha c \<or> c = CHR ''_''
      then scanIdentifier (L\<lparr>position := position L - 1, column := column L - 1\<rparr>)
      else if isdigit c
      then scanNumber (L\<lparr>position := position L - 1, column := column L - 1\<rparr>)
      else
        (let tokenLine = line L; tokenColumn = column L - 1 in
         if c = CHR ''('' then (mkToken T_LPAREN ''('' tokenLine tokenColumn, L)
         else if c = CHR '')'' then (mkToken T_RPAREN '')'' tokenLine tokenColumn, L)
         else if c = CHR ''{'' then (mkToken T_LBRACE ''{'' tokenLine tokenColumn, L)
         else if c = CHR ''}'' then (mkToken T_RBRACE ''}'' tokenLine tokenColumn, L)
         else if c = CHR '';'' then (mkToken T_SEMICOLON '';'' tokenLine tokenColumn, L)
         else if c = CHR '','' then (mkToken T_COMMA '','' tokenLine tokenColumn, L)
         else if c = CHR ''+'' then (mkToken T_PLUS ''+'' tokenLine tokenColumn, L)
         else if c = CHR ''-'' then (mkToken T_MINUS ''-'' tokenLine tokenColumn, L)
         else if c = CHR ''*'' then (mkToken T_MULTIPLY ''*'' tokenLine tokenColumn, L)
         else if c = CHR ''%'' then (mkToken T_MODULO ''%'' tokenLine tokenColumn, L)
         else if c = CHR ''/'' then (mkToken T_DIVIDE ''/'' tokenLine tokenColumn, L)
         else if c = CHR ''='' then
           two_char L (CHR ''='') (mkToken T_EQ ''=='' tokenLine tokenColumn)
                                  (mkToken T_ASSIGN ''='' tokenLine tokenColumn)
         else if c = CHR ''!'' then
           two_char L (CHR ''='') (mkToken T_NEQ ''!='' tokenLine tokenColumn)
                                  (mkToken T_NOT ''!'' tokenLine tokenColumn)
         else if c = CHR ''<'' then
           two_char L (CHR ''='') (mkToken T_LE ''<='' tokenLine tokenColumn)
                                  (mkToken T_LT ''<'' tokenLine tokenColumn)
         else if c = CHR ''>'' then
           two_char L (CHR ''='') (mkToken T_GE ''>='' tokenLine tokenColumn)
                                  (mkToken T_GT ''>'' tokenLine tokenColumn)
         else if c = CHR ''&'' then
           two_char L (CHR ''&'') (mkToken T_AND ''&&'' tokenLine tokenColumn)
                                  (mkToken T_UNKNOWN ''&'' tokenLine tokenColumn)
         else if c = CHR ''|'' then
           two_char L (CHR ''|'') (mkToken T_OR ''||'' tokenLine tokenColumn)
                                  (mkToken T_UNKNOWN ''|'' tokenLine tokenColumn)
         else (mkToken T_UNKNOWN [c] tokenLine tokenColumn, L)))"

lemma scan_ident_loop_source [simp]: "source (scan_ident_loop L) = source L"
  by (induction L rule: scan_ident_loop.induct) (subst scan_ident_loop.simps, simp)

lemma scan_ident_loop_position: "position L \<le> position (scan_ident_loop L)"
proof (induction L rule: scan_ident_loop.induct)
  case (1 L)
  show ?case
  proof (cases "\<not> isAtEnd L \<and> (isalnum (peek L 0) \<or> peek L 0 = CHR ''_'')")
    case True
    with 1 have "position L + 1 \<le> position (scan_ident_loop (snd (advance L)))"
      by simp
    with True show ?thesis by (subst scan_ident_loop.simps) simp
  next
    case False
    then show ?thesis by (subst scan_ident_loop.simps) auto
  qed
qed

lemma scan_digits_loop_source [simp]: "source (scan_digits_loop L) = source L"
  by (induction L rule: scan_digits_loop.induct) (subst scan_digits_loop.simps, simp)

lemma scan_digits_loop_position: "position L \<le> position (scan_digits_loop L)"
proof (induction L rule: scan_digits_loop.induct)
  case (1 L)
  show ?case
  proof (cases "\<not> isAtEnd L \<and> isdigit (peek L 0)")
    case True
    with 1 have "position L + 1 \<le> position (scan_digits_loop (snd (advance L)))"
      by simp
    with True show ?thesis by (subst scan_digits_loop.simps) simp
  next
    case False
    then show ?thesis by (subst scan_digits_loop.simps) auto
  qed
qed

lemma fst_advance_peek: "\<not> isAtEnd L \<Longrightarrow> fst (advance L) = peek L 0"
  by (simp add: advance_def peek_def isAtEnd_def Let_def)

lemma scan_digits_loop_step:
  "\<not> isAtEnd L \<Longrightarrow> isdigit (peek L 0) \<Longrightarrow> position L + 1 \<le> position (scan_digits_loop L)"
  using scan_digits_loop_position [of "snd (advance L)"]
  by (subst scan_digits_loop.simps) simp

lemma back_up [simp]:
  "(snd (advance L))\<lparr>position := position L, column := c\<rparr> = L\<lparr>column := c, line := line (snd (advance L))\<rparr>"
  by (simp add: advance_def Let_def)

lemma peek_cong [simp]: "peek (L\<lparr>column := c\<rparr>) n = peek L n" "peek (L\<lparr>line := l\<rparr>) n = peek L n"
  by (simp_all add: peek_def)

lemma isAtEnd_cong [simp]: "isAtEnd (L\<lparr>column := c\<rparr>) = isAtEnd L" "isAtEnd (L\<lparr>line := l\<rparr>) = isAtEnd L"
  by (simp_all add: isAtEnd_def)

lemma scanIdentifier_source [simp]: "source (snd (scanIdentifier L)) = source L"
  by (simp add: scanIdentifier_def Let_def split: option.splits)

lemma scanIdentifier_progress:
  assumes "isalpha (peek L 0) \<or> peek L 0 = CHR ''_''"
  shows "position L + 1 \<le> position (snd (scanIdentifier L))"
  using assms scan_ident_loop_position [of "snd (advance L)"]
  by (auto simp add: scanIdentifier_def Let_def split: option.splits)

lemma scanNumber_source [simp]: "source (snd (scanNumber L)) = source L"
  by (simp add: scanNumber_def Let_def)

lemma isdigit_not_minus: "isdigit c \<Longrightarrow> c \<noteq> CHR ''-''"
  by (auto simp: isdigit_def)

lemma scanNumber_progress:
  assumes "\<not> isAtEnd L" "isdigit (peek L 0)"
  shows "position L + 1 \<le> position (snd (scanNumber L))"
  using assms scan_digits_loop_step [of L] isdigit_not_minus [of "peek L 0"]
  by (simp add: scanNumber_def Let_def)

lemma two_char_source [simp]: "source (snd (two_char L c a b)) = source L"
  by (simp add: two_char_def)

lemma two_char_position: "position L \<le> position (snd (two_char L c a b))"
  by (simp add: two_char_def)

lemma scanToken_source [simp]: "source (snd (scanToken L)) = source L"
  by (simp add: scanToken_def Let_def)

lemma scanToken_progress:
  assumes "\<not> isAtEnd L"
  shows "position L < position (snd (scanToken L))"
proof -
  let ?c = "fst (advance L)"
  let ?L = "snd (advance L)"
  have c: "?c = peek L 0" using assms by (rule fst_advance_peek)
  show ?thesis
  proof (cases "isalpha ?c \<or> ?c = CHR ''_''")
    case True
    then have "position (L\<lparr>column := column ?L - 1, line := line ?L\<rparr>) + 1
        \<le> position (snd (scanIdentifier (L\<lparr>column := column ?L - 1, line := line ?L\<rparr>)))"
      by (intro scanIdentifier_progress) (simp add: c)
    with True show ?thesis by (simp add: scanToken_def Let_def)
  next
    case notId: False
    show ?thesis
    proof (cases "isdigit ?c")
      case True
      with assms have "position (L\<lparr>column := column ?L - 1, line := line ?L\<rparr>) + 1
        \<le> position (snd (scanNumber (L\<lparr>column := column ?L - 1, line := line ?L\<rparr>)))"
        by (intro scanNumber_progress) (simp_all add: c)
      with True notId show ?thesis by (simp add: scanToken_def Let_def)
    next
      case False
      have "position ?L \<le> position (snd (two_char ?L x a b))" for x a b
        by (rule two_char_position)
      then have "position L < position (snd (two_char ?L x a b))" for x a b
        by (metis advance_position less_add_one less_le_trans)
      with False notId show ?thesis
        by (simp add: scanToken_def Let_def)
    qed
  qed
qed

text \<open>
  \<open>tokenize\<close>: the main loop skips blanks and comments, stops when the input is exhausted
  and otherwise appends the next token; afterwards the end-of-file token is appended.
\<close>

function tokenize_loop :: "Lexer \<Rightarrow> Token list \<Rightarrow> Token list \<times> Lexer" where
  "tokenize_loop L tokens =
     (if \<not> isAtEnd L then
        (if isAtEnd (skipWhitespace L) then (tokens, skipWhitespace L)
         else tokenize_loop (snd (scanToken (skipWhitespace L)))
                            (tokens @ [fst (scanToken (skipWhitespace L))]))
      else (tokens, L))"
  by pat_completeness auto
termination
proof (relation "measure (\<lambda>(L, tokens). length (source L) - position L)", goal_cases)
  case 1
  show ?case by simp
next
  case (2 L tokens)
  have "position L \<le> position (skipWhitespace L)"
    by (rule skipWhitespace_position)
  moreover from 2 have "position (skipWhitespace L) < position (snd (scanToken (skipWhitespace L)))"
    by (intro scanToken_progress) simp
  ultimately show ?case using 2 by (simp add: isAtEnd_def)
qed

declare tokenize_loop.simps [simp del]

definition tokenize :: "string \<Rightarrow> Token list" where
  "tokenize src =
     (let r = tokenize_loop \<lparr>source = src, position = 0, line = 1, column = 1\<rparr> []
      in fst r @ [mkToken END_OF_FILE '''' (line (snd r)) (column (snd r))])"

lemma tokenize_loop_consumes: "isAtEnd (snd (tokenize_loop L tokens))"
proof (induction L tokens rule: tokenize_loop.induct)
  case (1 L tokens)
  show ?case
  proof (cases "isAtEnd L")
    case True
    then show ?thesis by (subst tokenize_loop.simps) simp
  next
    case notEnd: False
    show ?thesis
    proof (cases "isAtEnd (skipWhitespace L)")
      case True
      with notEnd show ?thesis by (subst tokenize_loop.simps) simp
    next
      case False
      with 1 notEnd show ?thesis by (subst tokenize_loop.simps) simp
    qed
  qed
qed

text \<open>
  C10. \<open>Lexer::tokenize\<close> is a total function of the input string (every loop of the scanner
  was accepted with a termination proof on the remaining input length), and its result is
  never empty and always ends with the \<open>END_OF_FILE\<close> token. This covers inputs that end
  inside an unterminated block comment and inputs with characters of no token class.
\<close>

theorem tokenize_ends_with_END_OF_FILE:
  "tokenize src \<noteq> [] \<and> ttype (last (tokenize src)) = END_OF_FILE"
  by (simp add: tokenize_def Let_def mkToken_def)

theorem tokenize_ends_with_END_OF_FILE_witness:
  "tokenize ''x = 1 /* open'' \<noteq> [] \<and> ttype (last (tokenize ''x = 1 /* open'')) = END_OF_FILE"
  using tokenize_ends_with_END_OF_FILE [of "''x = 1 /* open''"] by simp

lemma tokenize_unterminated_comment:
  "tokenize ''x /* open'' =
     [mkToken T_IDENTIFIER ''x'' 1 1, mkToken END_OF_FILE '''' 1 10]"
  by code_simp

lemma tokenize_unknown_characters:
  "map ttype (tokenize ''@ & #'') = [T_UNKNOWN, T_UNKNOWN, T_UNKNOWN, END_OF_FILE]"
  by code_simp

section \<open>Shared helpers\<close>

text \<open>
  ToyC's only value type is the 32-bit \<open>int\<close>. It is modelled as a 32-bit word: \<open>+\<close>, \<open>-\<close>
  and \<open>*\<close> wrap around (two's complement, as on the RV32 target), comparisons read the
  word as a signed number, and \<open>/\<close> and \<open>%\<close> truncate towards zero.
\<close>

type_synonym int32 = "32 word"

definition slt :: "int32 \<Rightarrow> int32 \<Rightarrow> bool" where
  "slt a b = (sint a < sint b)"

definition sle :: "int32 \<Rightarrow> int32 \<Rightarrow> bool" where
  "sle a b = (sint a \<le> sint b)"

text \<open>
  Division and remainder truncate towards zero. \<open>wrap_div\<close> and \<open>wrap_mod\<close> reduce the
  result to 32 bits, as the \<open>div\<close> and \<open>rem\<close> instructions of the target do for a divisor
  other than zero: \<open>INT_MIN / -1\<close> is \<open>INT_MIN\<close> and \<open>INT_MIN % -1\<close> is 0 there.
\<close>

definition wrap_div :: "int32 \<Rightarrow> int32 \<Rightarrow> int32" where
  "wrap_div a b = word_of_int (sint a sdiv sint b)"

definition wrap_mod :: "int32 \<Rightarrow> int32 \<Rightarrow> int32" where
  "wrap_mod a b = word_of_int (sint a smod sint b)"

text \<open>
  The ways in which the compiler itself crashes. The C++ operators \<open>/\<close> and \<open>%\<close> of the
  compiler's own arithmetic have no result for a divisor 0 and for \<open>INT_MIN\<close> divided by
  \<open>-1\<close> (undefined behaviour; the division instruction of the host raises \<open>SIGFPE\<close>):
  \<open>c_div\<close> and \<open>c_mod\<close> then return \<open>ArithmeticTrap\<close>.
\<close>

datatype crash = NullPointerDereference | ArithmeticTrap

definition INT_MIN :: int32 where
  "INT_MIN = - 2147483648"

definition c_div :: "int32 \<Rightarrow> int32 \<Rightarrow> crash + int32" where
  "c_div a b =
     (if b = 0 \<or> (a = INT_MIN \<and> b = - 1) then Inl ArithmeticTrap else Inr (wrap_div a b))"

definition c_mod :: "int32 \<Rightarrow> int32 \<Rightarrow> crash + int32" where
  "c_mod a b =
     (if b = 0 \<or> (a = INT_MIN \<and> b = - 1) then Inl ArithmeticTrap else Inr (wrap_mod a b))"

definition b2i :: "bool \<Rightarrow> int32" where
  "b2i b = (if b then 1 else 0)"

text \<open>\<open>std::to_string\<close> on a non-negative and on a signed integer.\<close>

definition digit_char :: "nat \<Rightarrow> char" where
  "digit_char d = char_of (48 + d)"

fun nat_to_string :: "nat \<Rightarrow> string" where
  "nat_to_string n = (if n < 10 then [digit_char n] else nat_to_string (n div 10) @ [digit_char (n mod 10)])"

declare nat_to_string.simps [simp del]

definition to_string :: "int \<Rightarrow> string" where
  "to_string i = (if i < 0 then CHR ''-'' # nat_to_string (nat (- i)) else nat_to_string (nat i))"

definition quoted :: "string \<Rightarrow> string" where
  "quoted s = [CHR 0x27] @ s @ [CHR 0x27]"

section \<open>The AST of the visitor-based front end (ast.h with \<open>unique_ptr\<close> children)\<close>

text \<open>
  This AST is shared by the \<open>SemanticAnalyzer\<close> with the function pre-pass, the AST
  \<open>Optimizer\<close> and the direct AST-to-assembly \<open>CodeGenerator\<close>. A \<open>nullptr\<close> child
  is \<open>None\<close>.
\<close>

datatype BinOperator = ADD | SUB | MUL | DIV | MOD | LT | GT | LE | GE | EQ | NE | AND | OR

datatype UnOperator = PLUS | MINUS | NOT

datatype Expr =
    NumberExpr int32
  | VarExpr string
  | BinaryExpr BinOperator Expr Expr
  | UnaryExpr UnOperator Expr
  | CallExpr string "Expr list"

datatype Stmt =
    Block "Stmt list"
  | ExprStmt "Expr option"
  | VarDecl string Expr
  | AssignStmt string Expr
  | IfStmt Expr Stmt "Stmt option"
  | WhileStmt Expr Stmt
  | BreakStmt
  | ContinueStmt
  | ReturnStmt "Expr option"

datatype ReturnType = RT_INT | RT_VOID

text \<open>\<open>FuncDef::body\<close> is a \<open>Block\<close>; the record holds the statements of that block.\<close>

record FuncDef =
  return_type :: ReturnType
  fname :: string
  params :: "string list"
  body :: "Stmt list"

type_synonym CompUnit = "FuncDef list"

section \<open>Symbol table with a global scope (symbol_table.h / symbol_table.cpp)\<close>

datatype SymbolType = VARIABLE | FUNCTION | PARAMETER

datatype DataType = D_INT | D_VOID

record Symbol =
  sym_name :: string
  symbol_type :: SymbolType
  data_type :: DataType
  scope_level :: int
  stack_offset :: int
  param_types :: "DataType list"

record Scope =
  level :: int
  symbols :: "string \<rightharpoonup> Symbol"

text \<open>
  \<open>current_scope\<close> points into a parent chain that ends in \<open>global_scope\<close>. The chain
  below the global scope is \<open>inner_scopes\<close>, innermost first; when it is empty the
  current scope is the global one. \<open>scope_stack_size\<close> has its \<open>back()\<close> at the head.
\<close>

record SymbolTable =
  global_scope :: Scope
  inner_scopes :: "Scope list"
  next_scope_level :: int
  scope_stack_size :: "int list"

definition new_SymbolTable :: SymbolTable where
  "new_SymbolTable =
     \<lparr>global_scope = \<lparr>level = 0, symbols = Map.empty\<rparr>, inner_scopes = [],
      next_scope_level = 1, scope_stack_size = [0]\<rparr>"

definition current_scope :: "SymbolTable \<Rightarrow> Scope" where
  "current_scope T = (case inner_scopes T of [] \<Rightarrow> global_scope T | s # _ \<Rightarrow> s)"

definition enter_scope :: "SymbolTable \<Rightarrow> SymbolTable" where
  "enter_scope T =
     T\<lparr>inner_scopes := \<lparr>level = next_scope_level T, symbols = Map.empty\<rparr> # inner_scopes T,
       next_scope_level := next_scope_level T + 1,
       scope_stack_size := 0 # scope_stack_size T\<rparr>"

definition exit_scope :: "SymbolTable \<Rightarrow> SymbolTable" where
  "exit_scope T =
     (case inner_scopes T of
        [] \<Rightarrow> T
      | _ # rest \<Rightarrow> T\<lparr>inner_scopes := rest, scope_stack_size := tl (scope_stack_size T)\<rparr>)"

definition is_defined_local :: "Scope \<Rightarrow> string \<Rightarrow> bool" where
  "is_defined_local sc n = (symbols sc n \<noteq> None)"

text \<open>\<open>Scope::define\<close>: refuses a name that the scope already holds.\<close>

definition scope_define :: "Scope \<Rightarrow> Symbol \<Rightarrow> bool \<times> Scope" where
  "scope_define sc smb =
     (if is_defined_local sc (sym_name smb) then (False, sc)
      else (True, sc\<lparr>symbols := (symbols sc)(sym_name smb \<mapsto> smb)\<rparr>))"

definition define_in_current :: "SymbolTable \<Rightarrow> Symbol \<Rightarrow> bool \<times> SymbolTable" where
  "define_in_current T smb =
     (case inner_scopes T of
        [] \<Rightarrow> (fst (scope_define (global_scope T) smb),
                T\<lparr>global_scope := snd (scope_define (global_scope T) smb)\<rparr>)
      | s # rest \<Rightarrow> (fst (scope_define s smb),
                     T\<lparr>inner_scopes := snd (scope_define s smb) # rest\<rparr>))"

text \<open>
  \<open>allocate_stack_space\<close> bumps the counter of the current scope and derives the offset;
  it runs before the duplicate check of \<open>define\<close>.
\<close>

definition bump_stack :: "SymbolTable \<Rightarrow> int \<times> SymbolTable" where
  "bump_stack T =
     (case scope_stack_size T of
        [] \<Rightarrow> (0, T)
      | n # rest \<Rightarrow> (n + 1, T\<lparr>scope_stack_size := (n + 1) # rest\<rparr>))"

definition define_variable :: "string \<Rightarrow> DataType \<Rightarrow> SymbolTable \<Rightarrow> bool \<times> SymbolTable" where
  "define_variable n ty T =
     (let T1 = snd (bump_stack T);
          smb = \<lparr>sym_name = n, symbol_type = VARIABLE, data_type = ty,
                 scope_level = level (current_scope T),
                 stack_offset = - (fst (bump_stack T)) * 4, param_types = []\<rparr>
      in define_in_current T1 smb)"

definition define_parameter :: "string \<Rightarrow> DataType \<Rightarrow> SymbolTable \<Rightarrow> bool \<times> SymbolTable" where
  "define_parameter n ty T =
     (let T1 = snd (bump_stack T);
          smb = \<lparr>sym_name = n, symbol_type = PARAMETER, data_type = ty,
                 scope_level = level (current_scope T),
                 stack_offset = fst (bump_stack T) * 4, param_types = []\<rparr>
      in define_in_current T1 smb)"

definition define_function ::
  "string \<Rightarrow> DataType \<Rightarrow> DataType list \<Rightarrow> SymbolTable \<Rightarrow> bool \<times> SymbolTable" where
  "define_function n ret ptys T =
     (let smb = \<lparr>sym_name = n, symbol_type = FUNCTION, data_type = ret,
                 scope_level = 0, stack_offset = 0, param_types = ptys\<rparr>
      in (fst (scope_define (global_scope T) smb),
          T\<lparr>global_scope := snd (scope_define (global_scope T) smb)\<rparr>))"

fun lookup_chain :: "Scope list \<Rightarrow> string \<Rightarrow> Symbol option" where
  "lookup_chain [] n = None"
| "lookup_chain (s # rest) n = (case symbols s n of Some smb \<Rightarrow> Some smb | None \<Rightarrow> lookup_chain rest n)"

definition lookup_symbol :: "string \<Rightarrow> SymbolTable \<Rightarrow> Symbol option" where
  "lookup_symbol n T = lookup_chain (inner_scopes T @ [global_scope T]) n"

definition lookup_function :: "string \<Rightarrow> SymbolTable \<Rightarrow> Symbol option" where
  "lookup_function n T =
     (case symbols (global_scope T) n of
        Some smb \<Rightarrow> (if symbol_type smb = FUNCTION then Some smb else None)
      | None \<Rightarrow> None)"

section \<open>Semantic analyzer with function pre-pass (TOYC2/src/semantic.cpp)\<close>

datatype SemanticErrorType =
    UNDEFINED_VARIABLE | UNDEFINED_FUNCTION | REDEFINED_VARIABLE | REDEFINED_FUNCTION
  | TYPE_MISMATCH | INVALID_RETURN_TYPE | MISSING_RETURN_STATEMENT | BREAK_OUTSIDE_LOOP
  | CONTINUE_OUTSIDE_LOOP | FUNCTION_CALL_ARGUMENT_MISMATCH | DIVISION_BY_ZERO
  | VOID_FUNCTION_RETURN_VALUE | NON_VOID_FUNCTION_NO_RETURN

type_synonym SemanticError = "SemanticErrorType \<times> string"

record SemanticAnalyzer =
  symbol_table :: SymbolTable
  errors :: "SemanticError list"
  in_loop_stack :: "bool list"
  current_function_name :: string
  current_function_return_type :: DataType
  current_function_has_return :: bool
  last_expr_type :: DataType

definition new_SemanticAnalyzer :: SemanticAnalyzer where
  "new_SemanticAnalyzer =
     \<lparr>symbol_table = new_SymbolTable, errors = [], in_loop_stack = [],
      current_function_name = '''', current_function_return_type = D_VOID,
      current_function_has_return = False, last_expr_type = D_INT\<rparr>"

definition report_error :: "SemanticErrorType \<Rightarrow> string \<Rightarrow> SemanticAnalyzer \<Rightarrow> SemanticAnalyzer" where
  "report_error t msg S = S\<lparr>errors := errors S @ [(t, msg)]\<rparr>"

definition data_type_to_string :: "DataType \<Rightarrow> string" where
  "data_type_to_string t = (case t of D_INT \<Rightarrow> ''int'' | D_VOID \<Rightarrow> ''void'')"

definition check_type_compatibility :: "DataType \<Rightarrow> DataType \<Rightarrow> bool" where
  "check_type_compatibility expected actual = (expected = actual)"

definition not_defined_message :: "string \<Rightarrow> string" where
  "not_defined_message n = ''Function '' @ quoted n @ '' is not defined''"

text \<open>
  The division check of \<open>visit(BinaryExpr)\<close> looks at the right operand with
  \<open>dynamic_cast<NumberExpr*>\<close> and compares its value with 0.
\<close>

fun is_zero_literal :: "Expr \<Rightarrow> bool" where
  "is_zero_literal (NumberExpr v) = (v = 0)"
| "is_zero_literal (VarExpr n) = False"
| "is_zero_literal (BinaryExpr bop l r) = False"
| "is_zero_literal (UnaryExpr uop e) = False"
| "is_zero_literal (CallExpr n args) = False"

text \<open>
  The expression visitor. \<open>check_args\<close> is the argument loop of \<open>visit(CallExpr)\<close>; it runs
  only when the argument count equals the parameter count, so \<open>ptys ! i\<close> is in range.
\<close>

fun visit_Expr :: "Expr \<Rightarrow> SemanticAnalyzer \<Rightarrow> SemanticAnalyzer"
  and check_args :: "Expr list \<Rightarrow> DataType list \<Rightarrow> nat \<Rightarrow> SemanticAnalyzer \<Rightarrow> SemanticAnalyzer"
where
  "visit_Expr (NumberExpr v) S = S\<lparr>last_expr_type := D_INT\<rparr>"
| "visit_Expr (VarExpr n) S =
     (case lookup_symbol n (symbol_table S) of
        None \<Rightarrow> (report_error UNDEFINED_VARIABLE (''Variable '' @ quoted n @ '' is not defined'') S)
                  \<lparr>last_expr_type := D_INT\<rparr>
      | Some var \<Rightarrow>
          if symbol_type var \<noteq> VARIABLE \<and> symbol_type var \<noteq> PARAMETER
          then (report_error TYPE_MISMATCH (quoted n @ '' is not a variable'') S)
                  \<lparr>last_expr_type := D_INT\<rparr>
          else S\<lparr>last_expr_type := data_type var\<rparr>)"
| "visit_Expr (BinaryExpr bop l r) S =
     (let S1 = visit_Expr l S;
          S2 = visit_Expr r S1;
          S3 = S2\<lparr>last_expr_type := D_INT\<rparr>
      in if bop = DIV \<or> bop = MOD
         then (if is_zero_literal r
               then report_error DIVISION_BY_ZERO ''Division by zero'' S3
               else S3)
         else S3)"
| "visit_Expr (UnaryExpr uop e) S = (visit_Expr e S)\<lparr>last_expr_type := D_INT\<rparr>"
| "visit_Expr (CallExpr n args) S =
     (case lookup_function n (symbol_table S) of
        None \<Rightarrow> (report_error UNDEFINED_FUNCTION (not_defined_message n) S)
                  \<lparr>last_expr_type := D_INT\<rparr>
      | Some func \<Rightarrow>
          if length args \<noteq> length (param_types func)
          then (report_error FUNCTION_CALL_ARGUMENT_MISMATCH
                  (''Function '' @ quoted n @ '' expects ''
                     @ to_string (int (length (param_types func))) @ '' arguments, got ''
                     @ to_string (int (length args))) S)
                 \<lparr>last_expr_type := data_type func\<rparr>
          else (check_args args (param_types func) 0 S)\<lparr>last_expr_type := data_type func\<rparr>)"
| "check_args [] ptys i S = S"
| "check_args (a # rest) ptys i S =
     (let S1 = visit_Expr a S;
          arg_type = last_expr_type S1;
          S2 = (if \<not> check_type_compatibility (ptys ! i) arg_type
                then report_error FUNCTION_CALL_ARGUMENT_MISMATCH
                       (''Argument '' @ to_string (int i + 1) @ '' type mismatch: expected ''
                          @ data_type_to_string (ptys ! i) @ '', got ''
                          @ data_type_to_string arg_type) S1
                else S1)
      in check_args rest ptys (i + 1) S2)"

definition analyze_expression :: "Expr \<Rightarrow> SemanticAnalyzer \<Rightarrow> DataType \<times> SemanticAnalyzer" where
  "analyze_expression e S = (last_expr_type (visit_Expr e S), visit_Expr e S)"

definition enter_loop :: "SemanticAnalyzer \<Rightarrow> SemanticAnalyzer" where
  "enter_loop S = S\<lparr>in_loop_stack := True # in_loop_stack S\<rparr>"

definition exit_loop :: "SemanticAnalyzer \<Rightarrow> SemanticAnalyzer" where
  "exit_loop S = S\<lparr>in_loop_stack := (case in_loop_stack S of [] \<Rightarrow> [] | _ # rest \<Rightarrow> rest)\<rparr>"

definition is_in_loop :: "SemanticAnalyzer \<Rightarrow> bool" where
  "is_in_loop S = (case in_loop_stack S of [] \<Rightarrow> False | b # _ \<Rightarrow> b)"

definition st_enter_scope :: "SemanticAnalyzer \<Rightarrow> SemanticAnalyzer" where
  "st_enter_scope S = S\<lparr>symbol_table := enter_scope (symbol_table S)\<rparr>"

definition st_exit_scope :: "SemanticAnalyzer \<Rightarrow> SemanticAnalyzer" where
  "st_exit_scope S = S\<lparr>symbol_table := exit_scope (symbol_table S)\<rparr>"

text \<open>The statement visitor; \<open>visit_Stmts\<close> is the loop over the statements of a block.\<close>

fun visit_Stmt :: "Stmt \<Rightarrow> SemanticAnalyzer \<Rightarrow> SemanticAnalyzer"
  and visit_Stmts :: "Stmt list \<Rightarrow> SemanticAnalyzer \<Rightarrow> SemanticAnalyzer"
where
  "visit_Stmt (Block stmts) S = st_exit_scope (visit_Stmts stmts (st_enter_scope S))"
| "visit_Stmt (ExprStmt eo) S =
     (case eo of None \<Rightarrow> S | Some e \<Rightarrow> snd (analyze_expression e S))"
| "visit_Stmt (VarDecl n init_expr) S =
     (let d = define_variable n D_INT (symbol_table S);
          S1 = S\<lparr>symbol_table := snd d\<rparr>
      in if \<not> fst d
         then report_error REDEFINED_VARIABLE
                (''Variable '' @ quoted n @ '' is already defined in current scope'') S1
         else (let r = analyze_expression init_expr S1
               in if \<not> check_type_compatibility D_INT (fst r)
                  then report_error TYPE_MISMATCH
                         (''Cannot initialize int variable '' @ quoted n @ '' with ''
                            @ data_type_to_string (fst r)) (snd r)
                  else snd r))"
| "visit_Stmt (AssignStmt n v) S =
     (case lookup_symbol n (symbol_table S) of
        None \<Rightarrow> report_error UNDEFINED_VARIABLE (''Variable '' @ quoted n @ '' is not defined'') S
      | Some var \<Rightarrow>
          if symbol_type var \<noteq> VARIABLE \<and> symbol_type var \<noteq> PARAMETER
          then report_error TYPE_MISMATCH (quoted n @ '' is not a variable'') S
          else (let r = analyze_expression v S
                in if \<not> check_type_compatibility (data_type var) (fst r)
                   then report_error TYPE_MISMATCH
                          (''Cannot assign '' @ data_type_to_string (fst r) @ '' to ''
                             @ data_type_to_string (data_type var) @ '' variable '' @ quoted n)
                          (snd r)
                   else snd r))"
| "visit_Stmt (IfStmt c t e) S =
     (let r = analyze_expression c S;
          S1 = (if fst r \<noteq> D_INT
                then report_error TYPE_MISMATCH ''If condition must be of int type'' (snd r)
                else snd r);
          S2 = visit_Stmt t S1
      in case e of None \<Rightarrow> S2 | Some el \<Rightarrow> visit_Stmt el S2)"
| "visit_Stmt (WhileStmt c b) S =
     (let r = analyze_expression c S;
          S1 = (if fst r \<noteq> D_INT
                then report_error TYPE_MISMATCH ''While condition must be of int type'' (snd r)
                else snd r)
      in exit_loop (visit_Stmt b (enter_loop S1)))"
| "visit_Stmt BreakStmt S =
     (if \<not> is_in_loop S
      then report_error BREAK_OUTSIDE_LOOP ''Break statement can only be used inside a loop'' S
      else S)"
| "visit_Stmt ContinueStmt S =
     (if \<not> is_in_loop S
      then report_error CONTINUE_OUTSIDE_LOOP ''Continue statement can only be used inside a loop'' S
      else S)"
| "visit_Stmt (ReturnStmt vo) S =
     (let S1 = S\<lparr>current_function_has_return := True\<rparr>
      in case vo of
           Some v \<Rightarrow>
             if current_function_return_type S1 = D_VOID
             then report_error VOID_FUNCTION_RETURN_VALUE ''Void function cannot return a value'' S1
             else (let r = analyze_expression v S1
                   in if \<not> check_type_compatibility (current_function_return_type S1) (fst r)
                      then report_error INVALID_RETURN_TYPE
                             (''Return type mismatch: expected ''
                                @ data_type_to_string (current_function_return_type S1)
                                @ '', got '' @ data_type_to_string (fst r)) (snd r)
                      else snd r)
         | None \<Rightarrow>
             if current_function_return_type S1 \<noteq> D_VOID
             then report_error NON_VOID_FUNCTION_NO_RETURN ''Non-void function must return a value'' S1
             else S1)"
| "visit_Stmts [] S = S"
| "visit_Stmts (s # ss) S = visit_Stmts ss (visit_Stmt s S)"

text \<open>\<open>has_return_statement\<close>, the structural check that \<open>visit(FuncDef)\<close> falls back to.\<close>

fun has_return_statement :: "Stmt \<Rightarrow> bool"
  and has_return_in :: "Stmt list \<Rightarrow> bool"
where
  "has_return_statement (ReturnStmt vo) = True"
| "has_return_statement (Block stmts) = has_return_in stmts"
| "has_return_statement (IfStmt c t e) =
     (case e of
        Some el \<Rightarrow> has_return_statement t \<and> has_return_statement el
      | None \<Rightarrow> False)"
| "has_return_statement (ExprStmt eo) = False"
| "has_return_statement (VarDecl n i) = False"
| "has_return_statement (AssignStmt n v) = False"
| "has_return_statement (WhileStmt c b) = False"
| "has_return_statement BreakStmt = False"
| "has_return_statement ContinueStmt = False"
| "has_return_in [] = False"
| "has_return_in (s # ss) = (if has_return_statement s then True else has_return_in ss)"

definition to_DataType :: "ReturnType \<Rightarrow> DataType" where
  "to_DataType rt = (if rt = RT_INT then D_INT else D_VOID)"

definition enter_function_scope :: "string \<Rightarrow> DataType \<Rightarrow> SemanticAnalyzer \<Rightarrow> SemanticAnalyzer" where
  "enter_function_scope n rt S =
     S\<lparr>current_function_name := n, current_function_return_type := rt,
       current_function_has_return := False\<rparr>"

definition exit_function_scope :: "SemanticAnalyzer \<Rightarrow> SemanticAnalyzer" where
  "exit_function_scope S =
     S\<lparr>current_function_name := '''', current_function_return_type := D_VOID,
       current_function_has_return := False\<rparr>"

fun define_parameters :: "string list \<Rightarrow> SemanticAnalyzer \<Rightarrow> SemanticAnalyzer" where
  "define_parameters [] S = S"
| "define_parameters (p # ps) S =
     (let d = define_parameter p D_INT (symbol_table S);
          S1 = S\<lparr>symbol_table := snd d\<rparr>
      in define_parameters ps
           (if \<not> fst d
            then report_error REDEFINED_VARIABLE (''Parameter '' @ quoted p @ '' is already defined'') S1
            else S1))"

definition visit_FuncDef :: "FuncDef \<Rightarrow> SemanticAnalyzer \<Rightarrow> SemanticAnalyzer" where
  "visit_FuncDef node S =
     (let S1 = enter_function_scope (fname node) (to_DataType (return_type node)) S;
          S2 = st_enter_scope S1;
          S3 = define_parameters (params node) S2;
          S4 = visit_Stmt (Block (body node)) S3;
          S5 = (if current_function_return_type S4 = D_INT \<and> \<not> current_function_has_return S4
                then (if \<not> has_return_statement (Block (body node))
                      then report_error MISSING_RETURN_STATEMENT
                             (''Function '' @ quoted (fname node) @ '' must return a value'') S4
                      else S4)
                else S4)
      in exit_function_scope (st_exit_scope S5))"

text \<open>\<open>visit(CompUnit)\<close>: pass 1 collects every function definition, pass 2 analyses the bodies.\<close>

fun collect_functions :: "FuncDef list \<Rightarrow> SemanticAnalyzer \<Rightarrow> SemanticAnalyzer" where
  "collect_functions [] S = S"
| "collect_functions (f # fs) S =
     (let d = define_function (fname f) (to_DataType (return_type f))
                (map (\<lambda>_. D_INT) (params f)) (symbol_table S);
          S1 = S\<lparr>symbol_table := snd d\<rparr>
      in collect_functions fs
           (if \<not> fst d
            then report_error REDEFINED_FUNCTION (''Function '' @ quoted (fname f) @ '' is already defined'') S1
            else S1))"

fun visit_FuncDefs :: "FuncDef list \<Rightarrow> SemanticAnalyzer \<Rightarrow> SemanticAnalyzer" where
  "visit_FuncDefs [] S = S"
| "visit_FuncDefs (f # fs) S = visit_FuncDefs fs (visit_FuncDef f S)"

definition visit_CompUnit :: "CompUnit \<Rightarrow> SemanticAnalyzer \<Rightarrow> SemanticAnalyzer" where
  "visit_CompUnit node S = visit_FuncDefs node (collect_functions node S)"

text \<open>\<open>analyze\<close> returns the analyzer after the run; its verdict is \<open>errors.empty()\<close>.\<close>

definition analyze :: "CompUnit \<Rightarrow> SemanticAnalyzer" where
  "analyze root =
     (let S = visit_CompUnit root (new_SemanticAnalyzer\<lparr>errors := []\<rparr>)
      in case lookup_function ''main'' (symbol_table S) of
           None \<Rightarrow> report_error UNDEFINED_FUNCTION
                     (''Program must have a '' @ quoted ''main'' @ '' function'') S
         | Some main_func \<Rightarrow>
             if data_type main_func \<noteq> D_INT \<or> param_types main_func \<noteq> []
             then report_error INVALID_RETURN_TYPE
                    (''Main function must be '' @ quoted ''int main()'' @ '' with no parameters'') S
             else S)"

definition analyze_ok :: "CompUnit \<Rightarrow> bool" where
  "analyze_ok root = (errors (analyze root) = [])"

section \<open>The AST of the IR pipeline (parser/ast.h with \<open>shared_ptr\<close> children)\<close>

text \<open>
  Operators are strings here and every node carries its \<open>line\<close> and \<open>column\<close> (the last two
  arguments of each constructor). Names that the other AST already uses carry a prime.
\<close>

datatype Expr' =
    NumberExpr' int32 int int
  | VariableExpr' string int int
  | BinaryExpr' Expr' string Expr' int int
  | UnaryExpr' string Expr' int int
  | CallExpr' string "Expr' list" int int

datatype Stmt' =
    ExprStmt' "Expr' option" int int
  | VarDeclStmt' string "Expr' option" int int
  | AssignStmt' string Expr' int int
  | BlockStmt' "Stmt' list" int int
  | IfStmt' Expr' Stmt' "Stmt' option" int int
  | WhileStmt' Expr' Stmt' int int
  | BreakStmt' int int
  | ContinueStmt' int int
  | ReturnStmt' "Expr' option" int int

record Param =
  pname :: string
  pline :: int
  pcolumn :: int

text \<open>
  \<open>FunctionDef::body\<close> is a \<open>BlockStmt\<close>; the record holds its statements (the analyzer
  never reads the location of that block).
\<close>

record FunctionDef =
  fd_returnType :: string
  fd_name :: string
  fd_params :: "Param list"
  fd_body :: "Stmt' list"
  fd_line :: int
  fd_column :: int

type_synonym CompUnit' = "FunctionDef list"

section \<open>Semantic analyzer of the IR pipeline (semantic/semantic.cpp)\<close>

datatype Kind = VARIABLE' | FUNCTION' | PARAMETER'

record Symbol' =
  kind :: Kind
  stype :: string
  sline :: int
  scolumn :: int
  paramIndex :: int

record FunctionInfo =
  returnType :: string
  paramTypes :: "string list"
  paramNames :: "string list"
  fi_line :: int
  fi_column :: int

text \<open>
  The state of \<open>analyzeVisitor\<close> together with its \<open>analyzeHelper\<close> and \<open>typeVisitor\<close>.
  \<open>symbolTables\<close> has its \<open>back()\<close> at the head. The warning channel
  (\<open>warningMessages\<close>, \<open>reportedWarnings\<close>, \<open>Symbol::used\<close>, \<open>checkUnusedVariables\<close>,
  \<open>detectDeadCode\<close>) is write-only for the analysis and is left out, apart from the constant
  evaluations made for it, which can crash. \<open>ub\<close> records that the run dereferenced an
  invalid iterator or an empty vector, or that a constant evaluation divided \<open>INT_MIN\<close> by
  \<open>-1\<close>: the analyzer does not return from such a run, and once \<open>ub\<close> is set the other
  fields say nothing about it. \<open>ub\<close> is never reset.
\<close>

record analyzeVisitor =
  symbolTables :: "(string \<rightharpoonup> Symbol') list"
  functionTable :: "string \<rightharpoonup> FunctionInfo"
  currentFunction :: string
  currentFunctionReturnType :: string
  hasReturn :: bool
  success :: bool
  errorMessages :: "string list"
  reportedErrors :: "string set"
  loopDepth :: int
  tv_type :: string
  ub :: bool

definition new_analyzeVisitor :: analyzeVisitor where
  "new_analyzeVisitor =
     \<lparr>symbolTables = [Map.empty], functionTable = Map.empty, currentFunction = [],
      currentFunctionReturnType = [], hasReturn = False, success = True,
      errorMessages = [], reportedErrors = {}, loopDepth = 0, tv_type = [], ub = False\<rparr>"

definition enterScope :: "analyzeVisitor \<Rightarrow> analyzeVisitor" where
  "enterScope V = V\<lparr>symbolTables := Map.empty # symbolTables V\<rparr>"

definition exitScope :: "analyzeVisitor \<Rightarrow> analyzeVisitor" where
  "exitScope V = (case symbolTables V of [] \<Rightarrow> V | _ # rest \<Rightarrow> V\<lparr>symbolTables := rest\<rparr>)"

definition declareSymbol :: "string \<Rightarrow> Symbol' \<Rightarrow> analyzeVisitor \<Rightarrow> bool \<times> analyzeVisitor" where
  "declareSymbol n smb V =
     (case symbolTables V of
        [] \<Rightarrow> (False, V\<lparr>ub := True\<rparr>)
      | sc # rest \<Rightarrow>
          if sc n \<noteq> None then (False, V)
          else (True, V\<lparr>symbolTables := sc(n \<mapsto> smb) # rest\<rparr>))"

fun find_in_tables :: "(string \<rightharpoonup> Symbol') list \<Rightarrow> string \<Rightarrow> Symbol' option" where
  "find_in_tables [] n = None"
| "find_in_tables (sc # rest) n = (case sc n of Some smb \<Rightarrow> Some smb | None \<Rightarrow> find_in_tables rest n)"

definition findSymbol :: "string \<Rightarrow> analyzeVisitor \<Rightarrow> Symbol' option" where
  "findSymbol n V = find_in_tables (symbolTables V) n"

text \<open>
  \<open>analyzeHelper::evaluateConstant\<close>; \<open>Inr None\<close> is the empty \<open>OptionalInt\<close>. Both operands
  of a binary node are evaluated before anything else is looked at. The divisions guard a
  divisor 0 only, so \<open>INT_MIN / -1\<close> and \<open>INT_MIN % -1\<close> crash the analyzer: \<open>Inl\<close>.
\<close>

definition constant_binary :: "string \<Rightarrow> int32 \<Rightarrow> int32 \<Rightarrow> crash + int32 option" where
  "constant_binary bop leftValue rightValue =
     (if bop = ''+'' then Inr (Some (leftValue + rightValue))
      else if bop = ''-'' then Inr (Some (leftValue - rightValue))
      else if bop = ''*'' then Inr (Some (leftValue * rightValue))
      else if bop = ''/'' then
        (if rightValue = 0 then Inr None
         else (case c_div leftValue rightValue of Inl c \<Rightarrow> Inl c | Inr q \<Rightarrow> Inr (Some q)))
      else if bop = ''%'' then
        (if rightValue = 0 then Inr None
         else (case c_mod leftValue rightValue of Inl c \<Rightarrow> Inl c | Inr q \<Rightarrow> Inr (Some q)))
      else if bop = ''<'' then Inr (Some (b2i (slt leftValue rightValue)))
      else if bop = ''>'' then Inr (Some (b2i (slt rightValue leftValue)))
      else if bop = ''<='' then Inr (Some (b2i (sle leftValue rightValue)))
      else if bop = ''>='' then Inr (Some (b2i (sle rightValue leftValue)))
      else if bop = ''=='' then Inr (Some (b2i (leftValue = rightValue)))
      else if bop = ''!='' then Inr (Some (b2i (leftValue \<noteq> rightValue)))
      else if bop = ''&&'' then Inr (Some (b2i (leftValue \<noteq> 0 \<and> rightValue \<noteq> 0)))
      else if bop = ''||'' then Inr (Some (b2i (leftValue \<noteq> 0 \<or> rightValue \<noteq> 0)))
      else Inr None)"

fun evaluateConstant :: "Expr' \<Rightarrow> crash + int32 option" where
  "evaluateConstant (NumberExpr' v ln col) = Inr (Some v)"
| "evaluateConstant (UnaryExpr' uop e ln col) =
     (case evaluateConstant e of
        Inl c \<Rightarrow> Inl c
      | Inr None \<Rightarrow> Inr None
      | Inr (Some operandValue) \<Rightarrow>
          if uop = ''+'' then Inr (Some operandValue)
          else if uop = ''-'' then Inr (Some (- operandValue))
          else if uop = ''!'' then Inr (Some (b2i (operandValue = 0)))
          else Inr None)"
| "evaluateConstant (BinaryExpr' l bop r ln col) =
     (case evaluateConstant l of
        Inl c \<Rightarrow> Inl c
      | Inr leftValue \<Rightarrow>
          (case evaluateConstant r of
             Inl c \<Rightarrow> Inl c
           | Inr rightValue \<Rightarrow>
               (case leftValue of
                  None \<Rightarrow> Inr None
                | Some a \<Rightarrow>
                    (case rightValue of
                       None \<Rightarrow> Inr None
                     | Some b \<Rightarrow> constant_binary bop a b))))"
| "evaluateConstant (VariableExpr' n ln col) = Inr None"
| "evaluateConstant (CallExpr' n args ln col) = Inr None"

text \<open>
  A call of \<open>evaluateConstant\<close> whose result only feeds a warning: the state is unchanged
  unless the evaluation crashes.
\<close>

definition evaluate_for_warning :: "Expr' \<Rightarrow> analyzeVisitor \<Rightarrow> analyzeVisitor" where
  "evaluate_for_warning e V = (case evaluateConstant e of Inl c \<Rightarrow> V\<lparr>ub := True\<rparr> | Inr v \<Rightarrow> V)"

definition is_condition_operator :: "string \<Rightarrow> bool" where
  "is_condition_operator bop =
     (bop = ''=='' \<or> bop = ''!='' \<or> bop = ''<'' \<or> bop = ''>'' \<or> bop = ''<='' \<or> bop = ''>=''
      \<or> bop = ''&&'' \<or> bop = ''||'')"

definition full_message :: "string \<Rightarrow> int \<Rightarrow> int \<Rightarrow> string" where
  "full_message message ln col =
     (if ln > 0
      then message @ '' at line '' @ to_string ln
             @ (if col > 0 then '', column '' @ to_string col else [])
      else message)"

text \<open>\<open>analyzeHelper::error\<close>: a message is recorded once per distinct full text.\<close>

definition helper_error :: "string \<Rightarrow> int \<Rightarrow> int \<Rightarrow> analyzeVisitor \<Rightarrow> analyzeVisitor" where
  "helper_error message ln col V =
     (let fullMessage = full_message message ln col;
          V1 = V\<lparr>success := False\<rparr>
      in if fullMessage \<notin> reportedErrors V1
         then V1\<lparr>reportedErrors := insert fullMessage (reportedErrors V1),
                 errorMessages := errorMessages V1 @ [fullMessage]\<rparr>
         else V1)"

text \<open>\<open>typeVisitor\<close> on expressions (\<open>getExprType\<close> runs it and reads \<open>type\<close>).\<close>

fun type_visit :: "Expr' \<Rightarrow> analyzeVisitor \<Rightarrow> analyzeVisitor"
  and type_args :: "Expr' list \<Rightarrow> string list \<Rightarrow> string \<Rightarrow> int \<Rightarrow> int \<Rightarrow> nat
                     \<Rightarrow> analyzeVisitor \<Rightarrow> analyzeVisitor"
where
  "type_visit (NumberExpr' v ln col) V = V\<lparr>tv_type := ''int''\<rparr>"
| "type_visit (VariableExpr' n ln col) V =
     (case findSymbol n V of
        None \<Rightarrow> V\<lparr>tv_type := ''error''\<rparr>
      | Some smb \<Rightarrow> V\<lparr>tv_type := stype smb\<rparr>)"
| "type_visit (BinaryExpr' l bop r ln col) V =
     (let V1 = type_visit l V; leftType = tv_type V1;
          V2 = type_visit r V1; rightType = tv_type V2
      in if leftType \<noteq> ''int'' \<or> rightType \<noteq> ''int''
         then (helper_error (''Binary operator '' @ quoted bop @ '' requires integer operands'')
                 ln col V2)\<lparr>tv_type := ''error''\<rparr>
         else V2\<lparr>tv_type := ''int''\<rparr>)"
| "type_visit (UnaryExpr' uop e ln col) V =
     (let V1 = type_visit e V
      in if tv_type V1 \<noteq> ''int''
         then (helper_error (''Unary operator '' @ quoted uop @ '' requires integer operand'')
                 ln col V1)\<lparr>tv_type := ''error''\<rparr>
         else V1\<lparr>tv_type := ''int''\<rparr>)"
| "type_visit (CallExpr' callee args ln col) V =
     (case functionTable V callee of
        None \<Rightarrow> V\<lparr>tv_type := ''error''\<rparr>
      | Some info \<Rightarrow>
          if length args \<noteq> length (paramTypes info)
          then (helper_error (''Incorrect number of arguments for function '' @ quoted callee)
                  ln col V)\<lparr>tv_type := returnType info\<rparr>
          else (type_args args (paramTypes info) callee ln col 0 V)\<lparr>tv_type := returnType info\<rparr>)"
| "type_args [] ptys callee ln col i V = V"
| "type_args (a # rest) ptys callee ln col i V =
     (let V1 = type_visit a V; argType = tv_type V1;
          V2 = (if argType \<noteq> ptys ! i
                then helper_error (''Function '' @ quoted callee @ '' argument ''
                                     @ to_string (int i + 1) @ '' type mismatch'') ln col V1
                else V1)
      in type_args rest ptys callee ln col (i + 1) V2)"

definition getExprType :: "Expr' \<Rightarrow> analyzeVisitor \<Rightarrow> string \<times> analyzeVisitor" where
  "getExprType e V = (tv_type (type_visit e V), type_visit e V)"

text \<open>
  \<open>analyzeVisitor\<close> on expressions. In \<open>visit(CallExpr)\<close> the callee is looked up in
  \<open>functionTable\<close>, which only holds the functions whose definitions have been visited.
\<close>

fun visit_expr :: "Expr' \<Rightarrow> analyzeVisitor \<Rightarrow> analyzeVisitor"
  and visit_call_args :: "Expr' list \<Rightarrow> FunctionInfo \<Rightarrow> string \<Rightarrow> int \<Rightarrow> int \<Rightarrow> nat
                     \<Rightarrow> analyzeVisitor \<Rightarrow> analyzeVisitor"
where
  "visit_expr (NumberExpr' v ln col) V = V"
| "visit_expr (VariableExpr' n ln col) V =
     (case findSymbol n V of
        None \<Rightarrow> helper_error (''Undefined variable: '' @ n) ln col V
      | Some smb \<Rightarrow> V)"
| "visit_expr (BinaryExpr' l bop r ln col) V =
     (let V1 = visit_expr l V;
          V2 = visit_expr r V1;
          lt = getExprType l V2;
          rt = getExprType r (snd lt);
          V3 = (if fst lt \<noteq> ''int'' \<or> fst rt \<noteq> ''int''
                then helper_error (''Binary operator '' @ quoted bop @ '' requires int operands'')
                       ln col (snd rt)
                else snd rt);
          V4 = (if bop = ''/'' \<or> bop = ''%''
                then (case evaluateConstant r of
                        Inl c \<Rightarrow> V3\<lparr>ub := True\<rparr>
                      | Inr (Some rval) \<Rightarrow>
                          if rval = 0 then helper_error ''Division by zero'' ln col V3 else V3
                      | Inr None \<Rightarrow> V3)
                else V3)
      in if is_condition_operator bop
         then evaluate_for_warning r (evaluate_for_warning l V4)
         else V4)"
| "visit_expr (UnaryExpr' uop e ln col) V =
     (let V1 = visit_expr e V;
          ot = getExprType e V1
      in if fst ot \<noteq> ''int''
         then helper_error (''Unary operator '' @ quoted uop @ '' requires int operand'') ln col (snd ot)
         else snd ot)"
| "visit_expr (CallExpr' callee args ln col) V =
     (if functionTable V callee = None \<and> callee \<noteq> currentFunction V
      then helper_error (''Undefined function: '' @ callee) ln col V
      else case functionTable V callee of
             None \<Rightarrow> V\<lparr>ub := True\<rparr>
           | Some funcInfo \<Rightarrow>
               (let V1 = (if length (paramTypes funcInfo) \<noteq> length args
                          then helper_error (''Incorrect number of arguments for function ''
                                               @ quoted callee) ln col V
                          else V);
                    V2 = visit_call_args args funcInfo callee ln col 0 V1;
                    ct = getExprType (CallExpr' callee args ln col) V2
                in if fst ct \<noteq> returnType funcInfo
                   then helper_error (''Function '' @ quoted callee @ '' return type mismatch'')
                          ln col (snd ct)
                   else snd ct))"
| "visit_call_args [] funcInfo callee ln col i V = V"
| "visit_call_args (a # rest) funcInfo callee ln col i V =
     (let V1 = visit_expr a V;
          V2 = (if i < length (paramTypes funcInfo)
                then (let at = getExprType a V1
                      in if fst at \<noteq> paramTypes funcInfo ! i
                         then helper_error
                                (''Function '' @ quoted callee @ '' argument '' @ to_string (int i + 1)
                                   @ '' type mismatch, expected '' @ quoted (paramTypes funcInfo ! i)
                                   @ '', got '' @ quoted (fst at)) ln col (snd at)
                         else snd at)
                else V1)
      in visit_call_args rest funcInfo callee ln col (i + 1) V2)"

definition enterLoop :: "analyzeVisitor \<Rightarrow> analyzeVisitor" where
  "enterLoop V = V\<lparr>loopDepth := loopDepth V + 1\<rparr>"

definition exitLoop :: "analyzeVisitor \<Rightarrow> analyzeVisitor" where
  "exitLoop V = V\<lparr>loopDepth := loopDepth V - 1\<rparr>"

definition isInLoop :: "analyzeVisitor \<Rightarrow> bool" where
  "isInLoop V = (loopDepth V > 0)"

text \<open>\<open>analyzeVisitor\<close> on statements; \<open>visit(ReturnStmt)\<close> raises the flag \<open>hasReturn\<close>.\<close>

fun visit_stmt :: "Stmt' \<Rightarrow> analyzeVisitor \<Rightarrow> analyzeVisitor"
  and visit_stmts :: "Stmt' list \<Rightarrow> analyzeVisitor \<Rightarrow> analyzeVisitor"
where
  "visit_stmt (ExprStmt' eo ln col) V = (case eo of None \<Rightarrow> V | Some e \<Rightarrow> visit_expr e V)"
| "visit_stmt (VarDeclStmt' n init ln col) V =
     (let V1 = (case symbolTables V of
                  [] \<Rightarrow> V\<lparr>ub := True\<rparr>
                | sc # _ \<Rightarrow>
                    if sc n \<noteq> None
                    then helper_error (''Variable '' @ quoted n @ '' already declared in current scope'')
                           ln col V
                    else V);
          V2 = (case init of
                  None \<Rightarrow> V1
                | Some i \<Rightarrow>
                    (let it = getExprType i (visit_expr i V1)
                     in if fst it \<noteq> ''int''
                        then helper_error ''Cannot initialize int variable with non-integer expression''
                               ln col (snd it)
                        else snd it))
      in snd (declareSymbol n
                \<lparr>kind = VARIABLE', stype = ''int'', sline = ln, scolumn = col, paramIndex = - 1\<rparr> V2))"
| "visit_stmt (AssignStmt' n v ln col) V =
     (case findSymbol n V of
        None \<Rightarrow> helper_error (''Undefined variable: '' @ n) ln col V
      | Some smb \<Rightarrow>
          (let V1 = (if kind smb \<noteq> VARIABLE' \<and> kind smb \<noteq> PARAMETER'
                     then helper_error (''Cannot assign to '' @ quoted n @ '' (not a variable)'') ln col V
                     else V);
               vt = getExprType v (visit_expr v V1)
           in if fst vt \<noteq> ''int''
              then helper_error (''Type mismatch in assignment to '' @ quoted n) ln col (snd vt)
              else snd vt))"
| "visit_stmt (BlockStmt' stmts ln col) V = exitScope (visit_stmts stmts (enterScope V))"
| "visit_stmt (IfStmt' c t e ln col) V =
     (let ct = getExprType c (visit_expr c V);
          V1 = evaluate_for_warning c
                 (if fst ct \<noteq> ''int''
                  then helper_error ''If condition must be integer (used as boolean)'' ln col (snd ct)
                  else snd ct);
          V2 = visit_stmt t V1
      in case e of None \<Rightarrow> V2 | Some el \<Rightarrow> visit_stmt el V2)"
| "visit_stmt (WhileStmt' c b ln col) V =
     (let ct = getExprType c (visit_expr c V);
          V1 = evaluate_for_warning c
                 (if fst ct \<noteq> ''int''
                  then helper_error ''While condition must be integer (used as boolean)'' ln col (snd ct)
                  else snd ct)
      in exitLoop (visit_stmt b (enterLoop V1)))"
| "visit_stmt (BreakStmt' ln col) V =
     (if \<not> isInLoop V then helper_error ''Break statement must be inside loop'' ln col V else V)"
| "visit_stmt (ContinueStmt' ln col) V =
     (if \<not> isInLoop V then helper_error ''Continue statement must be inside loop'' ln col V else V)"
| "visit_stmt (ReturnStmt' vo ln col) V =
     (let V1 = (case vo of
                  Some v \<Rightarrow>
                    (let rt = getExprType v (visit_expr v V)
                     in if fst rt \<noteq> currentFunctionReturnType (snd rt)
                        then helper_error
                               (''Return type mismatch: expected ''
                                  @ quoted (currentFunctionReturnType (snd rt))
                                  @ '', got '' @ quoted (fst rt)) ln col (snd rt)
                        else snd rt)
                | None \<Rightarrow>
                    if currentFunctionReturnType V \<noteq> ''void''
                    then helper_error
                           (''Function with return type '' @ quoted (currentFunctionReturnType V)
                              @ '' must return a value'') ln col V
                    else V)
      in V1\<lparr>hasReturn := True\<rparr>)"
| "visit_stmts [] V = V"
| "visit_stmts (s # ss) V = visit_stmts ss (visit_stmt s V)"

definition isValidMainFunction :: "FunctionDef \<Rightarrow> analyzeVisitor \<Rightarrow> bool \<times> analyzeVisitor" where
  "isValidMainFunction funcDef V =
     (if fd_returnType funcDef \<noteq> ''int''
      then (False, helper_error ''main function must return int'' (fd_line funcDef) (fd_column funcDef) V)
      else if fd_params funcDef \<noteq> []
      then (False, helper_error ''main function cannot have parameters''
                     (fd_line funcDef) (fd_column funcDef) V)
      else (True, V))"

fun declare_params :: "Param list \<Rightarrow> int \<Rightarrow> int \<Rightarrow> nat \<Rightarrow> analyzeVisitor \<Rightarrow> analyzeVisitor" where
  "declare_params [] ln col i V = V"
| "declare_params (p # ps) ln col i V =
     (let d = declareSymbol (pname p)
                \<lparr>kind = PARAMETER', stype = ''int'', sline = ln, scolumn = col, paramIndex = int i\<rparr> V
      in declare_params ps ln col (i + 1)
           (if \<not> fst d
            then helper_error (''Parameter '' @ quoted (pname p) @ '' already declared'') ln col (snd d)
            else snd d))"

text \<open>
  \<open>visit(FunctionDef)\<close> enters the function into \<open>functionTable\<close>, analyses the body and
  reports a missing return from the flag \<open>hasReturn\<close>.
\<close>

definition visit_FunctionDef :: "FunctionDef \<Rightarrow> analyzeVisitor \<Rightarrow> analyzeVisitor" where
  "visit_FunctionDef funcDef V =
     (let ln = fd_line funcDef; col = fd_column funcDef; n = fd_name funcDef;
          V1 = (if functionTable V n \<noteq> None then helper_error ''Duplicate function name'' ln col V else V);
          info = \<lparr>returnType = fd_returnType funcDef,
                  paramTypes = map (\<lambda>_. ''int'') (fd_params funcDef),
                  paramNames = map pname (fd_params funcDef),
                  fi_line = ln, fi_column = col\<rparr>;
          V2 = V1\<lparr>functionTable := (functionTable V1)(n \<mapsto> info)\<rparr>;
          V3 = (if n = ''main''
                then (let m = isValidMainFunction funcDef V2
                      in if \<not> fst m
                         then helper_error ''Invalid main function declaration'' ln col (snd m)
                         else snd m)
                else V2);
          V4 = V3\<lparr>currentFunction := n, currentFunctionReturnType := fd_returnType funcDef,
                  hasReturn := False\<rparr>;
          V5 = enterScope V4;
          V6 = snd (declareSymbol n
                      \<lparr>kind = FUNCTION', stype = fd_returnType funcDef, sline = ln, scolumn = col,
                       paramIndex = - 1\<rparr> V5);
          V7 = declare_params (fd_params funcDef) ln col 0 V6;
          V8 = visit_stmt (BlockStmt' (fd_body funcDef) 0 0) V7;
          V9 = (if fd_returnType funcDef \<noteq> ''void'' \<and> \<not> hasReturn V8
                then helper_error (''Function '' @ quoted n @ '' has no return statement'') ln col V8
                else V8);
          V10 = exitScope V9
      in V10\<lparr>currentFunction := [], currentFunctionReturnType := [], hasReturn := False\<rparr>)"

fun visit_FunctionDefs :: "FunctionDef list \<Rightarrow> analyzeVisitor \<Rightarrow> analyzeVisitor" where
  "visit_FunctionDefs [] V = V"
| "visit_FunctionDefs (f # fs) V = visit_FunctionDefs fs (visit_FunctionDef f V)"

definition visit_CompUnit' :: "CompUnit' \<Rightarrow> analyzeVisitor \<Rightarrow> analyzeVisitor" where
  "visit_CompUnit' compUnit V =
     (let hasMain = list_ex (\<lambda>f. fd_name f = ''main'') compUnit;
          V1 = (if \<not> hasMain then helper_error ''Program must have a main function'' 0 0 V else V)
      in visit_FunctionDefs compUnit V1)"

text \<open>
  \<open>SemanticAnalyzer::analyze\<close> on a fresh analyzer: the messages and the verdict it reports
  are those collected by its visitor.
\<close>

definition analyze' :: "CompUnit' \<Rightarrow> analyzeVisitor" where
  "analyze' ast = visit_CompUnit' ast new_analyzeVisitor"

section \<open>Return-path checking\<close>

text \<open>
  Two programs in which an \<open>int\<close> function can fall off its end:
  \<^verbatim>\<open>int f(int c) { if (c) return 1; }  int main() { return f(0); }\<close> and
  \<^verbatim>\<open>int main() { while (0) { return 1; } }\<close>,
  once for each front end.
\<close>

definition return_in_if_arm :: CompUnit where
  "return_in_if_arm =
     [\<lparr>return_type = RT_INT, fname = ''f'', params = [''c''],
       body = [IfStmt (VarExpr ''c'') (ReturnStmt (Some (NumberExpr 1))) None]\<rparr>,
      \<lparr>return_type = RT_INT, fname = ''main'', params = [],
       body = [ReturnStmt (Some (CallExpr ''f'' [NumberExpr 0]))]\<rparr>]"

definition return_in_while :: CompUnit where
  "return_in_while =
     [\<lparr>return_type = RT_INT, fname = ''main'', params = [],
       body = [WhileStmt (NumberExpr 0) (Block [ReturnStmt (Some (NumberExpr 1))])]\<rparr>]"

definition return_in_if_arm' :: CompUnit' where
  "return_in_if_arm' =
     [\<lparr>fd_returnType = ''int'', fd_name = ''f'',
       fd_params = [\<lparr>pname = ''c'', pline = 1, pcolumn = 11\<rparr>],
       fd_body = [IfStmt' (VariableExpr' ''c'' 1 20)
                    (ReturnStmt' (Some (NumberExpr' 1 1 30)) 1 23) None 1 16],
       fd_line = 1, fd_column = 1\<rparr>,
      \<lparr>fd_returnType = ''int'', fd_name = ''main'', fd_params = [],
       fd_body = [ReturnStmt' (Some (CallExpr' ''f'' [NumberExpr' 0 2 21] 2 19)) 2 12],
       fd_line = 2, fd_column = 1\<rparr>]"

definition return_in_while' :: CompUnit' where
  "return_in_while' =
     [\<lparr>fd_returnType = ''int'', fd_name = ''main'', fd_params = [],
       fd_body = [WhileStmt' (NumberExpr' 0 1 20)
                    (BlockStmt' [ReturnStmt' (Some (NumberExpr' 1 1 32)) 1 25] 1 23) 1 14],
       fd_line = 1, fd_column = 1\<rparr>]"

lemma return_in_if_arm_accepted: "errors (analyze return_in_if_arm) = []"
  by code_simp

lemma return_in_while_accepted: "errors (analyze return_in_while) = []"
  by code_simp

lemma return_in_if_arm_accepted': "errorMessages (analyze' return_in_if_arm') = []"
  by code_simp

lemma return_in_while_accepted': "errorMessages (analyze' return_in_while') = []"
  by code_simp

text \<open>
  C1 (evaluation at the failing inputs). Both analyzers accept an \<open>int\<close> function whose only
  \<open>return\<close> sits in one arm of an \<open>if\<close> without \<open>else\<close>, and one whose only \<open>return\<close> sits in
  a \<open>while\<close> body: no error at all is reported, although the structural check
  \<open>has_return_statement\<close> rejects both bodies. The flag raised by any visited
  \<open>return\<close> decides, and the structural check is consulted only when the flag is down.
\<close>

theorem missing_return_not_reported:
  "errors (analyze return_in_if_arm) = []
   \<and> errors (analyze return_in_while) = []
   \<and> errorMessages (analyze' return_in_if_arm') = []
   \<and> errorMessages (analyze' return_in_while') = []
   \<and> \<not> has_return_statement (Block [IfStmt (VarExpr ''c'') (ReturnStmt (Some (NumberExpr 1))) None])
   \<and> \<not> has_return_statement (Block [WhileStmt (NumberExpr 0) (Block [ReturnStmt (Some (NumberExpr 1))])])"
  using return_in_if_arm_accepted return_in_while_accepted
        return_in_if_arm_accepted' return_in_while_accepted'
  by simp

theorem missing_return_not_reported_witness:
  "errors (analyze return_in_if_arm) = []
   \<and> \<not> has_return_statement
         (Block [IfStmt (VarExpr ''c'') (ReturnStmt (Some (NumberExpr 1))) None])"
  using missing_return_not_reported by blast

section \<open>Function registration and call resolution\<close>

text \<open>
  First the analyzer with the pre-pass: a function symbol of the global scope is never
  removed or overwritten, expression analysis leaves the symbol table alone, and the only
  source of an "is not defined" error for a function is a failed \<open>lookup_function\<close>.
\<close>

lemma scope_define_keeps:
  "symbols sc n = Some s \<Longrightarrow> symbols (snd (scope_define sc smb)) n = Some s"
  by (auto simp: scope_define_def is_defined_local_def)

lemma lookup_function_enter_scope [simp]:
  "lookup_function f (enter_scope T) = lookup_function f T"
  by (simp add: lookup_function_def enter_scope_def)

lemma lookup_function_exit_scope [simp]:
  "lookup_function f (exit_scope T) = lookup_function f T"
  by (simp add: lookup_function_def exit_scope_def split: list.splits)

lemma global_bump_stack [simp]:
  "global_scope (snd (bump_stack T)) = global_scope T"
  "inner_scopes (snd (bump_stack T)) = inner_scopes T"
  by (simp_all add: bump_stack_def split: list.splits)

lemma lookup_function_define_in_current:
  "lookup_function f T = Some s \<Longrightarrow> lookup_function f (snd (define_in_current T smb)) = Some s"
  by (auto simp: lookup_function_def define_in_current_def scope_define_def is_defined_local_def
           split: list.splits option.splits if_splits)

lemma lookup_function_bump [simp]:
  "lookup_function f (snd (bump_stack T)) = lookup_function f T"
  by (simp add: lookup_function_def)

lemma lookup_function_define_variable:
  "lookup_function f T = Some s \<Longrightarrow> lookup_function f (snd (define_variable n ty T)) = Some s"
  by (simp add: define_variable_def Let_def lookup_function_define_in_current)

lemma lookup_function_define_parameter:
  "lookup_function f T = Some s \<Longrightarrow> lookup_function f (snd (define_parameter n ty T)) = Some s"
  by (simp add: define_parameter_def Let_def lookup_function_define_in_current)

lemma lookup_function_define_function:
  "lookup_function f T = Some s \<Longrightarrow> lookup_function f (snd (define_function n ret ptys T)) = Some s"
  by (auto simp: lookup_function_def define_function_def Let_def scope_define_def is_defined_local_def
           split: option.splits if_splits)

lemma symbol_table_report_error [simp]:
  "symbol_table (report_error t m S) = symbol_table S"
  by (simp add: report_error_def)

lemma errors_report_error [simp]:
  "errors (report_error t m S) = errors S @ [(t, m)]"
  by (simp add: report_error_def)

lemma symbol_table_visit_Expr:
  "symbol_table (visit_Expr e S) = symbol_table S"
  "symbol_table (check_args args ptys i S) = symbol_table S"
  by (induction e S and args ptys i S rule: visit_Expr_check_args.induct)
     (simp_all add: Let_def split: option.splits)

lemma not_defined_message_inj [simp]:
  "(not_defined_message n = not_defined_message f) = (n = f)"
  by (simp add: not_defined_message_def quoted_def)

definition resolves :: "string \<Rightarrow> SemanticAnalyzer \<Rightarrow> bool" where
  "resolves f S =
     (lookup_function f (symbol_table S) \<noteq> None
      \<and> (UNDEFINED_FUNCTION, not_defined_message f) \<notin> set (errors S))"

lemma resolves_report_error:
  "resolves f S \<Longrightarrow> (t, m) \<noteq> (UNDEFINED_FUNCTION, not_defined_message f)
     \<Longrightarrow> resolves f (report_error t m S)"
  by (auto simp: resolves_def)

lemma resolves_last_expr_type [simp]:
  "resolves f (S\<lparr>last_expr_type := t\<rparr>) = resolves f S"
  by (simp add: resolves_def)



lemma resolves_visit_Expr:
  "resolves f S \<Longrightarrow> resolves f (visit_Expr e S)"
  "resolves f S \<Longrightarrow> resolves f (check_args args ptys i S)"
proof (induction e S and args ptys i S rule: visit_Expr_check_args.induct)
  case (5 n args S)
  show ?case
  proof (cases "lookup_function n (symbol_table S)")
    case None
    with 5(2) have "n \<noteq> f" by (auto simp: resolves_def)
    with None 5(2) show ?thesis by (simp add: resolves_report_error)
  next
    case (Some func)
    with 5 show ?thesis by (simp add: resolves_report_error)
  qed
qed (simp_all add: Let_def resolves_report_error split: option.splits)


lemma resolves_fields [simp]:
  "resolves f (S\<lparr>current_function_has_return := b\<rparr>) = resolves f S"
  "resolves f (S\<lparr>current_function_name := n\<rparr>) = resolves f S"
  "resolves f (S\<lparr>current_function_return_type := t\<rparr>) = resolves f S"
  "resolves f (S\<lparr>in_loop_stack := ls\<rparr>) = resolves f S"
  by (simp_all add: resolves_def)

lemma resolves_loops [simp]:
  "resolves f (enter_loop S) = resolves f S"
  "resolves f (exit_loop S) = resolves f S"
  by (simp_all add: enter_loop_def exit_loop_def)

lemma resolves_scopes [simp]:
  "resolves f (st_enter_scope S) = resolves f S"
  "resolves f (st_exit_scope S) = resolves f S"
  by (simp_all add: resolves_def st_enter_scope_def st_exit_scope_def)

lemma resolves_define_variable:
  "resolves f S \<Longrightarrow> resolves f (S\<lparr>symbol_table := snd (define_variable n ty (symbol_table S))\<rparr>)"
  by (auto simp: resolves_def dest: lookup_function_define_variable)

lemma resolves_define_parameter:
  "resolves f S \<Longrightarrow> resolves f (S\<lparr>symbol_table := snd (define_parameter n ty (symbol_table S))\<rparr>)"
  by (auto simp: resolves_def dest: lookup_function_define_parameter)

lemma resolves_define_function:
  "resolves f S \<Longrightarrow> resolves f (S\<lparr>symbol_table := snd (define_function n ret ptys (symbol_table S))\<rparr>)"
  by (auto simp: resolves_def dest: lookup_function_define_function)

lemma resolves_analyze_expression:
  "resolves f S \<Longrightarrow> resolves f (snd (analyze_expression e S))"
  by (simp add: analyze_expression_def resolves_visit_Expr)

lemma resolves_visit_Stmt:
  "resolves f S \<Longrightarrow> resolves f (visit_Stmt s S)"
  "resolves f S \<Longrightarrow> resolves f (visit_Stmts ss S)"
proof (induction s S and ss S rule: visit_Stmt_visit_Stmts.induct)
  case (5 c t e S)
  let ?S1 = "(if fst (analyze_expression c S) \<noteq> D_INT
              then report_error TYPE_MISMATCH ''If condition must be of int type''
                     (snd (analyze_expression c S))
              else snd (analyze_expression c S))"
  from 5(3) have r1: "resolves f ?S1"
    by (simp add: resolves_report_error resolves_analyze_expression)
  then have r2: "resolves f (visit_Stmt t ?S1)"
    using 5(1) [OF refl refl] by simp
  show ?case
  proof (cases e)
    case None
    with r2 show ?thesis by (simp add: Let_def)
  next
    case (Some el)
    with r2 5(2) [OF refl refl refl Some] show ?thesis by (simp add: Let_def)
  qed
next
  case (6 c b S)
  let ?S1 = "(if fst (analyze_expression c S) \<noteq> D_INT
              then report_error TYPE_MISMATCH ''While condition must be of int type''
                     (snd (analyze_expression c S))
              else snd (analyze_expression c S))"
  from 6(2) have r1: "resolves f (enter_loop ?S1)"
    by (simp add: resolves_report_error resolves_analyze_expression)
  then have "resolves f (visit_Stmt b (enter_loop ?S1))"
    using 6(1) [OF refl refl] by simp
  then show ?case by (simp add: Let_def)
qed (simp_all add: Let_def resolves_report_error resolves_analyze_expression
        resolves_define_variable split: option.splits)

lemma resolves_define_parameters:
  "resolves f S \<Longrightarrow> resolves f (define_parameters ps S)"
  by (induction ps S rule: define_parameters.induct)
     (simp_all add: Let_def resolves_report_error resolves_define_parameter)

lemma resolves_visit_FuncDef:
  "resolves f S \<Longrightarrow> resolves f (visit_FuncDef node S)"
  by (simp add: visit_FuncDef_def Let_def enter_function_scope_def exit_function_scope_def
        resolves_report_error resolves_visit_Stmt resolves_define_parameters)

lemma resolves_visit_FuncDefs:
  "resolves f S \<Longrightarrow> resolves f (visit_FuncDefs fs S)"
  by (induction fs S rule: visit_FuncDefs.induct) (simp_all add: resolves_visit_FuncDef)

text \<open>Pass 1 leaves only function symbols in the global scope and registers every name.\<close>

definition only_functions :: "SemanticAnalyzer \<Rightarrow> bool" where
  "only_functions S =
     (inner_scopes (symbol_table S) = []
      \<and> (\<forall>n smb. symbols (global_scope (symbol_table S)) n = Some smb \<longrightarrow> symbol_type smb = FUNCTION)
      \<and> (\<forall>e \<in> set (errors S). fst e = REDEFINED_FUNCTION))"

lemma only_functions_step:
  assumes "only_functions S"
  shows "only_functions
           (let d = define_function n ret ptys (symbol_table S); S1 = S\<lparr>symbol_table := snd d\<rparr>
            in if \<not> fst d then report_error REDEFINED_FUNCTION m S1 else S1)"
    and "lookup_function n (symbol_table
           (let d = define_function n ret ptys (symbol_table S); S1 = S\<lparr>symbol_table := snd d\<rparr>
            in if \<not> fst d then report_error REDEFINED_FUNCTION m S1 else S1)) \<noteq> None"
  using assms
  by (auto simp: only_functions_def Let_def define_function_def scope_define_def
        is_defined_local_def lookup_function_def split: option.splits)

lemma collect_functions_registers:
  "only_functions S \<Longrightarrow>
     only_functions (collect_functions fs S)
     \<and> (\<forall>f. (f \<in> fname ` set fs \<or> lookup_function f (symbol_table S) \<noteq> None)
            \<longrightarrow> lookup_function f (symbol_table (collect_functions fs S)) \<noteq> None)"
proof (induction fs S rule: collect_functions.induct)
  case (1 S)
  then show ?case by simp
next
  case (2 g gs S)
  let ?S' = "(let d = define_function (fname g) (to_DataType (return_type g))
                        (map (\<lambda>_. D_INT) (params g)) (symbol_table S);
                  S1 = S\<lparr>symbol_table := snd d\<rparr>
              in if \<not> fst d
                 then report_error REDEFINED_FUNCTION
                        (''Function '' @ quoted (fname g) @ '' is already defined'') S1
                 else S1)"
  from 2(2) have o: "only_functions ?S'" by (rule only_functions_step(1))
  from 2(2) have r: "lookup_function (fname g) (symbol_table ?S') \<noteq> None"
    by (rule only_functions_step(2))
  have keep: "lookup_function f (symbol_table S) \<noteq> None
                \<Longrightarrow> lookup_function f (symbol_table ?S') \<noteq> None" for f
    using lookup_function_define_function [of f "symbol_table S"]
    by (auto simp: Let_def)
  have step: "collect_functions (g # gs) S = collect_functions gs ?S'"
    by (simp add: Let_def)
  have IH: "only_functions (collect_functions gs ?S')
     \<and> (\<forall>f. (f \<in> fname ` set gs \<or> lookup_function f (symbol_table ?S') \<noteq> None)
            \<longrightarrow> lookup_function f (symbol_table (collect_functions gs ?S')) \<noteq> None)"
    using 2(1) [OF refl refl] o by (simp add: Let_def)
  show ?case
    unfolding step using IH r keep by auto
qed


lemma toyc2_calls_resolve:
  assumes "f \<in> fname ` set root"
  shows "(UNDEFINED_FUNCTION, not_defined_message f) \<notin> set (errors (analyze root))"
proof -
  let ?S0 = "new_SemanticAnalyzer\<lparr>errors := []\<rparr>"
  have o0: "only_functions ?S0"
    by (simp add: only_functions_def new_SemanticAnalyzer_def new_SymbolTable_def)
  from collect_functions_registers [OF o0, of root] assms
  have o1: "only_functions (collect_functions root ?S0)"
    and r1: "lookup_function f (symbol_table (collect_functions root ?S0)) \<noteq> None"
    by auto
  from o1 have "(UNDEFINED_FUNCTION, not_defined_message f) \<notin> set (errors (collect_functions root ?S0))"
    by (auto simp: only_functions_def)
  with r1 have "resolves f (collect_functions root ?S0)"
    by (simp add: resolves_def)
  then have "resolves f (visit_CompUnit root ?S0)"
    by (simp add: visit_CompUnit_def resolves_visit_FuncDefs)
  then have "(UNDEFINED_FUNCTION, not_defined_message f) \<notin> set (errors (visit_CompUnit root ?S0))"
    by (simp add: resolves_def)
  then show ?thesis
    by (auto simp: analyze_def Let_def not_defined_message_def quoted_def split: option.splits)
qed

lemma functionTable_helper_error [simp]:
  "functionTable (helper_error m ln col V) = functionTable V"
  by (simp add: helper_error_def Let_def)

lemma functionTable_type_visit:
  "functionTable (type_visit e V) = functionTable V"
  "functionTable (type_args args ptys callee ln col i V) = functionTable V"
  by (induction e V and args ptys callee ln col i V rule: type_visit_type_args.induct)
     (simp_all add: Let_def split: option.splits)

lemma functionTable_getExprType [simp]:
  "functionTable (snd (getExprType e V)) = functionTable V"
  by (simp add: getExprType_def functionTable_type_visit)

lemma functionTable_evaluate_for_warning [simp]:
  "functionTable (evaluate_for_warning e V) = functionTable V"
  by (simp add: evaluate_for_warning_def split: sum.splits)

lemma functionTable_visit_expr:
  "functionTable (visit_expr e V) = functionTable V"
  "functionTable (visit_call_args args funcInfo callee ln col i V) = functionTable V"
proof (induction e V and args funcInfo callee ln col i V rule: visit_expr_visit_call_args.induct)
  case (5 callee args ln col V)
  show ?case
  proof (cases "functionTable V callee")
    case None
    then show ?thesis by (cases "callee = currentFunction V") simp_all
  next
    case (Some funcInfo)
    let ?V1 = "(if length (paramTypes funcInfo) \<noteq> length args
                then helper_error (''Incorrect number of arguments for function '' @ quoted callee)
                       ln col V
                else V)"
    have "functionTable (visit_call_args args funcInfo callee ln col 0 ?V1) = functionTable ?V1"
      using 5 Some by simp
    then show ?thesis using Some by (simp add: Let_def)
  qed
qed (simp_all add: Let_def split: option.splits sum.splits)

lemma functionTable_scopes [simp]:
  "functionTable (enterScope V) = functionTable V"
  "functionTable (exitScope V) = functionTable V"
  "functionTable (snd (declareSymbol n smb V)) = functionTable V"
  "functionTable (enterLoop V) = functionTable V"
  "functionTable (exitLoop V) = functionTable V"
  by (simp_all add: enterScope_def exitScope_def declareSymbol_def enterLoop_def exitLoop_def
        split: list.splits)

lemma functionTable_visit_stmt:
  "functionTable (visit_stmt s V) = functionTable V"
  "functionTable (visit_stmts ss V) = functionTable V"
proof (induction s V and ss V rule: visit_stmt_visit_stmts.induct)
  case (5 c t e ln col V)
  let ?V1 = "evaluate_for_warning c
               (if fst (getExprType c (visit_expr c V)) \<noteq> ''int''
                then helper_error ''If condition must be integer (used as boolean)'' ln col
                       (snd (getExprType c (visit_expr c V)))
                else snd (getExprType c (visit_expr c V)))"
  have f1: "functionTable ?V1 = functionTable V"
    by (simp add: functionTable_visit_expr)
  have f2: "functionTable (visit_stmt t ?V1) = functionTable V"
    using 5(1) [OF refl refl] f1 by simp
  show ?case
  proof (cases e)
    case None
    with f2 show ?thesis by (simp add: Let_def)
  next
    case (Some el)
    with f2 5(2) [OF refl refl refl Some] show ?thesis by (simp add: Let_def)
  qed
next
  case (6 c b ln col V)
  let ?V1 = "evaluate_for_warning c
               (if fst (getExprType c (visit_expr c V)) \<noteq> ''int''
                then helper_error ''While condition must be integer (used as boolean)'' ln col
                       (snd (getExprType c (visit_expr c V)))
                else snd (getExprType c (visit_expr c V)))"
  have f1: "functionTable (enterLoop ?V1) = functionTable V"
    by (simp add: functionTable_visit_expr)
  have "functionTable (visit_stmt b (enterLoop ?V1)) = functionTable V"
    using 6 [OF refl refl] f1 by simp
  then show ?case by (simp add: Let_def)
qed (simp_all add: Let_def functionTable_visit_expr split: option.splits list.splits)

lemma functionTable_declare_params [simp]:
  "functionTable (declare_params ps ln col i V) = functionTable V"
  by (induction ps ln col i V rule: declare_params.induct) (simp_all add: Let_def)

lemma dom_functionTable_visit_FunctionDef:
  "dom (functionTable (visit_FunctionDef fd V)) = insert (fd_name fd) (dom (functionTable V))"
  by (simp add: visit_FunctionDef_def Let_def isValidMainFunction_def functionTable_visit_stmt)

lemma dom_functionTable_visit_FunctionDefs:
  "dom (functionTable (visit_FunctionDefs fs V)) = dom (functionTable V) \<union> fd_name ` set fs"
  by (induction fs V rule: visit_FunctionDefs.induct)
     (auto simp: dom_functionTable_visit_FunctionDef)

text \<open>
  A call to a function that is defined later in the compilation unit:
  \<^verbatim>\<open>int main() { return f(); }  int f() { return 1; }\<close>
\<close>

definition forward_call :: CompUnit where
  "forward_call =
     [\<lparr>return_type = RT_INT, fname = ''main'', params = [],
       body = [ReturnStmt (Some (CallExpr ''f'' []))]\<rparr>,
      \<lparr>return_type = RT_INT, fname = ''f'', params = [],
       body = [ReturnStmt (Some (NumberExpr 1))]\<rparr>]"

definition forward_call' :: CompUnit' where
  "forward_call' =
     [\<lparr>fd_returnType = ''int'', fd_name = ''main'', fd_params = [],
       fd_body = [ReturnStmt' (Some (CallExpr' ''f'' [] 1 21)) 1 14],
       fd_line = 1, fd_column = 1\<rparr>,
      \<lparr>fd_returnType = ''int'', fd_name = ''f'', fd_params = [],
       fd_body = [ReturnStmt' (Some (NumberExpr' 1 2 18)) 2 11],
       fd_line = 2, fd_column = 1\<rparr>]"

lemma forward_call_accepted: "errors (analyze forward_call) = []"
  by code_simp

text \<open>
  C3 (counterexample). The analyzer of the IR pipeline has no pre-pass: it rejects the call
  to the later-defined \<open>f\<close> with "Undefined function".
\<close>

theorem forward_call_undefined_function:
  "hd (errorMessages (analyze' forward_call')) = ''Undefined function: f at line 1, column 21''
   \<and> \<not> success (analyze' forward_call')"
  by code_simp

text \<open>
  C3 (amended). The analyzer with the pre-pass registers every top-level function before
  any body is analysed, so a call to any function of the compilation unit, also a
  later-defined one, never produces the "is not defined" error. The analyzer of the IR
  pipeline enters a function into \<open>functionTable\<close> only when it visits the definition
  (after visiting the definitions \<open>fs\<close> the table holds exactly the earlier entries and
  the names of \<open>fs\<close>), and it reports "Undefined function" for every call whose callee is
  neither in the table nor the function being analysed.
\<close>

theorem function_registration:
  "(f \<in> fname ` set root \<longrightarrow>
      (UNDEFINED_FUNCTION, not_defined_message f) \<notin> set (errors (analyze root)))
   \<and> dom (functionTable (visit_FunctionDefs fs V)) = dom (functionTable V) \<union> fd_name ` set fs
   \<and> (functionTable V callee = None \<and> callee \<noteq> currentFunction V \<longrightarrow>
        visit_expr (CallExpr' callee args ln col) V
          = helper_error (''Undefined function: '' @ callee) ln col V)"
  using toyc2_calls_resolve [of f root] dom_functionTable_visit_FunctionDefs [of fs V]
  by simp

theorem function_registration_witness:
  "''f'' \<in> fname ` set forward_call
   \<and> (UNDEFINED_FUNCTION, not_defined_message ''f'') \<notin> set (errors (analyze forward_call))
   \<and> functionTable new_analyzeVisitor ''f'' = None
   \<and> ''f'' \<noteq> currentFunction new_analyzeVisitor
   \<and> visit_expr (CallExpr' ''f'' [] 1 21) new_analyzeVisitor
        = helper_error (''Undefined function: '' @ ''f'') 1 21 new_analyzeVisitor"
  using function_registration [of "''f''" forward_call "[]" new_analyzeVisitor "''f''" "[]" 1 21]
  by (simp add: forward_call_def new_analyzeVisitor_def)

section \<open>Division by zero detection\<close>

text \<open>
  An operand is non-constant when it mentions a variable or a call; \<open>evaluateConstant\<close>
  yields no value for it (it returns the empty \<open>OptionalInt\<close>, or it crashes on a division
  of \<open>INT_MIN\<close> by \<open>-1\<close> inside the operand).
\<close>

fun mentions_variable_or_call :: "Expr' \<Rightarrow> bool" where
  "mentions_variable_or_call (NumberExpr' v ln col) = False"
| "mentions_variable_or_call (VariableExpr' n ln col) = True"
| "mentions_variable_or_call (BinaryExpr' l bop r ln col) =
     (mentions_variable_or_call l \<or> mentions_variable_or_call r)"
| "mentions_variable_or_call (UnaryExpr' uop e ln col) = mentions_variable_or_call e"
| "mentions_variable_or_call (CallExpr' n args ln col) = True"

definition no_value :: "crash + int32 option \<Rightarrow> bool" where
  "no_value res = (case res of Inl c \<Rightarrow> True | Inr None \<Rightarrow> True | Inr (Some v) \<Rightarrow> False)"

lemma evaluateConstant_Binary_no_value:
  "no_value (evaluateConstant l) \<or> no_value (evaluateConstant r)
     \<Longrightarrow> no_value (evaluateConstant (BinaryExpr' l bop r ln col))"
  by (cases "evaluateConstant l"; cases "evaluateConstant r")
     (auto simp: no_value_def split: option.splits)

lemma evaluateConstant_nonconstant:
  "mentions_variable_or_call e \<Longrightarrow> no_value (evaluateConstant e)"
proof (induction e)
  case (BinaryExpr' l bop r ln col)
  then have "no_value (evaluateConstant l) \<or> no_value (evaluateConstant r)" by auto
  then show ?case by (rule evaluateConstant_Binary_no_value)
next
  case (UnaryExpr' uop e ln col)
  then show ?case by (auto simp: no_value_def split: sum.splits option.splits)
qed (simp_all add: no_value_def)

lemma no_value_not_Some: "no_value res \<Longrightarrow> res \<noteq> Inr (Some v)"
  by (auto simp: no_value_def)

text \<open>The flag \<open>ub\<close> of a crashed run stays set in the analysis of expressions.\<close>

lemma ub_helper_error [simp]: "ub (helper_error m ln col V) = ub V"
  by (simp add: helper_error_def Let_def)

lemma ub_type_visit:
  "ub (type_visit e V) = ub V"
  "ub (type_args args ptys callee ln col i V) = ub V"
  by (induction e V and args ptys callee ln col i V rule: type_visit_type_args.induct)
     (simp_all add: Let_def split: option.splits)

lemma ub_getExprType [simp]: "ub (snd (getExprType e V)) = ub V"
  by (simp add: getExprType_def ub_type_visit)

lemma ub_evaluate_for_warning: "ub V \<Longrightarrow> ub (evaluate_for_warning e V)"
  by (simp add: evaluate_for_warning_def split: sum.splits)

lemma reportedErrors_evaluate_for_warning [simp]:
  "reportedErrors (evaluate_for_warning e V) = reportedErrors V"
  by (simp add: evaluate_for_warning_def split: sum.splits)

lemma ub_visit_expr:
  "ub V \<Longrightarrow> ub (visit_expr e V)"
  "ub V \<Longrightarrow> ub (visit_call_args args funcInfo callee ln col i V)"
proof (induction e V and args funcInfo callee ln col i V rule: visit_expr_visit_call_args.induct)
  case (3 l bop r ln col V)
  from 3 have "ub (visit_expr r (visit_expr l V))" by simp
  then show ?case
    by (auto simp: Let_def intro!: ub_evaluate_for_warning split: sum.splits option.splits)
next
  case (5 callee args ln col V)
  show ?case
  proof (cases "functionTable V callee")
    case None
    with 5(2) show ?thesis by (cases "callee = currentFunction V") simp_all
  next
    case (Some funcInfo)
    let ?V1 = "(if length (paramTypes funcInfo) \<noteq> length args
                then helper_error (''Incorrect number of arguments for function '' @ quoted callee)
                       ln col V
                else V)"
    from 5(2) have "ub ?V1" by simp
    with 5(1) Some have "ub (visit_call_args args funcInfo callee ln col 0 ?V1)" by simp
    then show ?thesis using Some by (simp add: Let_def)
  qed
next
  case (7 a rest funcInfo callee ln col i V)
  then show ?case by (simp add: Let_def)
qed (simp_all add: Let_def split: option.splits)

lemma reportedErrors_helper_error:
  "reportedErrors (helper_error m ln col V) = insert (full_message m ln col) (reportedErrors V)"
  by (auto simp: helper_error_def Let_def)

lemma full_message_distinct:
  "hd m \<noteq> hd m' \<Longrightarrow> m \<noteq> [] \<Longrightarrow> m' \<noteq> [] \<Longrightarrow> full_message m ln col \<noteq> full_message m' ln' col'"
  by (cases m; cases m') (auto simp: full_message_def)

lemma analyzeVisitor_division_check:
  "full_message ''Division by zero'' ln col
      \<in> reportedErrors (visit_expr (BinaryExpr' l bop r ln col) V)
   \<longleftrightarrow> ((bop = ''/'' \<or> bop = ''%'') \<and> evaluateConstant r = Inr (Some 0))
       \<or> full_message ''Division by zero'' ln col
            \<in> reportedErrors (type_visit r (type_visit l (visit_expr r (visit_expr l V))))"
proof -
  have d: "full_message ''Division by zero'' ln col
             \<noteq> full_message (''Binary operator '' @ quoted bop @ '' requires int operands'') ln col"
    by (rule full_message_distinct) simp_all
  show ?thesis
    using d
    by (auto simp: Let_def getExprType_def reportedErrors_helper_error
             split: option.splits sum.splits)
qed

lemma analyzeVisitor_division_crash:
  "(bop = ''/'' \<or> bop = ''%'') \<and> evaluateConstant r = Inl c
     \<Longrightarrow> ub (visit_expr (BinaryExpr' l bop r ln col) V)"
  by (auto simp: Let_def is_condition_operator_def)

lemma toyc2_division_check:
  "errors (visit_Expr (BinaryExpr bop l r) S)
     = errors (visit_Expr r (visit_Expr l S))
       @ (if (bop = DIV \<or> bop = MOD) \<and> is_zero_literal r
          then [(DIVISION_BY_ZERO, ''Division by zero'')] else [])"
  by (simp add: Let_def report_error_def)

text \<open>
  Division by a compound constant that folds to zero:
  \<^verbatim>\<open>int main() { return 1 / (2 - 2); }\<close>
\<close>

definition div_by_folded_zero :: CompUnit where
  "div_by_folded_zero =
     [\<lparr>return_type = RT_INT, fname = ''main'', params = [],
       body = [ReturnStmt (Some (BinaryExpr DIV (NumberExpr 1)
                                   (BinaryExpr SUB (NumberExpr 2) (NumberExpr 2))))]\<rparr>]"

definition div_by_folded_zero' :: CompUnit' where
  "div_by_folded_zero' =
     [\<lparr>fd_returnType = ''int'', fd_name = ''main'', fd_params = [],
       fd_body = [ReturnStmt' (Some (BinaryExpr' (NumberExpr' 1 1 21) ''/''
                     (BinaryExpr' (NumberExpr' 2 1 26) ''-'' (NumberExpr' 2 1 30) 1 28) 1 23)) 1 14],
       fd_line = 1, fd_column = 1\<rparr>]"

lemma div_by_folded_zero_reported':
  "errorMessages (analyze' div_by_folded_zero') = [''Division by zero at line 1, column 23'']"
  by code_simp

text \<open>
  C6 (counterexample). The analyzer with the pre-pass only looks for the literal \<open>0\<close>: it
  accepts the division by \<open>2 - 2\<close> without any error.
\<close>

theorem div_by_folded_zero_not_reported:
  "errors (analyze div_by_folded_zero) = []"
  by code_simp

text \<open>
  The analyzer's own arithmetic crashes on \<open>INT_MIN / -1\<close>:
  \<^verbatim>\<open>int main() { return 1 / ((-2147483647 - 1) / -1); }\<close>
\<close>

definition div_by_overflow' :: CompUnit' where
  "div_by_overflow' =
     [\<lparr>fd_returnType = ''int'', fd_name = ''main'', fd_params = [],
       fd_body = [ReturnStmt' (Some (BinaryExpr' (NumberExpr' 1 1 21) ''/''
                     (BinaryExpr'
                        (BinaryExpr' (UnaryExpr' ''-'' (NumberExpr' 2147483647 1 28) 1 27) ''-''
                           (NumberExpr' 1 1 41) 1 39)
                        ''/'' (UnaryExpr' ''-'' (NumberExpr' 1 1 47) 1 46) 1 44) 1 23)) 1 14],
       fd_line = 1, fd_column = 1\<rparr>]"

lemma div_by_overflow_crashes':
  "ub (analyze' div_by_overflow')"
  by code_simp

lemma div_by_folded_zero_returns':
  "\<not> ub (visit_expr
           (BinaryExpr' (NumberExpr' 1 1 21) ''/''
              (BinaryExpr' (NumberExpr' 2 1 26) ''-'' (NumberExpr' 2 1 30) 1 28) 1 23)
           new_analyzeVisitor)"
  by code_simp

text \<open>
  C6 (amended). In the analyzer of the IR pipeline, when the analysis of a division or
  modulo node returns, it has reported "Division by zero" exactly when \<open>evaluateConstant\<close>
  of the right operand yields 0 (a message with the same text and position that the
  analysis of the operands already reported is the only other way for it to be present);
  a right operand that mentions a variable or a call yields no constant value. In the
  analyzer with the pre-pass a division or modulo node reports \<open>DIVISION_BY_ZERO\<close> exactly
  when its right operand is the literal \<open>0\<close>.
\<close>

theorem division_by_zero_detection:
  "(\<not> ub (visit_expr (BinaryExpr' l bop r ln col) V) \<longrightarrow>
      (full_message ''Division by zero'' ln col
          \<in> reportedErrors (visit_expr (BinaryExpr' l bop r ln col) V)
        \<longleftrightarrow> ((bop = ''/'' \<or> bop = ''%'') \<and> evaluateConstant r = Inr (Some 0))
            \<or> full_message ''Division by zero'' ln col
                 \<in> reportedErrors (type_visit r (type_visit l (visit_expr r (visit_expr l V))))))
   \<and> (mentions_variable_or_call e \<longrightarrow> evaluateConstant e \<noteq> Inr (Some v))
   \<and> errors (visit_Expr (BinaryExpr bop2 l2 r2) S)
       = errors (visit_Expr r2 (visit_Expr l2 S))
         @ (if (bop2 = DIV \<or> bop2 = MOD) \<and> is_zero_literal r2
            then [(DIVISION_BY_ZERO, ''Division by zero'')] else [])"
  using analyzeVisitor_division_check [of ln col l bop r V]
        no_value_not_Some [OF evaluateConstant_nonconstant, of e v]
        toyc2_division_check [of bop2 l2 r2 S]
  by blast

theorem division_by_zero_detection_witness:
  "\<not> ub (visit_expr
           (BinaryExpr' (NumberExpr' 1 1 21) ''/''
              (BinaryExpr' (NumberExpr' 2 1 26) ''-'' (NumberExpr' 2 1 30) 1 28) 1 23)
           new_analyzeVisitor)
   \<and> full_message ''Division by zero'' 1 23
       \<in> reportedErrors (visit_expr
            (BinaryExpr' (NumberExpr' 1 1 21) ''/''
               (BinaryExpr' (NumberExpr' 2 1 26) ''-'' (NumberExpr' 2 1 30) 1 28) 1 23)
            new_analyzeVisitor)
   \<and> evaluateConstant (BinaryExpr' (NumberExpr' 2 1 26) ''-'' (NumberExpr' 2 1 30) 1 28)
       = Inr (Some 0)
   \<and> mentions_variable_or_call (VariableExpr' ''x'' 1 1)
   \<and> evaluateConstant (VariableExpr' ''x'' 1 1) \<noteq> Inr (Some 0)
   \<and> errors (visit_Expr (BinaryExpr DIV (NumberExpr 1) (NumberExpr 0)) new_SemanticAnalyzer)
       = [(DIVISION_BY_ZERO, ''Division by zero'')]"
proof -
  have c: "evaluateConstant (BinaryExpr' (NumberExpr' 2 1 26) ''-'' (NumberExpr' 2 1 30) 1 28)
             = Inr (Some 0)"
    by (simp add: constant_binary_def)
  have t: "errors (visit_Expr (NumberExpr 0) (visit_Expr (NumberExpr 1) new_SemanticAnalyzer)) = []"
    by (simp add: new_SemanticAnalyzer_def)
  from division_by_zero_detection
          [of "NumberExpr' 1 1 21" "''/''"
              "BinaryExpr' (NumberExpr' 2 1 26) ''-'' (NumberExpr' 2 1 30) 1 28" 1 23
              new_analyzeVisitor "VariableExpr' ''x'' 1 1" 0
              DIV "NumberExpr 1" "NumberExpr 0" new_SemanticAnalyzer]
       div_by_folded_zero_returns' c t
  show ?thesis
    by (simp del: visit_expr.simps visit_Expr.simps evaluateConstant.simps)
qed

section \<open>AST optimizer (optimizer.cpp)\<close>

fun is_constant_expr :: "Expr \<Rightarrow> bool" where
  "is_constant_expr (NumberExpr v) = True"
| "is_constant_expr (BinaryExpr bop l r) = (is_constant_expr l \<and> is_constant_expr r)"
| "is_constant_expr (UnaryExpr uop e) = is_constant_expr e"
| "is_constant_expr (VarExpr n) = False"
| "is_constant_expr (CallExpr n args) = False"

text \<open>
  The value a binary operator computes in \<open>evaluate_constant_expr\<close>. The divisions are
  guarded against a divisor 0 only: \<open>INT_MIN / -1\<close> and \<open>INT_MIN % -1\<close> crash the optimizer.
\<close>

definition binary_value :: "BinOperator \<Rightarrow> int32 \<Rightarrow> int32 \<Rightarrow> crash + int32" where
  "binary_value bop left_val right_val =
     (case bop of
        ADD \<Rightarrow> Inr (left_val + right_val)
      | SUB \<Rightarrow> Inr (left_val - right_val)
      | MUL \<Rightarrow> Inr (left_val * right_val)
      | DIV \<Rightarrow> (if right_val \<noteq> 0 then c_div left_val right_val else Inr 0)
      | MOD \<Rightarrow> (if right_val \<noteq> 0 then c_mod left_val right_val else Inr 0)
      | LT \<Rightarrow> Inr (b2i (slt left_val right_val))
      | GT \<Rightarrow> Inr (b2i (slt right_val left_val))
      | LE \<Rightarrow> Inr (b2i (sle left_val right_val))
      | GE \<Rightarrow> Inr (b2i (sle right_val left_val))
      | EQ \<Rightarrow> Inr (b2i (left_val = right_val))
      | NE \<Rightarrow> Inr (b2i (left_val \<noteq> right_val))
      | AND \<Rightarrow> Inr (b2i (left_val \<noteq> 0 \<and> right_val \<noteq> 0))
      | OR \<Rightarrow> Inr (b2i (left_val \<noteq> 0 \<or> right_val \<noteq> 0)))"

definition unary_value :: "UnOperator \<Rightarrow> int32 \<Rightarrow> int32" where
  "unary_value uop operand_val =
     (case uop of
        PLUS \<Rightarrow> operand_val
      | MINUS \<Rightarrow> - operand_val
      | NOT \<Rightarrow> (if operand_val \<noteq> 0 then 0 else 1))"

text \<open>
  \<open>evaluate_constant_expr\<close>: a division or modulo by zero inside the expression yields the
  value 0, and so does any expression that is not a number, binary or unary node. \<open>Inl\<close> is
  the crash of a division.
\<close>

fun evaluate_constant_expr :: "Expr \<Rightarrow> crash + int32" where
  "evaluate_constant_expr (NumberExpr v) = Inr v"
| "evaluate_constant_expr (BinaryExpr bop l r) =
     (case evaluate_constant_expr l of
        Inl c \<Rightarrow> Inl c
      | Inr left_val \<Rightarrow>
          (case evaluate_constant_expr r of
             Inl c \<Rightarrow> Inl c
           | Inr right_val \<Rightarrow> binary_value bop left_val right_val))"
| "evaluate_constant_expr (UnaryExpr uop e) =
     (case evaluate_constant_expr e of
        Inl c \<Rightarrow> Inl c
      | Inr operand_val \<Rightarrow> Inr (unary_value uop operand_val))"
| "evaluate_constant_expr (VarExpr n) = Inr 0"
| "evaluate_constant_expr (CallExpr n args) = Inr 0"

text \<open>
  \<open>constant_folding(BinaryExpr&)\<close>: \<open>None\<close> is the \<open>nullptr\<close> result. A division or modulo
  whose own right operand evaluates to 0 is not folded.
\<close>

definition folded_number :: "crash + int32 \<Rightarrow> crash + Expr option" where
  "folded_number res = (case res of Inl c \<Rightarrow> Inl c | Inr v \<Rightarrow> Inr (Some (NumberExpr v)))"

definition constant_folding_binary :: "BinOperator \<Rightarrow> Expr \<Rightarrow> Expr \<Rightarrow> crash + Expr option" where
  "constant_folding_binary bop l r =
     (if \<not> is_constant_expr l \<or> \<not> is_constant_expr r then Inr None
      else (case evaluate_constant_expr l of
              Inl c \<Rightarrow> Inl c
            | Inr left_val \<Rightarrow>
                (case evaluate_constant_expr r of
                   Inl c \<Rightarrow> Inl c
                 | Inr right_val \<Rightarrow>
                     (case bop of
                        DIV \<Rightarrow> (if right_val = 0 then Inr None
                                 else folded_number (c_div left_val right_val))
                      | MOD \<Rightarrow> (if right_val = 0 then Inr None
                                 else folded_number (c_mod left_val right_val))
                      | _ \<Rightarrow> folded_number (binary_value bop left_val right_val)))))"

definition constant_folding_unary :: "UnOperator \<Rightarrow> Expr \<Rightarrow> crash + Expr option" where
  "constant_folding_unary uop e =
     (if \<not> is_constant_expr e then Inr None
      else (case evaluate_constant_expr e of
              Inl c \<Rightarrow> Inl c
            | Inr operand_val \<Rightarrow> Inr (Some (NumberExpr (unary_value uop operand_val)))))"

fun has_side_effects :: "Expr \<Rightarrow> bool" where
  "has_side_effects (CallExpr n args) = True"
| "has_side_effects (BinaryExpr bop l r) = (has_side_effects l \<or> has_side_effects r)"
| "has_side_effects (UnaryExpr uop e) = has_side_effects e"
| "has_side_effects (NumberExpr v) = False"
| "has_side_effects (VarExpr n) = False"

text \<open>
  \<open>simplify_expression\<close> on a non-null expression. It looks at the top node only; the
  second component is the counter \<open>optimizations_applied\<close> after \<open>record_optimization\<close>.
  Each rule returns when all of its tests succeed and otherwise falls through to the next.
\<close>

text \<open>
  \<open>double_operand uop e\<close> is the operand of \<open>e\<close> when \<open>e\<close> is itself a unary node with
  operator \<open>uop\<close> (the \<open>dynamic_cast<UnaryExpr*>\<close> of the \<open>--x\<close> and \<open>!!x\<close> rules).
\<close>

fun double_operand :: "UnOperator \<Rightarrow> Expr \<Rightarrow> Expr option" where
  "double_operand uop (UnaryExpr inner_op inner) = (if inner_op = uop then Some inner else None)"
| "double_operand uop (NumberExpr v) = None"
| "double_operand uop (VarExpr n) = None"
| "double_operand uop (BinaryExpr bop l r) = None"
| "double_operand uop (CallExpr n args) = None"

text \<open>
  \<open>constant_equals e v\<close> is the test \<open>is_constant_expr(e) && evaluate_constant_expr(e) == v\<close>,
  \<open>either_equals l r v\<close> the disjunction of the two tests of the \<open>x * 0\<close> rule, and
  \<open>when_rule\<close> one rule: when the operator is the one of the rule and the test succeeds,
  the rule returns its result, otherwise the next rule is tried.
\<close>

definition constant_equals :: "Expr \<Rightarrow> int32 \<Rightarrow> crash + bool" where
  "constant_equals e v =
     (if \<not> is_constant_expr e then Inr False
      else (case evaluate_constant_expr e of Inl c \<Rightarrow> Inl c | Inr x \<Rightarrow> Inr (x = v)))"

definition either_equals :: "Expr \<Rightarrow> Expr \<Rightarrow> int32 \<Rightarrow> crash + bool" where
  "either_equals l r v =
     (case constant_equals l v of
        Inl c \<Rightarrow> Inl c
      | Inr True \<Rightarrow> Inr True
      | Inr False \<Rightarrow> constant_equals r v)"

definition when_rule ::
  "bool \<Rightarrow> crash + bool \<Rightarrow> Expr \<times> int \<Rightarrow> crash + Expr \<times> int \<Rightarrow> crash + Expr \<times> int" where
  "when_rule operator_matches test result otherwise =
     (if \<not> operator_matches then otherwise
      else (case test of
              Inl c \<Rightarrow> Inl c
            | Inr True \<Rightarrow> Inr result
            | Inr False \<Rightarrow> otherwise))"

fun simplify_expression :: "Expr \<Rightarrow> int \<Rightarrow> crash + Expr \<times> int" where
  "simplify_expression (BinaryExpr bop l r) cnt =
     (case constant_folding_binary bop l r of
        Inl c \<Rightarrow> Inl c
      | Inr (Some folded) \<Rightarrow> Inr (folded, cnt + 1)
      | Inr None \<Rightarrow>
          when_rule (bop = ADD) (constant_equals r 0) (l, cnt + 1)
         (when_rule (bop = ADD) (constant_equals l 0) (r, cnt + 1)
         (when_rule (bop = MUL) (constant_equals r 1) (l, cnt + 1)
         (when_rule (bop = MUL) (constant_equals l 1) (r, cnt + 1)
         (when_rule (bop = MUL) (either_equals l r 0) (NumberExpr 0, cnt + 1)
         (when_rule (bop = SUB) (constant_equals r 0) (l, cnt + 1)
         (Inr (BinaryExpr bop l r, cnt))))))))"
| "simplify_expression (UnaryExpr uop e) cnt =
     (case constant_folding_unary uop e of
        Inl c \<Rightarrow> Inl c
      | Inr (Some folded) \<Rightarrow> Inr (folded, cnt + 1)
      | Inr None \<Rightarrow>
          if uop = MINUS
          then (case double_operand MINUS e of
                  Some inner \<Rightarrow> Inr (inner, cnt + 1)
                | None \<Rightarrow> Inr (UnaryExpr uop e, cnt))
          else if uop = NOT
          then (case double_operand NOT e of
                  Some inner \<Rightarrow> Inr (BinaryExpr NE inner (NumberExpr 0), cnt + 1)
                | None \<Rightarrow> Inr (UnaryExpr uop e, cnt))
          else Inr (UnaryExpr uop e, cnt))"
| "simplify_expression (NumberExpr v) cnt = Inr (NumberExpr v, cnt)"
| "simplify_expression (VarExpr n) cnt = Inr (VarExpr n, cnt)"
| "simplify_expression (CallExpr n args) cnt = Inr (CallExpr n args, cnt)"

definition is_unreachable_after :: "Stmt \<Rightarrow> bool" where
  "is_unreachable_after s = (case s of ReturnStmt vo \<Rightarrow> True | BreakStmt \<Rightarrow> True
                              | ContinueStmt \<Rightarrow> True | _ \<Rightarrow> False)"

definition is_dead_expression :: "Stmt \<Rightarrow> bool" where
  "is_dead_expression s = (case s of ExprStmt (Some e) \<Rightarrow> \<not> has_side_effects e | _ \<Rightarrow> False)"

text \<open>
  \<open>eliminate_dead_code\<close>: \<open>kept\<close> are the statements before the iterator, \<open>prev_it\<close> is the
  last of them; an erased statement leaves the iterator on its successor.
\<close>

fun eliminate_dead_code :: "Stmt list \<Rightarrow> Stmt list \<Rightarrow> int \<Rightarrow> Stmt list \<times> int" where
  "eliminate_dead_code kept [] cnt = (kept, cnt)"
| "eliminate_dead_code kept (s # rest) cnt =
     (if kept \<noteq> [] \<and> is_unreachable_after (last kept) then eliminate_dead_code kept rest (cnt + 1)
      else if is_dead_expression s then eliminate_dead_code kept rest (cnt + 1)
      else eliminate_dead_code (kept @ [s]) rest cnt)"

text \<open>
  \<open>optimize_if_statement\<close> moves a branch out of the node. The result is the returned
  statement (\<open>None\<close> for \<open>nullptr\<close>) together with \<open>then_stmt\<close> and \<open>else_stmt\<close> of the node
  afterwards, where a moved-from pointer is \<open>None\<close>. The empty statement is
  \<open>ExprStmt(nullptr)\<close>.
\<close>

definition optimize_if_statement ::
  "Expr \<Rightarrow> Stmt \<Rightarrow> Stmt option \<Rightarrow> crash + Stmt option \<times> Stmt option \<times> Stmt option" where
  "optimize_if_statement c t e =
     (if is_constant_expr c
      then (case evaluate_constant_expr c of
              Inl cr \<Rightarrow> Inl cr
            | Inr cond_val \<Rightarrow>
                if cond_val \<noteq> 0 then Inr (Some t, None, e)
                else (case e of
                        Some el \<Rightarrow> Inr (Some el, Some t, None)
                      | None \<Rightarrow> Inr (Some (ExprStmt None), Some t, None)))
      else Inr (None, Some t, e))"

definition optimize_while_statement :: "Expr \<Rightarrow> Stmt \<Rightarrow> crash + Stmt option" where
  "optimize_while_statement c b =
     (if is_constant_expr c
      then (case evaluate_constant_expr c of
              Inl cr \<Rightarrow> Inl cr
            | Inr cond_val \<Rightarrow> if cond_val = 0 then Inr (Some (ExprStmt None)) else Inr None)
      else Inr None)"

text \<open>
  The statement visitor of the optimizer. It returns the rewritten node and the counter,
  or a crash: the dereference of a moved-from branch, or a division in the constant
  evaluation. In \<open>visit(IfStmt)\<close> and \<open>visit(WhileStmt)\<close> the statement computed by
  \<open>optimize_if_statement\<close> or \<open>optimize_while_statement\<close> is only counted and then dropped.
  A branch that is still present after \<open>optimize_if_statement\<close> is the untouched original
  branch. \<open>with_simplified e cnt node\<close> puts the simplified expression into the node.
\<close>

definition with_simplified :: "Expr \<Rightarrow> int \<Rightarrow> (Expr \<Rightarrow> Stmt) \<Rightarrow> crash + Stmt \<times> int" where
  "with_simplified e cnt node =
     (case simplify_expression e cnt of
        Inl cr \<Rightarrow> Inl cr
      | Inr (e', cnt') \<Rightarrow> Inr (node e', cnt'))"

fun opt_visit :: "Stmt \<Rightarrow> int \<Rightarrow> crash + Stmt \<times> int"
  and opt_visit_list :: "Stmt list \<Rightarrow> int \<Rightarrow> crash + Stmt list \<times> int"
where
  "opt_visit (Block stmts) cnt =
     (case opt_visit_list stmts cnt of
        Inl err \<Rightarrow> Inl err
      | Inr (stmts', cnt') \<Rightarrow>
          Inr (Block (fst (eliminate_dead_code [] stmts' cnt')),
               snd (eliminate_dead_code [] stmts' cnt')))"
| "opt_visit (ExprStmt eo) cnt =
     (case eo of
        None \<Rightarrow> Inr (ExprStmt None, cnt)
      | Some e \<Rightarrow> with_simplified e cnt (\<lambda>e'. ExprStmt (Some e')))"
| "opt_visit (VarDecl n init_expr) cnt = with_simplified init_expr cnt (\<lambda>e'. VarDecl n e')"
| "opt_visit (AssignStmt n v) cnt = with_simplified v cnt (\<lambda>e'. AssignStmt n e')"
| "opt_visit (IfStmt c t e) cnt =
     (case simplify_expression c cnt of
        Inl cr \<Rightarrow> Inl cr
      | Inr (c', cnt1) \<Rightarrow>
          (case optimize_if_statement c' t e of
             Inl cr \<Rightarrow> Inl cr
           | Inr (optimized_if, then_stmt, else_stmt) \<Rightarrow>
               if then_stmt = None then Inl NullPointerDereference
               else (case opt_visit t (if optimized_if \<noteq> None then cnt1 + 1 else cnt1) of
                       Inl err \<Rightarrow> Inl err
                     | Inr (t', cnt3) \<Rightarrow>
                         (case e of
                            None \<Rightarrow> Inr (IfStmt c' t' None, cnt3)
                          | Some el \<Rightarrow>
                              if else_stmt = None then Inr (IfStmt c' t' None, cnt3)
                              else (case opt_visit el cnt3 of
                                      Inl err \<Rightarrow> Inl err
                                    | Inr (el', cnt4) \<Rightarrow> Inr (IfStmt c' t' (Some el'), cnt4))))))"
| "opt_visit (WhileStmt c b) cnt =
     (case simplify_expression c cnt of
        Inl cr \<Rightarrow> Inl cr
      | Inr (c', cnt1) \<Rightarrow>
          (case optimize_while_statement c' b of
             Inl cr \<Rightarrow> Inl cr
           | Inr optimized_while \<Rightarrow>
               (case opt_visit b (if optimized_while \<noteq> None then cnt1 + 1 else cnt1) of
                  Inl err \<Rightarrow> Inl err
                | Inr (b', cnt3) \<Rightarrow> Inr (WhileStmt c' b', cnt3))))"
| "opt_visit BreakStmt cnt = Inr (BreakStmt, cnt)"
| "opt_visit ContinueStmt cnt = Inr (ContinueStmt, cnt)"
| "opt_visit (ReturnStmt vo) cnt =
     (case vo of
        None \<Rightarrow> Inr (ReturnStmt None, cnt)
      | Some v \<Rightarrow> with_simplified v cnt (\<lambda>e'. ReturnStmt (Some e')))"
| "opt_visit_list [] cnt = Inr ([], cnt)"
| "opt_visit_list (s # ss) cnt =
     (case opt_visit s cnt of
        Inl err \<Rightarrow> Inl err
      | Inr (s', cnt') \<Rightarrow>
          (case opt_visit_list ss cnt' of
             Inl err \<Rightarrow> Inl err
           | Inr (ss', cnt'') \<Rightarrow> Inr (s' # ss', cnt'')))"

lemma optimize_if_statement_branches:
  "optimize_if_statement c t e = Inr (optimized_if, then_stmt, else_stmt)
     \<Longrightarrow> then_stmt \<in> {None, Some t} \<and> else_stmt \<in> {None, e}"
  by (auto simp: optimize_if_statement_def split: option.splits sum.splits if_splits)

fun opt_visit_functions :: "FuncDef list \<Rightarrow> int \<Rightarrow> crash + FuncDef list \<times> int" where
  "opt_visit_functions [] cnt = Inr ([], cnt)"
| "opt_visit_functions (f # fs) cnt =
     (case opt_visit (Block (body f)) cnt of
        Inl err \<Rightarrow> Inl err
      | Inr (b', cnt') \<Rightarrow>
          (case opt_visit_functions fs cnt' of
             Inl err \<Rightarrow> Inl err
           | Inr (fs', cnt'') \<Rightarrow>
               Inr (f\<lparr>body := (case b' of Block stmts \<Rightarrow> stmts | _ \<Rightarrow> body f)\<rparr> # fs', cnt'')))"

text \<open>\<open>Optimizer::optimize\<close>: nothing happens unless optimization was enabled.\<close>

definition optimize :: "bool \<Rightarrow> CompUnit \<Rightarrow> crash + CompUnit \<times> int" where
  "optimize optimization_enabled root =
     (if \<not> optimization_enabled then Inr (root, 0) else opt_visit_functions root 0)"

section \<open>Reference evaluation of expressions\<close>

text \<open>
  Modelled from the spec: the ToyC evaluation of an expression without calls, which the
  repository does not implement (it only compiles). Values are 32-bit two's complement;
  \<open>&&\<close> and \<open>||\<close> evaluate their right operand only when the left one does not decide;
  a division or modulo whose divisor evaluates to 0 signals \<open>DivisionByZero\<close>, any other
  division has the result of the target's \<open>div\<close> or \<open>rem\<close> instruction.
\<close>

definition reference_value :: "BinOperator \<Rightarrow> int32 \<Rightarrow> int32 \<Rightarrow> int32" where
  "reference_value bop a b =
     (case bop of
        ADD \<Rightarrow> a + b
      | SUB \<Rightarrow> a - b
      | MUL \<Rightarrow> a * b
      | DIV \<Rightarrow> wrap_div a b
      | MOD \<Rightarrow> wrap_mod a b
      | LT \<Rightarrow> b2i (slt a b)
      | GT \<Rightarrow> b2i (slt b a)
      | LE \<Rightarrow> b2i (sle a b)
      | GE \<Rightarrow> b2i (sle b a)
      | EQ \<Rightarrow> b2i (a = b)
      | NE \<Rightarrow> b2i (a \<noteq> b)
      | AND \<Rightarrow> b2i (a \<noteq> 0 \<and> b \<noteq> 0)
      | OR \<Rightarrow> b2i (a \<noteq> 0 \<or> b \<noteq> 0))"

datatype eval_result = Value int32 | DivisionByZero | CallNotEvaluated

fun eval :: "(string \<Rightarrow> int32) \<Rightarrow> Expr \<Rightarrow> eval_result" where
  "eval env (NumberExpr v) = Value v"
| "eval env (VarExpr n) = Value (env n)"
| "eval env (UnaryExpr uop e) =
     (case eval env e of
        Value a \<Rightarrow> Value (unary_value uop a)
      | DivisionByZero \<Rightarrow> DivisionByZero
      | CallNotEvaluated \<Rightarrow> CallNotEvaluated)"
| "eval env (BinaryExpr bop l r) =
     (case eval env l of
        Value a \<Rightarrow>
          if bop = AND \<and> a = 0 then Value 0
          else if bop = OR \<and> a \<noteq> 0 then Value 1
          else (case eval env r of
                  Value b \<Rightarrow>
                    if (bop = DIV \<or> bop = MOD) \<and> b = 0 then DivisionByZero
                    else Value (reference_value bop a b)
                | DivisionByZero \<Rightarrow> DivisionByZero
                | CallNotEvaluated \<Rightarrow> CallNotEvaluated)
      | DivisionByZero \<Rightarrow> DivisionByZero
      | CallNotEvaluated \<Rightarrow> CallNotEvaluated)"
| "eval env (CallExpr n args) = CallNotEvaluated"

section \<open>Folding soundness\<close>

text \<open>
  When the evaluation of an expression yields a value and \<open>simplify_expression\<close> returns,
  the expression it returns yields the same value in every environment.
\<close>

lemma binary_value_reference:
  "binary_value bop a b = Inr w \<Longrightarrow> \<not> ((bop = DIV \<or> bop = MOD) \<and> b = 0)
     \<Longrightarrow> w = reference_value bop a b"
  by (cases bop)
     (auto simp: binary_value_def reference_value_def c_div_def c_mod_def split: if_splits)

lemma eval_constant:
  "is_constant_expr e \<Longrightarrow> eval env e = Value v \<Longrightarrow> evaluate_constant_expr e = Inr w \<Longrightarrow> w = v"
proof (induction e arbitrary: v w)
  case (BinaryExpr bop l r)
  from BinaryExpr.prems(3) obtain a' b' where
    l': "evaluate_constant_expr l = Inr a'" and r': "evaluate_constant_expr r = Inr b'"
    and w: "binary_value bop a' b' = Inr w"
    by (auto split: sum.splits)
  from BinaryExpr.prems(2) obtain a where a: "eval env l = Value a"
    by (auto split: eval_result.splits)
  from BinaryExpr.IH(1) [OF _ a l'] BinaryExpr.prems(1) have la: "a' = a" by simp
  show ?case
  proof (cases "(bop = AND \<and> a = 0) \<or> (bop = OR \<and> a \<noteq> 0)")
    case True
    with BinaryExpr.prems(2) a la w show ?thesis
      by (auto simp: binary_value_def b2i_def)
  next
    case False
    with BinaryExpr.prems(2) a obtain b where b: "eval env r = Value b"
      by (auto split: eval_result.splits if_splits)
    from BinaryExpr.IH(2) [OF _ b r'] BinaryExpr.prems(1) have rb: "b' = b" by simp
    from False BinaryExpr.prems(2) a b have
      nz: "\<not> ((bop = DIV \<or> bop = MOD) \<and> b = 0)" and v: "v = reference_value bop a b"
      by (auto split: if_splits)
    from binary_value_reference [OF w] nz la rb v show ?thesis by simp
  qed
next
  case (UnaryExpr uop e)
  then show ?case by (auto split: eval_result.splits sum.splits)
qed simp_all

lemma double_operand_Some:
  "double_operand uop e = Some inner \<Longrightarrow> e = UnaryExpr uop inner"
  by (cases e) (auto split: if_splits)

lemma constant_folding_binary_Some:
  "constant_folding_binary bop l r = Inr (Some folded)
     \<Longrightarrow> is_constant_expr l \<and> is_constant_expr r
         \<and> (\<exists>w. folded = NumberExpr w \<and> evaluate_constant_expr (BinaryExpr bop l r) = Inr w)"
  by (cases bop)
     (auto simp: constant_folding_binary_def folded_number_def binary_value_def
           split: if_splits sum.splits)

lemma constant_folding_unary_Some:
  "constant_folding_unary uop x = Inr (Some folded)
     \<Longrightarrow> is_constant_expr x
         \<and> (\<exists>w. folded = NumberExpr w \<and> evaluate_constant_expr (UnaryExpr uop x) = Inr w)"
  by (auto simp: constant_folding_unary_def split: if_splits sum.splits)

lemma constant_equals_True:
  "constant_equals e c = Inr True \<longleftrightarrow> is_constant_expr e \<and> evaluate_constant_expr e = Inr c"
  by (auto simp: constant_equals_def split: sum.splits)

lemma either_equals_True:
  "either_equals l r c = Inr True
     \<Longrightarrow> (is_constant_expr l \<and> evaluate_constant_expr l = Inr c)
         \<or> (is_constant_expr r \<and> evaluate_constant_expr r = Inr c)"
  by (auto simp: either_equals_def constant_equals_True split: sum.splits bool.splits)

text \<open>The rules of the binary node, one after the other.\<close>

lemma when_rule_cases:
  assumes "when_rule operator_matches test result otherwise = Inr res"
  obtains "operator_matches" "test = Inr True" "res = result"
        | "otherwise = Inr res"
proof (cases operator_matches)
  case False
  with assms have "otherwise = Inr res" by (simp add: when_rule_def)
  then show ?thesis by (rule that(2))
next
  case True
  show ?thesis
  proof (cases test)
    case (Inl c)
    with True assms show ?thesis by (simp add: when_rule_def)
  next
    case (Inr b)
    show ?thesis
    proof (cases b)
      case True
      with Inr \<open>operator_matches\<close> assms have "res = result" by (simp add: when_rule_def)
      with Inr True \<open>operator_matches\<close> show ?thesis by (intro that(1)) simp_all
    next
      case False
      with Inr \<open>operator_matches\<close> assms have "otherwise = Inr res" by (simp add: when_rule_def)
      then show ?thesis by (rule that(2))
    qed
  qed
qed

lemma simplify_binary_cases:
  assumes "simplify_expression (BinaryExpr bop l r) cnt = Inr (e', cnt')"
  obtains
    (folded) w where "is_constant_expr l" "is_constant_expr r" "e' = NumberExpr w"
      "evaluate_constant_expr (BinaryExpr bop l r) = Inr w"
  | (add_right) "bop = ADD" "is_constant_expr r" "evaluate_constant_expr r = Inr 0" "e' = l"
  | (add_left) "bop = ADD" "is_constant_expr l" "evaluate_constant_expr l = Inr 0" "e' = r"
  | (mul_right) "bop = MUL" "is_constant_expr r" "evaluate_constant_expr r = Inr 1" "e' = l"
  | (mul_left) "bop = MUL" "is_constant_expr l" "evaluate_constant_expr l = Inr 1" "e' = r"
  | (mul_zero) "bop = MUL"
      "(is_constant_expr l \<and> evaluate_constant_expr l = Inr 0)
         \<or> (is_constant_expr r \<and> evaluate_constant_expr r = Inr 0)"
      "e' = NumberExpr 0"
  | (sub_right) "bop = SUB" "is_constant_expr r" "evaluate_constant_expr r = Inr 0" "e' = l"
  | (unchanged) "e' = BinaryExpr bop l r"
proof (cases "constant_folding_binary bop l r")
  case (Inl c)
  with assms show ?thesis by simp
next
  case (Inr fo)
  show ?thesis
  proof (cases fo)
    case (Some f)
    with Inr assms have "f = e'" by simp
    with Some Inr constant_folding_binary_Some [of bop l r e'] show ?thesis
      by (auto intro: folded)
  next
    case None
    with Inr assms have chain:
      "when_rule (bop = ADD) (constant_equals r 0) (l, cnt + 1)
         (when_rule (bop = ADD) (constant_equals l 0) (r, cnt + 1)
         (when_rule (bop = MUL) (constant_equals r 1) (l, cnt + 1)
         (when_rule (bop = MUL) (constant_equals l 1) (r, cnt + 1)
         (when_rule (bop = MUL) (either_equals l r 0) (NumberExpr 0, cnt + 1)
         (when_rule (bop = SUB) (constant_equals r 0) (l, cnt + 1)
         (Inr (BinaryExpr bop l r, cnt))))))) = Inr (e', cnt')"
      by simp
    from chain show ?thesis
    proof (cases rule: when_rule_cases)
      case 1
      then show ?thesis by (auto simp: constant_equals_True intro: add_right)
    next
      case 2
      then show ?thesis
      proof (cases rule: when_rule_cases)
        case 1
        then show ?thesis by (auto simp: constant_equals_True intro: add_left)
      next
        case 2
        then show ?thesis
        proof (cases rule: when_rule_cases)
          case 1
          then show ?thesis by (auto simp: constant_equals_True intro: mul_right)
        next
          case 2
          then show ?thesis
          proof (cases rule: when_rule_cases)
            case 1
            then show ?thesis by (auto simp: constant_equals_True intro: mul_left)
          next
            case 2
            then show ?thesis
            proof (cases rule: when_rule_cases)
              case 1
              with either_equals_True [of l r 0] show ?thesis by (auto intro: mul_zero)
            next
              case 2
              then show ?thesis
              proof (cases rule: when_rule_cases)
                case 1
                then show ?thesis by (auto simp: constant_equals_True intro: sub_right)
              next
                case 2
                then show ?thesis by (auto intro: unchanged)
              qed
            qed
          qed
        qed
      qed
    qed
  qed
qed

lemma folding_sound_when_defined:
  assumes "eval env e = Value v" and "simplify_expression e cnt = Inr (e', cnt')"
  shows "eval env e' = Value v"
proof (cases e)
  case (BinaryExpr bop l r)
  from assms(1) BinaryExpr obtain a where a: "eval env l = Value a"
    by (auto split: eval_result.splits)
  have cl: "is_constant_expr l \<Longrightarrow> evaluate_constant_expr l = Inr x \<Longrightarrow> x = a" for x
    using a by (rule eval_constant [rotated])
  from assms(2) BinaryExpr have s: "simplify_expression (BinaryExpr bop l r) cnt = Inr (e', cnt')"
    by simp
  from s show ?thesis
  proof (cases rule: simplify_binary_cases)
    case (folded w)
    from folded(1,2) have "is_constant_expr (BinaryExpr bop l r)" by simp
    from eval_constant [OF this _ folded(4)] assms(1) BinaryExpr have "w = v" by simp
    with folded(3) show ?thesis by simp
  next
    case unchanged
    with assms(1) BinaryExpr show ?thesis by simp
  next
    case add_right
    with assms(1) BinaryExpr a obtain b where b: "eval env r = Value b"
      by (auto split: eval_result.splits if_splits)
    from eval_constant [OF add_right(2) b add_right(3)] have "b = 0" by simp
    with assms(1) BinaryExpr a b add_right show ?thesis by (simp add: reference_value_def)
  next
    case add_left
    with assms(1) BinaryExpr a obtain b where b: "eval env r = Value b"
      by (auto split: eval_result.splits if_splits)
    from cl add_left have "a = 0" by simp
    with assms(1) BinaryExpr a b add_left show ?thesis by (simp add: reference_value_def)
  next
    case mul_right
    with assms(1) BinaryExpr a obtain b where b: "eval env r = Value b"
      by (auto split: eval_result.splits if_splits)
    from eval_constant [OF mul_right(2) b mul_right(3)] have "b = 1" by simp
    with assms(1) BinaryExpr a b mul_right show ?thesis by (simp add: reference_value_def)
  next
    case mul_left
    with assms(1) BinaryExpr a obtain b where b: "eval env r = Value b"
      by (auto split: eval_result.splits if_splits)
    from cl mul_left have "a = 1" by simp
    with assms(1) BinaryExpr a b mul_left show ?thesis by (simp add: reference_value_def)
  next
    case mul_zero
    with assms(1) BinaryExpr a obtain b where b: "eval env r = Value b"
      by (auto split: eval_result.splits if_splits)
    have cr: "is_constant_expr r \<Longrightarrow> evaluate_constant_expr r = Inr x \<Longrightarrow> x = b" for x
      using b by (rule eval_constant [rotated])
    from mul_zero(2) cl cr have "a = 0 \<or> b = 0" by auto
    with assms(1) BinaryExpr a b mul_zero show ?thesis by (auto simp: reference_value_def)
  next
    case sub_right
    with assms(1) BinaryExpr a obtain b where b: "eval env r = Value b"
      by (auto split: eval_result.splits if_splits)
    from eval_constant [OF sub_right(2) b sub_right(3)] have "b = 0" by simp
    with assms(1) BinaryExpr a b sub_right show ?thesis by (simp add: reference_value_def)
  qed
next
  case (UnaryExpr uop x)
  from assms(1) UnaryExpr obtain a where a: "eval env x = Value a"
    by (auto split: eval_result.splits)
  show ?thesis
  proof (cases "constant_folding_unary uop x")
    case (Inl c)
    with assms(2) UnaryExpr show ?thesis by simp
  next
    case (Inr fo)
    show ?thesis
    proof (cases fo)
      case (Some f)
      with Inr assms(2) UnaryExpr have "f = e'" by simp
      with Some Inr constant_folding_unary_Some [of uop x e'] obtain w where
        w: "is_constant_expr x" "e' = NumberExpr w"
           "evaluate_constant_expr (UnaryExpr uop x) = Inr w"
        by auto
      from w(1) have "is_constant_expr (UnaryExpr uop x)" by simp
      from eval_constant [OF this _ w(3)] assms(1) UnaryExpr have "w = v" by simp
      with w(2) show ?thesis by simp
    next
      case None
      show ?thesis
      proof (cases "double_operand uop x")
        case dn: None
        with None Inr assms UnaryExpr show ?thesis
          by (cases uop) auto
      next
        case (Some inner)
        then have x: "x = UnaryExpr uop inner" by (rule double_operand_Some)
        with a obtain c where c: "eval env inner = Value c"
          by (auto split: eval_result.splits)
        from None Inr assms UnaryExpr Some x a c show ?thesis
          by (cases uop) (auto simp: unary_value_def reference_value_def b2i_def)
      qed
    qed
  qed
qed (use assms in auto)

text \<open>
  The optimizer's own arithmetic crashes on \<open>INT_MIN / -1\<close>, in constant folding and in the
  test of a rule.
\<close>

lemma folding_crashes_on_overflow:
  "simplify_expression (BinaryExpr DIV (NumberExpr INT_MIN) (NumberExpr (- 1))) cnt
     = Inl ArithmeticTrap"
  "simplify_expression
     (BinaryExpr ADD (VarExpr ''x'') (BinaryExpr DIV (NumberExpr INT_MIN) (NumberExpr (- 1)))) cnt
     = Inl ArithmeticTrap"
  by (simp_all add: constant_folding_binary_def folded_number_def c_div_def binary_value_def
        when_rule_def constant_equals_def INT_MIN_def)

text \<open>
  C2 (evaluation at the failing input). \<open>x + (1/0)\<close> is simplified to \<open>x\<close>: the
  evaluation of the original signals the division by zero in every environment, the
  rewritten expression returns the value of \<open>x\<close>. The same happens in constant folding:
  \<open>(1/0) + 1\<close> becomes \<open>1\<close>. \<open>evaluate_constant_expr\<close> gives a nested division by zero
  the value 0, and only \<open>constant_folding\<close> checks its own divisor.
\<close>

theorem folding_hides_division_by_zero:
  "simplify_expression
      (BinaryExpr ADD (VarExpr ''x'') (BinaryExpr DIV (NumberExpr 1) (NumberExpr 0))) cnt
     = Inr (VarExpr ''x'', cnt + 1)
   \<and> eval env (BinaryExpr ADD (VarExpr ''x'') (BinaryExpr DIV (NumberExpr 1) (NumberExpr 0)))
       = DivisionByZero
   \<and> eval env (VarExpr ''x'') = Value (env ''x'')
   \<and> simplify_expression
        (BinaryExpr ADD (BinaryExpr DIV (NumberExpr 1) (NumberExpr 0)) (NumberExpr 1)) cnt
       = Inr (NumberExpr 1, cnt + 1)
   \<and> eval env (BinaryExpr ADD (BinaryExpr DIV (NumberExpr 1) (NumberExpr 0)) (NumberExpr 1))
       = DivisionByZero"
  by (simp add: constant_folding_binary_def folded_number_def binary_value_def when_rule_def
        constant_equals_def)

theorem folding_hides_division_by_zero_witness:
  "simplify_expression
      (BinaryExpr ADD (VarExpr ''x'') (BinaryExpr DIV (NumberExpr 1) (NumberExpr 0))) 0
     = Inr (VarExpr ''x'', 1)
   \<and> eval (\<lambda>_. 7) (BinaryExpr ADD (VarExpr ''x'') (BinaryExpr DIV (NumberExpr 1) (NumberExpr 0)))
       = DivisionByZero
   \<and> eval (\<lambda>_. 7) (VarExpr ''x'') = Value 7"
  using folding_hides_division_by_zero [of 0 "\<lambda>_. 7"]
  by (simp del: simplify_expression.simps eval.simps)

section \<open>Function calls under algebraic simplification\<close>

text \<open>
  The calls of an expression, in evaluation order. Every rule of \<open>simplify_expression\<close>
  except the multiplication by a constant zero keeps them.
\<close>

fun calls :: "Expr \<Rightarrow> string list"
  and calls_list :: "Expr list \<Rightarrow> string list"
where
  "calls (NumberExpr v) = []"
| "calls (VarExpr n) = []"
| "calls (BinaryExpr bop l r) = calls l @ calls r"
| "calls (UnaryExpr uop e) = calls e"
| "calls (CallExpr n args) = n # calls_list args"
| "calls_list [] = []"
| "calls_list (a # rest) = calls a @ calls_list rest"

lemma constant_no_calls: "is_constant_expr e \<Longrightarrow> calls e = []"
  by (induction e) simp_all

definition multiplies_by_constant_zero :: "Expr \<Rightarrow> bool" where
  "multiplies_by_constant_zero e =
     (case e of
        BinaryExpr bop l r \<Rightarrow>
          bop = MUL \<and> ((is_constant_expr l \<and> evaluate_constant_expr l = Inr 0)
                        \<or> (is_constant_expr r \<and> evaluate_constant_expr r = Inr 0))
      | _ \<Rightarrow> False)"

lemma simplify_keeps_calls:
  assumes "\<not> multiplies_by_constant_zero e" and "simplify_expression e cnt = Inr (e', cnt')"
  shows "calls e' = calls e"
proof (cases e)
  case (BinaryExpr bop l r)
  from assms(2) BinaryExpr have "simplify_expression (BinaryExpr bop l r) cnt = Inr (e', cnt')"
    by simp
  then show ?thesis
  proof (cases rule: simplify_binary_cases)
    case mul_zero
    with assms(1) BinaryExpr show ?thesis by (simp add: multiplies_by_constant_zero_def)
  qed (use BinaryExpr in \<open>simp_all add: constant_no_calls\<close>)
next
  case (UnaryExpr uop x)
  show ?thesis
  proof (cases "constant_folding_unary uop x")
    case (Inl c)
    with assms(2) UnaryExpr show ?thesis by simp
  next
    case (Inr fo)
    show ?thesis
    proof (cases fo)
      case (Some f)
      with Inr assms(2) UnaryExpr have "f = e'" by simp
      with Some Inr constant_folding_unary_Some [of uop x e'] UnaryExpr show ?thesis
        by (auto simp: constant_no_calls)
    next
      case None
      show ?thesis
      proof (cases "double_operand uop x")
        case dn: None
        with None Inr assms(2) UnaryExpr show ?thesis by (cases uop) auto
      next
        case (Some inner)
        then have "x = UnaryExpr uop inner" by (rule double_operand_Some)
        with None Inr assms(2) UnaryExpr Some show ?thesis by (cases uop) auto
      qed
    qed
  qed
qed (use assms in auto)

text \<open>
  C5 (evaluation at the failing input). \<open>f() * 0\<close> is rewritten to \<open>0\<close>: the rule has no
  \<open>has_side_effects\<close> test, so the call disappears. As an expression statement the
  result is then removed by the dead-expression elimination, which does test
  \<open>has_side_effects\<close> and would have kept the original statement.
\<close>

theorem multiplication_by_zero_deletes_call:
  "simplify_expression (BinaryExpr MUL (CallExpr ''f'' []) (NumberExpr 0)) cnt
     = Inr (NumberExpr 0, cnt + 1)
   \<and> has_side_effects (BinaryExpr MUL (CallExpr ''f'' []) (NumberExpr 0))
   \<and> calls (BinaryExpr MUL (CallExpr ''f'' []) (NumberExpr 0)) = [''f'']
   \<and> calls (NumberExpr 0) = []
   \<and> opt_visit (Block [ExprStmt (Some (BinaryExpr MUL (CallExpr ''f'' []) (NumberExpr 0)))]) cnt
       = Inr (Block [], cnt + 2)
   \<and> \<not> is_dead_expression (ExprStmt (Some (BinaryExpr MUL (CallExpr ''f'' []) (NumberExpr 0))))"
  by (simp add: constant_folding_binary_def is_dead_expression_def when_rule_def
        constant_equals_def either_equals_def with_simplified_def)

theorem multiplication_by_zero_deletes_call_witness:
  "simplify_expression (BinaryExpr MUL (CallExpr ''f'' []) (NumberExpr 0)) 0
     = Inr (NumberExpr 0, 1)
   \<and> opt_visit (Block [ExprStmt (Some (BinaryExpr MUL (CallExpr ''f'' []) (NumberExpr 0)))]) 0
       = Inr (Block [], 2)"
  using multiplication_by_zero_deletes_call [of 0]
  by (simp del: simplify_expression.simps opt_visit.simps)

section \<open>Dead branch folding\<close>

text \<open>
  Whenever \<open>visit(IfStmt)\<close> or \<open>visit(WhileStmt)\<close> returns, the node is still an \<open>if\<close> or a
  \<open>while\<close> with the simplified condition: the statement computed for the replacement is
  never installed.
\<close>

lemma if_never_replaced:
  "opt_visit (IfStmt c t e) cnt = Inr (s', cnt')
     \<Longrightarrow> \<exists>c' cnt1 t' e'. simplify_expression c cnt = Inr (c', cnt1) \<and> s' = IfStmt c' t' e'"
  by (auto split: sum.splits option.splits if_splits prod.splits)

lemma while_never_replaced:
  "opt_visit (WhileStmt c b) cnt = Inr (s', cnt')
     \<Longrightarrow> \<exists>c' cnt1 b'. simplify_expression c cnt = Inr (c', cnt1) \<and> s' = WhileStmt c' b'"
  by (auto split: sum.splits option.splits if_splits prod.splits)

text \<open>
  C4 (evaluation at the failing inputs). With a non-zero constant condition
  \<open>optimize_if_statement\<close> moves the then branch out of the node and \<open>visit(IfStmt)\<close>
  then dereferences the emptied pointer. With the condition \<open>0\<close> and an else branch the
  else branch is moved out and dropped: the tree keeps \<open>if (0) a = 1;\<close> and loses
  \<open>a = 2;\<close>. A \<open>while (0)\<close> stays in the tree. In each case the rewrite is counted.
\<close>

theorem constant_condition_not_folded:
  "opt_visit (IfStmt (NumberExpr 1) t e) cnt = Inl NullPointerDereference
   \<and> opt_visit (IfStmt (NumberExpr 0) (AssignStmt ''a'' (NumberExpr 1))
                   (Some (AssignStmt ''a'' (NumberExpr 2)))) cnt
       = Inr (IfStmt (NumberExpr 0) (AssignStmt ''a'' (NumberExpr 1)) None, cnt + 1)
   \<and> opt_visit (WhileStmt (NumberExpr 0) (Block [AssignStmt ''a'' (NumberExpr 1)])) cnt
       = Inr (WhileStmt (NumberExpr 0) (Block [AssignStmt ''a'' (NumberExpr 1)]), cnt + 1)"
  by (simp add: optimize_if_statement_def optimize_while_statement_def
        is_unreachable_after_def is_dead_expression_def with_simplified_def)

theorem constant_condition_not_folded_witness:
  "opt_visit (IfStmt (NumberExpr 1) (AssignStmt ''a'' (NumberExpr 1)) None) 0
     = Inl NullPointerDereference
   \<and> opt_visit (IfStmt (NumberExpr 0) (AssignStmt ''a'' (NumberExpr 1))
                   (Some (AssignStmt ''a'' (NumberExpr 2)))) 0
       = Inr (IfStmt (NumberExpr 0) (AssignStmt ''a'' (NumberExpr 1)) None, 1)"
  using constant_condition_not_folded [of "AssignStmt ''a'' (NumberExpr 1)" None 0]
  by (simp del: opt_visit.simps)

section \<open>Peephole pass on the emitted instruction lines (codegen.cpp)\<close>

text \<open>
  \<open>std::string\<close> searching: \<open>None\<close> is \<open>npos\<close>. \<open>substr(pos)\<close> with \<open>pos > size()\<close>
  throws \<open>std::out_of_range\<close>, which leaves the pass.
\<close>

datatype peephole_error = OutOfRange

fun str_find :: "string \<Rightarrow> string \<Rightarrow> nat option" where
  "str_find [] sub = (if sub = [] then Some 0 else None)"
| "str_find (c # cs) sub =
     (if take (length sub) (c # cs) = sub then Some 0 else map_option Suc (str_find cs sub))"

fun find_first_not_of :: "string \<Rightarrow> string \<Rightarrow> nat option" where
  "find_first_not_of [] chars = None"
| "find_first_not_of (c # cs) chars =
     (if c \<in> set chars then map_option Suc (find_first_not_of cs chars) else Some 0)"

definition starts_with :: "string \<Rightarrow> string \<Rightarrow> bool" where
  "starts_with s pre = (str_find s pre = Some 0)"

text \<open>
  \<open>s.substr(3, s.find(",") - 3)\<close>: the count is computed in \<open>size_t\<close>, so without a comma
  (or with one before index 3) it wraps to a huge number and the rest of the string is taken.
\<close>

definition operand_before_comma :: "string \<Rightarrow> string" where
  "operand_before_comma s =
     (case str_find s '','' of
        None \<Rightarrow> drop 3 s
      | Some i \<Rightarrow> (if 3 \<le> i then take (i - 3) (drop 3 s) else drop 3 s))"

text \<open>\<open>s.substr(s.find(",") + 1)\<close>: \<open>npos + 1\<close> wraps to 0.\<close>

definition after_comma :: "string \<Rightarrow> string" where
  "after_comma s = (case str_find s '','' of None \<Rightarrow> s | Some i \<Rightarrow> drop (i + 1) s)"

text \<open>\<open>s.substr(0, s.find(","))\<close>.\<close>

definition up_to_comma :: "string \<Rightarrow> string" where
  "up_to_comma s = (case str_find s '','' of None \<Rightarrow> s | Some i \<Rightarrow> take i s)"

text \<open>\<open>s.substr(s.find_first_not_of(" \t"))\<close>: throws when nothing but blanks is left.\<close>

definition skip_blanks :: "string \<Rightarrow> peephole_error + string" where
  "skip_blanks s =
     (case find_first_not_of s [CHR '' '', CHR 0x09] of
        None \<Rightarrow> Inl OutOfRange
      | Some i \<Rightarrow> Inr (drop i s))"

text \<open>
  A pattern handler gets the window (up to three lines starting at the cursor). It answers
  \<open>Inr None\<close> for \<open>false\<close> and \<open>Inr (Some w)\<close> for \<open>true\<close> with the window rewritten to \<open>w\<close>.
\<close>

type_synonym handler_result = "peephole_error + string list option"

definition load_store_same :: "string list \<Rightarrow> handler_result" where
  "load_store_same instrs =
     (case instrs of
        load # store # _ \<Rightarrow>
          if starts_with load ''lw '' \<and> starts_with store ''sw ''
          then (let loadReg = operand_before_comma load; loadMem = after_comma load;
                    storeReg = operand_before_comma store; storeMem = after_comma store
                in if loadReg = storeReg \<and> loadMem = storeMem then Inr (Some []) else Inr None)
          else Inr None
      | _ \<Rightarrow> Inr None)"

definition li_compare :: "string list \<Rightarrow> handler_result" where
  "li_compare instrs =
     (case instrs of
        li # branch # _ \<Rightarrow>
          if starts_with li ''li ''
          then (let reg = operand_before_comma li
                in case skip_blanks (after_comma li) of
                     Inl err \<Rightarrow> Inl err
                   | Inr imm \<Rightarrow>
                       if imm = ''0'' \<and> starts_with branch ''beq ''
                       then (let branchParts = drop 4 branch;
                                 rest = after_comma branchParts
                             in case skip_blanks (up_to_comma branchParts) of
                                  Inl err \<Rightarrow> Inl err
                                | Inr reg1 \<Rightarrow>
                                    (case skip_blanks (up_to_comma rest) of
                                       Inl err \<Rightarrow> Inl err
                                     | Inr reg2 \<Rightarrow>
                                         (case skip_blanks (after_comma rest) of
                                            Inl err \<Rightarrow> Inl err
                                          | Inr label \<Rightarrow>
                                              if reg2 = reg
                                              then Inr (Some [''beqz '' @ reg1 @ '', '' @ label])
                                              else if reg1 = reg
                                              then Inr (Some [''beqz '' @ reg2 @ '', '' @ label])
                                              else Inr None)))
                       else Inr None)
          else Inr None
      | _ \<Rightarrow> Inr None)"

definition redundant_move :: "string list \<Rightarrow> handler_result" where
  "redundant_move instrs =
     (case instrs of
        move # _ \<Rightarrow>
          if starts_with move ''mv ''
          then (let dst = operand_before_comma move
                in case skip_blanks (after_comma move) of
                     Inl err \<Rightarrow> Inl err
                   | Inr src \<Rightarrow> if dst = src then Inr (Some []) else Inr None)
          else Inr None
      | [] \<Rightarrow> Inr None)"

text \<open>
  \<open>peepholePatterns\<close> is a \<open>std::map\<close> keyed by the pattern name, so the handlers are tried
  in the order \<open>li_compare\<close>, \<open>load_store_same\<close>, \<open>redundant_move\<close>; the first that
  answers \<open>true\<close> wins.
\<close>

definition try_patterns :: "string list \<Rightarrow> handler_result" where
  "try_patterns window =
     (case li_compare window of
        Inl err \<Rightarrow> Inl err
      | Inr (Some w) \<Rightarrow> Inr (Some w)
      | Inr None \<Rightarrow>
          (case load_store_same window of
             Inl err \<Rightarrow> Inl err
           | Inr (Some w) \<Rightarrow> Inr (Some w)
           | Inr None \<Rightarrow> redundant_move window))"

text \<open>
  One run of the \<open>for\<close> loop: \<open>scanned\<close> are the lines before the cursor \<open>i\<close>, the second
  argument the lines from \<open>i\<close> on. A successful handler replaces the whole window by its
  result and moves the cursor behind it.
\<close>

fun peephole_scan :: "string list \<Rightarrow> string list \<Rightarrow> bool \<Rightarrow> peephole_error + string list \<times> bool" where
  "peephole_scan scanned [] changed = Inr (scanned, changed)"
| "peephole_scan scanned (x # xs) changed =
     (case try_patterns (take 3 (x # xs)) of
        Inl err \<Rightarrow> Inl err
      | Inr (Some w) \<Rightarrow> peephole_scan (scanned @ w) (drop 2 xs) True
      | Inr None \<Rightarrow> peephole_scan (scanned @ [x]) xs changed)"

lemma li_compare_shorter:
  "li_compare window = Inr (Some w) \<Longrightarrow> length w < length window"
  by (auto simp: li_compare_def Let_def split: list.splits sum.splits if_splits)

lemma load_store_same_shorter:
  "load_store_same window = Inr (Some w) \<Longrightarrow> length w < length window"
  by (auto simp: load_store_same_def Let_def split: list.splits if_splits)

lemma redundant_move_shorter:
  "redundant_move window = Inr (Some w) \<Longrightarrow> length w < length window"
  by (auto simp: redundant_move_def Let_def split: list.splits sum.splits if_splits)

lemma try_patterns_shorter:
  "try_patterns window = Inr (Some w) \<Longrightarrow> length w < length window"
  by (auto simp: try_patterns_def split: sum.splits option.splits
           dest: li_compare_shorter load_store_same_shorter redundant_move_shorter)

lemma peephole_scan_length:
  "peephole_scan scanned xs changed = Inr (ys, c)
     \<Longrightarrow> length ys \<le> length scanned + length xs
         \<and> (c \<and> \<not> changed \<longrightarrow> length ys < length scanned + length xs)"
proof (induction scanned xs changed arbitrary: ys c rule: peephole_scan.induct)
  case (1 scanned changed)
  then show ?case by auto
next
  case (2 scanned x xs changed)
  show ?case
  proof (cases "try_patterns (take 3 (x # xs))")
    case (Inl err)
    with 2(3) show ?thesis by simp
  next
    case (Inr r)
    show ?thesis
    proof (cases r)
      case None
      with Inr 2(3) have "peephole_scan (scanned @ [x]) xs changed = Inr (ys, c)" by simp
      from 2(1) [OF Inr None this] show ?thesis by auto
    next
      case (Some w)
      with Inr 2(3) have run: "peephole_scan (scanned @ w) (drop 2 xs) True = Inr (ys, c)" by simp
      from Inr Some have "length w < length (take 3 (x # xs))"
        by (intro try_patterns_shorter) simp
      then have "length w + length (drop 2 xs) < 1 + length xs"
        by (cases xs; cases "tl xs") auto
      with 2(2) [OF Inr Some run] show ?thesis by auto
    qed
  qed
qed

text \<open>
  The \<open>while (changed)\<close> loop. Every run that changes something returns a shorter list, so
  the loop ends. The three handlers are the ones \<open>peepholeOptimize\<close> installs when the
  pattern table is empty, as it is in a generator to which no pattern was added.
\<close>

function peephole_loop :: "string list \<Rightarrow> peephole_error + string list" where
  "peephole_loop instructions =
     (case peephole_scan [] instructions False of
        Inl err \<Rightarrow> Inl err
      | Inr (ys, changed) \<Rightarrow> if changed then peephole_loop ys else Inr ys)"
  by pat_completeness auto
termination
proof (relation "measure length", goal_cases)
  case 1
  show ?case by simp
next
  case (2 instructions r ys changed)
  then have "peephole_scan [] instructions False = Inr (ys, True)" by simp
  from peephole_scan_length [OF this] show ?case by simp
qed

declare peephole_loop.simps [simp del]

definition peepholeOptimize :: "string list \<Rightarrow> peephole_error + string list" where
  "peepholeOptimize instructions = peephole_loop instructions"


section \<open>Store followed by load in the peephole pass\<close>

text \<open>
  No handler begins with a store. \<open>no_pattern_applies\<close> holds of an instruction list in which
  no line begins with \<open>li \<close> or \<open>mv \<close> and no \<open>lw \<close> line is directly followed by a \<open>sw \<close> line;
  on such a list no handler can succeed.
\<close>

definition plain_line :: "string \<Rightarrow> bool" where
  "plain_line s = (\<not> starts_with s ''li '' \<and> \<not> starts_with s ''mv '')"

fun no_pattern_applies :: "string list \<Rightarrow> bool" where
  "no_pattern_applies [] = True"
| "no_pattern_applies [x] = plain_line x"
| "no_pattern_applies (x # y # rest) =
     (plain_line x \<and> \<not> (starts_with x ''lw '' \<and> starts_with y ''sw '')
        \<and> no_pattern_applies (y # rest))"

lemma starts_with_iff: "starts_with s pre = (take (length pre) s = pre)"
  by (cases s) (auto simp: starts_with_def)

lemma no_pattern_applies_tail:
  "no_pattern_applies (x # xs) \<Longrightarrow> no_pattern_applies xs"
  by (cases xs) auto

lemma no_pattern_applies_window:
  "no_pattern_applies (x # xs) \<Longrightarrow> try_patterns (take 3 (x # xs)) = Inr None"
proof (cases xs)
  case Nil
  assume "no_pattern_applies (x # xs)"
  with Nil show ?thesis
    by (simp add: try_patterns_def li_compare_def load_store_same_def redundant_move_def
                  plain_line_def)
next
  case (Cons y rest)
  assume "no_pattern_applies (x # xs)"
  with Cons have p: "\<not> starts_with x ''li ''" "\<not> starts_with x ''mv ''"
    "\<not> (starts_with x ''lw '' \<and> starts_with y ''sw '')"
    by (simp_all add: plain_line_def)
  have "li_compare (x # y # take 1 rest) = Inr None"
    using p(1) by (simp add: li_compare_def)
  moreover have "load_store_same (x # y # take 1 rest) = Inr None"
    using p(3) by (auto simp: load_store_same_def)
  moreover have "redundant_move (x # y # take 1 rest) = Inr None"
    using p(2) by (simp add: redundant_move_def)
  ultimately show ?thesis
    using Cons by (simp add: try_patterns_def)
qed

lemma peephole_scan_no_pattern:
  "no_pattern_applies xs \<Longrightarrow> peephole_scan scanned xs changed = Inr (scanned @ xs, changed)"
proof (induction xs arbitrary: scanned)
  case Nil
  show ?case by simp
next
  case (Cons x xs)
  from Cons.prems have w: "try_patterns (take 3 (x # xs)) = Inr None"
    by (rule no_pattern_applies_window)
  from Cons.prems have "no_pattern_applies xs" by (rule no_pattern_applies_tail)
  from Cons.IH [OF this, of "scanned @ [x]"] w show ?case by simp
qed

lemma peepholeOptimize_no_pattern:
  "no_pattern_applies xs \<Longrightarrow> peepholeOptimize xs = Inr xs"
  by (simp add: peepholeOptimize_def peephole_loop.simps peephole_scan_no_pattern)

lemma store_load_pair_alone:
  "peepholeOptimize [''sw '' @ a, ''lw '' @ b] = Inr [''sw '' @ a, ''lw '' @ b]"
  by (rule peepholeOptimize_no_pattern) (simp add: plain_line_def starts_with_iff)

text \<open>
  The handler called \<open>load_store_same\<close> looks for the opposite order, a load followed by
  a store of the same register to the same slot, and it empties the whole window of up to
  three lines, as \<open>redundant_move\<close> does.
\<close>

lemma load_then_store_clears_window:
  "peepholeOptimize [''lw t0, -12(fp)'', ''sw t0, -12(fp)'', ''add t1, t1, t2''] = Inr []"
  by code_simp

lemma redundant_move_clears_window:
  "peepholeOptimize [''mv t1, t1'', ''sw t0, -12(fp)'', ''lw t0, -12(fp)''] = Inr []"
  by code_simp

lemma li_compare_clears_window:
  "peepholeOptimize [''li t0, 0'', ''beq t1, t0, L3'', ''sw t0, -12(fp)'', ''lw t0, -12(fp)'']
     = Inr [''beqz t1, L3'', ''lw t0, -12(fp)'']"
  by code_simp

text \<open>
  C8 (counterexample). The pass returns the pair \<open>sw t0, -12(fp); lw t0, -12(fp)\<close> as it
  is: the load is not removed.
\<close>

theorem store_load_pair_not_collapsed:
  "peepholeOptimize [''sw t0, -12(fp)'', ''lw t0, -12(fp)'']
     = Inr [''sw t0, -12(fp)'', ''lw t0, -12(fp)'']"
  by code_simp

text \<open>
  C8 (amended). The peephole pass has no rule for a store followed by a load. In an
  instruction list on which no pattern applies apart from the pair, that is, the lines
  around an adjacent \<open>sw\<close>, \<open>lw\<close> pair contain no \<open>li\<close> or \<open>mv\<close> line and no \<open>lw\<close> line
  directly followed by a \<open>sw\<close> line, the pass returns the list unchanged, whatever the
  operands of the store and of the load are: both lines of the pair are kept.
\<close>

theorem store_load_pair_kept:
  assumes "no_pattern_applies (pre @ [''sw '' @ a, ''lw '' @ b] @ post)"
  shows "peepholeOptimize (pre @ [''sw '' @ a, ''lw '' @ b] @ post)
           = Inr (pre @ [''sw '' @ a, ''lw '' @ b] @ post)"
  using assms by (rule peepholeOptimize_no_pattern)

theorem store_load_pair_kept_witness:
  "no_pattern_applies ([''addi sp, sp, -16''] @ [''sw '' @ ''t0, -12(fp)'', ''lw '' @ ''t0, -12(fp)'']
                         @ [''add t1, t1, t0''])
   \<and> peepholeOptimize ([''addi sp, sp, -16''] @ [''sw '' @ ''t0, -12(fp)'', ''lw '' @ ''t0, -12(fp)'']
                         @ [''add t1, t1, t0''])
       = Inr [''addi sp, sp, -16'', ''sw t0, -12(fp)'', ''lw t0, -12(fp)'', ''add t1, t1, t0'']"
  using store_load_pair_kept [of "[''addi sp, sp, -16'']" "''t0, -12(fp)''" "''t0, -12(fp)''"
                                 "[''add t1, t1, t0'']"]
  by (simp add: plain_line_def starts_with_iff)

section \<open>Register allocation (codegen.cpp)\<close>

text \<open>
  A \<open>std::map\<close> with string keys is a list of entries in ascending key order, the order
  in which the allocators iterate over their maps. \<open>std::string\<close> compares the characters
  as unsigned bytes.
\<close>

fun string_less :: "string \<Rightarrow> string \<Rightarrow> bool" where
  "string_less [] [] = False"
| "string_less [] (y # ys) = True"
| "string_less (x # xs) [] = False"
| "string_less (x # xs) (y # ys) =
     ((of_char x :: nat) < of_char y \<or> (x = y \<and> string_less xs ys))"

fun map_put :: "string \<Rightarrow> 'v \<Rightarrow> (string \<times> 'v) list \<Rightarrow> (string \<times> 'v) list" where
  "map_put k v [] = [(k, v)]"
| "map_put k v ((k', v') # m) =
     (if k = k' then (k, v) # m
      else if string_less k k' then (k, v) # (k', v') # m
      else (k', v') # map_put k v m)"

definition map_erase :: "string \<Rightarrow> (string \<times> 'v) list \<Rightarrow> (string \<times> 'v) list" where
  "map_erase k m = filter (\<lambda>e. fst e \<noteq> k) m"

record Register =
  name :: string
  isCallerSaved :: bool
  isCalleeSaved :: bool
  isAllocatable :: bool
  isReserved :: bool
  purpose :: string
  isUsed :: bool

definition mk_Register :: "string \<Rightarrow> bool \<Rightarrow> bool \<Rightarrow> bool \<Rightarrow> bool \<Rightarrow> string \<Rightarrow> bool \<Rightarrow> Register" where
  "mk_Register n caller callee allocatable reserved p used =
     \<lparr>name = n, isCallerSaved = caller, isCalleeSaved = callee, isAllocatable = allocatable,
      isReserved = reserved, purpose = p, isUsed = used\<rparr>"

text \<open>
  The table of \<open>initializeRegisters\<close>; the \<open>purpose\<close> strings are comments of the table
  and are given in English.
\<close>

definition registers :: "Register list" where
  "registers =
     [mk_Register ''zero'' False False False True ''constant 0'' False,
      mk_Register ''t0'' True False True False ''temporary 0'' False,
      mk_Register ''t1'' True False True False ''temporary 1'' False,
      mk_Register ''t2'' True False True False ''temporary 2'' False,
      mk_Register ''t3'' True False True False ''temporary 3'' False,
      mk_Register ''t4'' True False True False ''temporary 4'' False,
      mk_Register ''t5'' True False True False ''temporary 5'' False,
      mk_Register ''t6'' True False True False ''temporary 6'' False,
      mk_Register ''s0'' False True True False ''saved 0 / frame pointer'' False,
      mk_Register ''s1'' False True True False ''saved 1'' False,
      mk_Register ''s2'' False True True False ''saved 2'' False,
      mk_Register ''s3'' False True True False ''saved 3'' False,
      mk_Register ''s4'' False True True False ''saved 4'' False,
      mk_Register ''s5'' False True True False ''saved 5'' False,
      mk_Register ''s6'' False True True False ''saved 6'' False,
      mk_Register ''s7'' False True True False ''saved 7'' False,
      mk_Register ''s8'' False True True False ''saved 8'' False,
      mk_Register ''s9'' False True True False ''saved 9'' False,
      mk_Register ''s10'' False True True False ''saved 10'' False,
      mk_Register ''s11'' False True True False ''saved 11'' False,
      mk_Register ''a0'' True False True False ''argument / return value 0'' False,
      mk_Register ''a1'' True False True False ''argument / return value 1'' False,
      mk_Register ''a2'' True False True False ''argument / return value 2'' False,
      mk_Register ''a3'' True False True False ''argument / return value 3'' False,
      mk_Register ''a4'' True False True False ''argument / return value 4'' False,
      mk_Register ''a5'' True False True False ''argument / return value 5'' False,
      mk_Register ''a6'' True False True False ''argument / return value 6'' False,
      mk_Register ''a7'' True False True False ''argument / return value 7'' False,
      mk_Register ''ra'' True False False True ''return address'' False,
      mk_Register ''sp'' False False False True ''stack pointer'' False,
      mk_Register ''gp'' False False False True ''global pointer'' False,
      mk_Register ''tp'' False False False True ''thread pointer'' False,
      mk_Register ''fp'' False True False True ''frame pointer / s0'' False]"

text \<open>
  The registers that \<open>linearScanRegisterAllocation\<close> and \<open>graphColoringRegisterAllocation\<close>
  hand to the allocator.
\<close>

definition allocatableRegs :: "Register list" where
  "allocatableRegs = filter (\<lambda>reg. isAllocatable reg \<and> \<not> isReserved reg) registers"

record LiveInterval =
  iv_var :: string
  iv_start :: int
  iv_end :: int

text \<open>
  \<open>IRAnalyzer::getDefinedVariables\<close> and \<open>IRAnalyzer::getUsedVariables\<close> are declared in
  \<open>ir.h\<close> and implemented nowhere in the sources; the allocators take them as the
  parameters \<open>getDefinedVariables\<close> and \<open>getUsedVariables\<close> over an arbitrary type of
  instructions.
\<close>

definition define_interval :: "int \<Rightarrow> (string \<times> LiveInterval) list \<Rightarrow> string \<Rightarrow> (string \<times> LiveInterval) list" where
  "define_interval i intervalMap v =
     (case map_of intervalMap v of
        None \<Rightarrow> map_put v \<lparr>iv_var = v, iv_start = i, iv_end = i\<rparr> intervalMap
      | Some iv \<Rightarrow> map_put v (iv\<lparr>iv_start := min (iv_start iv) i\<rparr>) intervalMap)"

definition use_interval :: "int \<Rightarrow> (string \<times> LiveInterval) list \<Rightarrow> string \<Rightarrow> (string \<times> LiveInterval) list" where
  "use_interval i intervalMap v =
     (case map_of intervalMap v of
        None \<Rightarrow> map_put v \<lparr>iv_var = v, iv_start = i, iv_end = max i i\<rparr> intervalMap
      | Some iv \<Rightarrow> map_put v (iv\<lparr>iv_end := max (iv_end iv) i\<rparr>) intervalMap)"

fun intervals_loop ::
  "('i \<Rightarrow> string list) \<Rightarrow> ('i \<Rightarrow> string list) \<Rightarrow> 'i list \<Rightarrow> int
     \<Rightarrow> (string \<times> LiveInterval) list \<Rightarrow> (string \<times> LiveInterval) list" where
  "intervals_loop getDefinedVariables getUsedVariables [] i intervalMap = intervalMap"
| "intervals_loop getDefinedVariables getUsedVariables (instr # rest) i intervalMap =
     intervals_loop getDefinedVariables getUsedVariables rest (i + 1)
       (foldl (use_interval i)
          (foldl (define_interval i) intervalMap (getDefinedVariables instr))
          (getUsedVariables instr))"

definition computeLiveIntervals ::
  "('i \<Rightarrow> string list) \<Rightarrow> ('i \<Rightarrow> string list) \<Rightarrow> 'i list \<Rightarrow> LiveInterval list" where
  "computeLiveIntervals getDefinedVariables getUsedVariables instructions =
     map snd (intervals_loop getDefinedVariables getUsedVariables instructions 0 [])"

text \<open>
  One iteration of the loop of \<open>LinearScanRegisterAllocator::allocate\<close> on the state
  \<open>(allocation, freeRegs, active)\<close>: expire, then either take over the register of the
  active interval that ends last or pop a free register.
\<close>

type_synonym scan_state =
  "(string \<times> string) list \<times> string list \<times> (string \<times> LiveInterval \<times> string) list"

definition find_victim :: "(string \<times> LiveInterval \<times> string) list \<Rightarrow> string \<times> int" where
  "find_victim active =
     foldl (\<lambda>(victimVar, latestEnd) (v, p).
              if iv_end (fst p) > latestEnd then (v, iv_end (fst p)) else (victimVar, latestEnd))
           ('''', - 1) active"

definition active_register :: "(string \<times> LiveInterval \<times> string) list \<Rightarrow> string \<Rightarrow> string" where
  "active_register active v = (case map_of active v of Some p \<Rightarrow> snd p | None \<Rightarrow> '''')"

definition scan_interval :: "scan_state \<Rightarrow> LiveInterval \<Rightarrow> scan_state" where
  "scan_interval st interval =
     (case st of (allocation, freeRegs, active) \<Rightarrow>
        let expired = filter (\<lambda>(v, p). iv_end (fst p) < iv_start interval) active;
            freeRegs1 = freeRegs @ map (\<lambda>(v, p). snd p) expired;
            active1 = foldl (\<lambda>a v. map_erase v a) active (map fst expired)
        in if freeRegs1 = []
           then (case find_victim active1 of (victimVar, latestEnd) \<Rightarrow>
                   if latestEnd > iv_end interval \<and> victimVar \<noteq> ''''
                   then (let reg = active_register active1 victimVar;
                             allocation1 = map_put (iv_var interval) reg allocation;
                             freeRegs2 = freeRegs1 @ [reg];
                             active2 = map_erase victimVar active1
                         in (allocation1, freeRegs2, map_put (iv_var interval) (interval, reg) active2))
                   else (allocation, freeRegs1, active1))
           else (let reg = last freeRegs1
                 in (map_put (iv_var interval) reg allocation, butlast freeRegs1,
                     map_put (iv_var interval) (interval, reg) active1)))"

text \<open>
  \<open>std::sort\<close> with \<open>operator<\<close> of \<open>LiveInterval\<close>, which compares the start positions
  only, fixes no order for intervals with the same start. The sorting function is the
  parameter \<open>std_sort\<close> of the allocator; \<open>sorts_by_start\<close> is what every implementation
  of \<open>std::sort\<close> does with this comparison: it returns the elements of its argument,
  as many as there were, in ascending order of their start positions.
\<close>

definition sorts_by_start :: "(LiveInterval list \<Rightarrow> LiveInterval list) \<Rightarrow> bool" where
  "sorts_by_start std_sort =
     (\<forall>xs. sorted (map iv_start (std_sort xs)) \<and> set (std_sort xs) = set xs
           \<and> length (std_sort xs) = length xs)"

definition LinearScan_allocate ::
  "(LiveInterval list \<Rightarrow> LiveInterval list) \<Rightarrow> ('i \<Rightarrow> string list) \<Rightarrow> ('i \<Rightarrow> string list)
     \<Rightarrow> 'i list \<Rightarrow> Register list \<Rightarrow> (string \<times> string) list" where
  "LinearScan_allocate std_sort getDefinedVariables getUsedVariables instructions availableRegs =
     (let intervals = std_sort
                        (computeLiveIntervals getDefinedVariables getUsedVariables instructions);
          freeRegs = map name (filter (\<lambda>reg. isCalleeSaved reg \<and> name reg \<noteq> ''fp''
                                               \<and> name reg \<noteq> ''s0'') availableRegs)
      in fst (foldl scan_interval ([], freeRegs, []) intervals))"

section \<open>Validity of the register assignment\<close>

text \<open>
  Two live intervals overlap when they share a position. An assignment is a valid coloring
  when no two distinct variables with overlapping live intervals have the same register.
\<close>

definition overlaps :: "LiveInterval \<Rightarrow> LiveInterval \<Rightarrow> bool" where
  "overlaps a b = (max (iv_start a) (iv_start b) \<le> min (iv_end a) (iv_end b))"

definition share_register :: "(string \<times> string) list \<Rightarrow> string \<Rightarrow> string \<Rightarrow> bool" where
  "share_register allocation u v =
     (case map_of allocation u of
        None \<Rightarrow> False
      | Some r \<Rightarrow> map_of allocation v = Some r)"

definition valid_coloring :: "LiveInterval list \<Rightarrow> (string \<times> string) list \<Rightarrow> bool" where
  "valid_coloring intervals allocation =
     (\<forall>a \<in> set intervals. \<forall>b \<in> set intervals.
        iv_var a \<noteq> iv_var b \<and> overlaps a b
          \<longrightarrow> \<not> share_register allocation (iv_var a) (iv_var b))"

text \<open>
  Twelve variables \<open>a\<close> to \<open>l\<close>, defined one after the other; \<open>l\<close> is used right after
  its definition and the other eleven in the last instruction. An instruction is given by
  the variables it defines and the variables it uses.
\<close>

definition twelve_live :: "(string list \<times> string list) list" where
  "twelve_live =
     [([''a''], []), ([''b''], []), ([''c''], []), ([''d''], []), ([''e''], []), ([''f''], []),
      ([''g''], []), ([''h''], []), ([''i''], []), ([''j''], []), ([''k''], []), ([''l''], []),
      ([''m''], [''l'']),
      ([], [''a'', ''b'', ''c'', ''d'', ''e'', ''f'', ''g'', ''h'', ''i'', ''j'', ''k'', ''m''])]"

lemma twelve_live_intervals:
  "computeLiveIntervals fst snd twelve_live =
     [\<lparr>iv_var = ''a'', iv_start = 0, iv_end = 13\<rparr>, \<lparr>iv_var = ''b'', iv_start = 1, iv_end = 13\<rparr>,
      \<lparr>iv_var = ''c'', iv_start = 2, iv_end = 13\<rparr>, \<lparr>iv_var = ''d'', iv_start = 3, iv_end = 13\<rparr>,
      \<lparr>iv_var = ''e'', iv_start = 4, iv_end = 13\<rparr>, \<lparr>iv_var = ''f'', iv_start = 5, iv_end = 13\<rparr>,
      \<lparr>iv_var = ''g'', iv_start = 6, iv_end = 13\<rparr>, \<lparr>iv_var = ''h'', iv_start = 7, iv_end = 13\<rparr>,
      \<lparr>iv_var = ''i'', iv_start = 8, iv_end = 13\<rparr>, \<lparr>iv_var = ''j'', iv_start = 9, iv_end = 13\<rparr>,
      \<lparr>iv_var = ''k'', iv_start = 10, iv_end = 13\<rparr>, \<lparr>iv_var = ''l'', iv_start = 11, iv_end = 12\<rparr>,
      \<lparr>iv_var = ''m'', iv_start = 12, iv_end = 13\<rparr>]"
  by code_simp

text \<open>
  A list whose start positions are ascending and distinct is left as it is by every
  sorting function.
\<close>

lemma sorts_by_start_sorted:
  assumes "sorts_by_start std_sort"
    and "sorted (map iv_start xs)" and "distinct (map iv_start xs)"
  shows "std_sort xs = xs"
proof -
  let ?ys = "std_sort xs"
  from assms(1) have s: "sorted (map iv_start ?ys)" and e: "set ?ys = set xs"
    and l: "length ?ys = length xs"
    by (simp_all add: sorts_by_start_def)
  from assms(3) have dx: "distinct xs" and inj: "inj_on iv_start (set xs)"
    by (simp_all add: distinct_map)
  from dx have "card (set xs) = length xs" by (rule distinct_card)
  with e l have "card (set ?ys) = length ?ys" by simp
  then have dy: "distinct ?ys" by (rule card_distinct)
  with inj e have "distinct (map iv_start ?ys)" by (simp add: distinct_map)
  with s assms(2,3) e have "map iv_start ?ys = map iv_start xs"
    by (intro sorted_distinct_set_unique) simp_all
  moreover from inj e have "inj_on iv_start (set ?ys \<union> set xs)" by simp
  ultimately show ?thesis by (simp add: inj_on_map_eq_map)
qed

lemma twelve_live_linear_scan:
  "LinearScan_allocate (\<lambda>xs. xs) fst snd twelve_live allocatableRegs =
     [(''a'', ''s11''), (''b'', ''s10''), (''c'', ''s9''), (''d'', ''s8''), (''e'', ''s7''),
      (''f'', ''s6''), (''g'', ''s5''), (''h'', ''s4''), (''i'', ''s3''), (''j'', ''s2''),
      (''k'', ''s1''), (''l'', ''s11''), (''m'', ''s11'')]"
  by code_simp

lemma twelve_live_any_sort:
  assumes "sorts_by_start std_sort"
  shows "LinearScan_allocate std_sort fst snd twelve_live allocatableRegs
           = LinearScan_allocate (\<lambda>xs. xs) fst snd twelve_live allocatableRegs"
proof -
  have "std_sort (computeLiveIntervals fst snd twelve_live) = computeLiveIntervals fst snd twelve_live"
    using assms by (rule sorts_by_start_sorted) (simp_all add: twelve_live_intervals)
  then show ?thesis by (simp add: LinearScan_allocate_def)
qed

lemma twelve_live_invalid:
  "share_register
     [(''a'', ''s11''), (''b'', ''s10''), (''c'', ''s9''), (''d'', ''s8''), (''e'', ''s7''),
      (''f'', ''s6''), (''g'', ''s5''), (''h'', ''s4''), (''i'', ''s3''), (''j'', ''s2''),
      (''k'', ''s1''), (''l'', ''s11''), (''m'', ''s11'')] ''a'' ''l''
   \<and> \<not> valid_coloring (computeLiveIntervals fst snd twelve_live)
        [(''a'', ''s11''), (''b'', ''s10''), (''c'', ''s9''), (''d'', ''s8''), (''e'', ''s7''),
         (''f'', ''s6''), (''g'', ''s5''), (''h'', ''s4''), (''i'', ''s3''), (''j'', ''s2''),
         (''k'', ''s1''), (''l'', ''s11''), (''m'', ''s11'')]"
  by code_simp

text \<open>
  C9. With eleven registers in use, linear scan gives the twelfth variable \<open>l\<close> the
  register \<open>s11\<close> of the variable \<open>a\<close>, which ends last, and \<open>a\<close> keeps \<open>s11\<close> in the
  returned assignment although its interval \<open>[0, 13]\<close> contains the interval \<open>[11, 12]\<close> of
  \<open>l\<close>: the assignment returned by linear scan is not a valid coloring, whatever
  implementation of \<open>std::sort\<close> is used.
\<close>

theorem linear_scan_shares_register:
  assumes "sorts_by_start std_sort"
  shows "share_register (LinearScan_allocate std_sort fst snd twelve_live allocatableRegs) ''a'' ''l''
   \<and> \<not> valid_coloring (computeLiveIntervals fst snd twelve_live)
                        (LinearScan_allocate std_sort fst snd twelve_live allocatableRegs)"
  unfolding twelve_live_any_sort [OF assms] twelve_live_linear_scan
  by (rule twelve_live_invalid)

theorem linear_scan_shares_register_witness:
  "sorts_by_start (sort_key iv_start)
   \<and> share_register (LinearScan_allocate (sort_key iv_start) fst snd twelve_live allocatableRegs)
        ''a'' ''l''
   \<and> \<not> valid_coloring (computeLiveIntervals fst snd twelve_live)
        (LinearScan_allocate (sort_key iv_start) fst snd twelve_live allocatableRegs)"
proof -
  have s: "sorts_by_start (sort_key iv_start)"
    by (simp add: sorts_by_start_def)
  from linear_scan_shares_register [OF s] s show ?thesis by simp
qed

section \<open>Graph coloring register allocation (codegen.cpp)\<close>

text \<open>
  \<open>buildInterferenceGraph\<close> computes the lifetimes once more, as pairs, and joins any two
  distinct variables whose lifetimes share a position. A \<open>std::set\<close> of strings is a set;
  \<open>graph[var]\<close> of a missing key is the empty set.
\<close>

definition define_lifetime :: "int \<Rightarrow> (string \<times> int \<times> int) list \<Rightarrow> string \<Rightarrow> (string \<times> int \<times> int) list" where
  "define_lifetime i varLifetimes v =
     (case map_of varLifetimes v of
        None \<Rightarrow> map_put v (i, i) varLifetimes
      | Some lifetime \<Rightarrow> map_put v (min (fst lifetime) i, snd lifetime) varLifetimes)"

definition use_lifetime :: "int \<Rightarrow> (string \<times> int \<times> int) list \<Rightarrow> string \<Rightarrow> (string \<times> int \<times> int) list" where
  "use_lifetime i varLifetimes v =
     (case map_of varLifetimes v of
        None \<Rightarrow> map_put v (i, max i i) varLifetimes
      | Some lifetime \<Rightarrow> map_put v (fst lifetime, max (snd lifetime) i) varLifetimes)"

fun lifetimes_loop ::
  "('i \<Rightarrow> string list) \<Rightarrow> ('i \<Rightarrow> string list) \<Rightarrow> 'i list \<Rightarrow> int
     \<Rightarrow> (string \<times> int \<times> int) list \<Rightarrow> (string \<times> int \<times> int) list" where
  "lifetimes_loop getDefinedVariables getUsedVariables [] i varLifetimes = varLifetimes"
| "lifetimes_loop getDefinedVariables getUsedVariables (instr # rest) i varLifetimes =
     lifetimes_loop getDefinedVariables getUsedVariables rest (i + 1)
       (foldl (use_lifetime i)
          (foldl (define_lifetime i) varLifetimes (getDefinedVariables instr))
          (getUsedVariables instr))"

type_synonym interference_graph = "(string \<times> string set) list"

definition neighbors_of :: "interference_graph \<Rightarrow> string \<Rightarrow> string set" where
  "neighbors_of graph v = (case map_of graph v of Some s \<Rightarrow> s | None \<Rightarrow> {})"

definition add_edge :: "string \<Rightarrow> string \<Rightarrow> interference_graph \<Rightarrow> interference_graph" where
  "add_edge var1 var2 graph = map_put var1 (insert var2 (neighbors_of graph var1)) graph"

definition interfere_pair ::
  "string \<times> int \<times> int \<Rightarrow> interference_graph \<Rightarrow> string \<times> int \<times> int \<Rightarrow> interference_graph" where
  "interfere_pair e1 graph e2 =
     (case e1 of (var1, lifetime1) \<Rightarrow> case e2 of (var2, lifetime2) \<Rightarrow>
        if var1 \<noteq> var2
        then (let overlapStart = max (fst lifetime1) (fst lifetime2);
                  overlapEnd = min (snd lifetime1) (snd lifetime2)
              in if overlapStart \<le> overlapEnd
                 then add_edge var2 var1 (add_edge var1 var2 graph)
                 else graph)
        else graph)"

definition buildInterferenceGraph ::
  "('i \<Rightarrow> string list) \<Rightarrow> ('i \<Rightarrow> string list) \<Rightarrow> 'i list \<Rightarrow> interference_graph" where
  "buildInterferenceGraph getDefinedVariables getUsedVariables instructions =
     (let varLifetimes = lifetimes_loop getDefinedVariables getUsedVariables instructions 0 [];
          graph = foldl (\<lambda>g e. map_put (fst e) {} g) [] varLifetimes
      in foldl (\<lambda>g e1. foldl (interfere_pair e1) g varLifetimes) graph varLifetimes)"

text \<open>
  \<open>simplify\<close>: the node of least degree, the first one in key order, is removed until the
  work graph is empty. \<open>minDegree\<close> starts at \<open>INT_MAX\<close>. When the chosen name is empty the
  code looks for a node of greatest degree with \<open>neighbors.size() > maxDegree\<close>, where
  \<open>maxDegree\<close> starts at \<open>-1\<close> and is converted to \<open>size_t\<close> (64 bits) for the comparison.
  When the name found is not a node of the work graph, nothing is erased and the \<open>while\<close>
  loop never ends: \<open>None\<close>.
\<close>

definition min_degree_node :: "interference_graph \<Rightarrow> string \<times> int" where
  "min_degree_node workGraph =
     foldl (\<lambda>(nodeToRemove, minDegree) (node, neighbors).
              if int (card neighbors) < minDegree then (node, int (card neighbors))
              else (nodeToRemove, minDegree))
           ('''', 2147483647) workGraph"

definition max_degree_node :: "interference_graph \<Rightarrow> string \<times> int" where
  "max_degree_node workGraph =
     foldl (\<lambda>(nodeToRemove, maxDegree) (node, neighbors).
              if int (card neighbors) > maxDegree mod 2 ^ 64 then (node, int (card neighbors))
              else (nodeToRemove, maxDegree))
           ('''', - 1) workGraph"

definition node_to_remove :: "interference_graph \<Rightarrow> string" where
  "node_to_remove workGraph =
     (let nodeToRemove = fst (min_degree_node workGraph)
      in if nodeToRemove = '''' then fst (max_degree_node workGraph) else nodeToRemove)"

definition remove_node :: "string \<Rightarrow> interference_graph \<Rightarrow> interference_graph" where
  "remove_node nodeToRemove workGraph =
     map_erase nodeToRemove (map (\<lambda>(node, neighbors). (node, neighbors - {nodeToRemove})) workGraph)"

lemma remove_node_shorter:
  "nodeToRemove \<in> fst ` set workGraph
     \<Longrightarrow> length (remove_node nodeToRemove workGraph) < length workGraph"
proof -
  assume "nodeToRemove \<in> fst ` set workGraph"
  then obtain s where "(nodeToRemove, s) \<in> set workGraph" by auto
  then have "(nodeToRemove, s - {nodeToRemove})
               \<in> set (map (\<lambda>(node, neighbors). (node, neighbors - {nodeToRemove})) workGraph)"
    by force
  then have "length (filter (\<lambda>e. fst e \<noteq> nodeToRemove)
                       (map (\<lambda>(node, neighbors). (node, neighbors - {nodeToRemove})) workGraph))
               < length (map (\<lambda>(node, neighbors). (node, neighbors - {nodeToRemove})) workGraph)"
    by (intro length_filter_less [where x = "(nodeToRemove, s - {nodeToRemove})"]) auto
  then show ?thesis by (simp add: remove_node_def map_erase_def)
qed

function simplify_loop :: "interference_graph \<Rightarrow> string list \<Rightarrow> string list option" where
  "simplify_loop workGraph simplifiedOrder =
     (if workGraph = [] then Some (rev simplifiedOrder)
      else if node_to_remove workGraph \<in> fst ` set workGraph
           then simplify_loop (remove_node (node_to_remove workGraph) workGraph)
                  (simplifiedOrder @ [node_to_remove workGraph])
           else None)"
  by pat_completeness auto
termination
  by (relation "measure (\<lambda>(workGraph, simplifiedOrder). length workGraph)")
     (simp_all add: remove_node_shorter)

declare simplify_loop.simps [simp del]

definition simplify :: "interference_graph \<Rightarrow> string list option" where
  "simplify graph = simplify_loop graph []"

text \<open>
  \<open>color\<close>: in the order given, a node gets the first register name that none of its
  neighbours in the original graph has; without such a name it gets no register.
\<close>

definition color_node :: "interference_graph \<Rightarrow> string list \<Rightarrow> (string \<times> string) list \<Rightarrow> string \<Rightarrow> (string \<times> string) list" where
  "color_node originalGraph regNames allocation v =
     (case map_of originalGraph v of
        None \<Rightarrow> allocation
      | Some neighbors \<Rightarrow>
          let usedColors = (\<Union>neighbor \<in> neighbors.
                              case map_of allocation neighbor of Some r \<Rightarrow> {r} | None \<Rightarrow> {});
              selectedReg = (case filter (\<lambda>reg. reg \<notin> usedColors) regNames of
                               [] \<Rightarrow> '''' | reg # rest \<Rightarrow> reg)
          in if selectedReg \<noteq> '''' then map_put v selectedReg allocation else allocation)"

definition color :: "string list \<Rightarrow> interference_graph \<Rightarrow> Register list \<Rightarrow> (string \<times> string) list" where
  "color simplifiedOrder originalGraph availableRegs =
     (let regNames = map name (filter (\<lambda>reg. isAllocatable reg \<and> \<not> isReserved reg) availableRegs)
      in foldl (color_node originalGraph regNames) [] simplifiedOrder)"

definition GraphColoring_allocate ::
  "('i \<Rightarrow> string list) \<Rightarrow> ('i \<Rightarrow> string list) \<Rightarrow> 'i list \<Rightarrow> Register list
     \<Rightarrow> (string \<times> string) list option" where
  "GraphColoring_allocate getDefinedVariables getUsedVariables instructions availableRegs =
     (let interferenceGraph = buildInterferenceGraph getDefinedVariables getUsedVariables instructions
      in if interferenceGraph = [] then Some []
         else (case simplify interferenceGraph of
                 None \<Rightarrow> None
               | Some simplifiedOrder \<Rightarrow> Some (color simplifiedOrder interferenceGraph availableRegs)))"

section \<open>Graph coloring returns a valid coloring\<close>

lemma map_of_map_put: "map_of (map_put k v m) = (map_of m)(k \<mapsto> v)"
  by (induction k v m rule: map_put.induct) auto

lemma set_map_put: "set (map_put k v m) \<subseteq> insert (k, v) (set m)"
  by (induction k v m rule: map_put.induct) auto

lemma map_put_apsnd: "map_put k (f v) (map (apsnd f) m) = map (apsnd f) (map_put k v m)"
  by (induction k v m rule: map_put.induct) auto

lemma map_of_apsnd: "map_of (map (apsnd f) m) k = map_option f (map_of m k)"
  by (induction m) auto

text \<open>
  The lifetimes of \<open>buildInterferenceGraph\<close> are the live intervals of
  \<open>computeLiveIntervals\<close>.
\<close>

definition lifetime_of :: "LiveInterval \<Rightarrow> int \<times> int" where
  "lifetime_of iv = (iv_start iv, iv_end iv)"

definition keyed :: "(string \<times> LiveInterval) list \<Rightarrow> bool" where
  "keyed intervalMap = (\<forall>e \<in> set intervalMap. iv_var (snd e) = fst e)"

lemma define_lifetime_interval:
  "define_lifetime i (map (apsnd lifetime_of) m) v = map (apsnd lifetime_of) (define_interval i m v)"
  by (cases "map_of m v")
     (simp_all add: define_lifetime_def define_interval_def map_of_apsnd lifetime_of_def
                    map_put_apsnd [symmetric])

lemma use_lifetime_interval:
  "use_lifetime i (map (apsnd lifetime_of) m) v = map (apsnd lifetime_of) (use_interval i m v)"
  by (cases "map_of m v")
     (simp_all add: use_lifetime_def use_interval_def map_of_apsnd lifetime_of_def
                    map_put_apsnd [symmetric])

lemma foldl_define_lifetime_interval:
  "foldl (define_lifetime i) (map (apsnd lifetime_of) m) vs
     = map (apsnd lifetime_of) (foldl (define_interval i) m vs)"
  by (induction vs arbitrary: m) (simp_all add: define_lifetime_interval)

lemma foldl_use_lifetime_interval:
  "foldl (use_lifetime i) (map (apsnd lifetime_of) m) vs
     = map (apsnd lifetime_of) (foldl (use_interval i) m vs)"
  by (induction vs arbitrary: m) (simp_all add: use_lifetime_interval)

lemma lifetimes_loop_intervals_loop:
  "lifetimes_loop d u instructions i (map (apsnd lifetime_of) m)
     = map (apsnd lifetime_of) (intervals_loop d u instructions i m)"
  by (induction instructions arbitrary: i m)
     (simp_all add: foldl_define_lifetime_interval foldl_use_lifetime_interval)

lemma keyed_map_put: "keyed m \<Longrightarrow> iv_var iv = k \<Longrightarrow> keyed (map_put k iv m)"
  using set_map_put [of k iv m] by (auto simp: keyed_def)

lemma keyed_map_of: "keyed m \<Longrightarrow> map_of m k = Some iv \<Longrightarrow> iv_var iv = k"
  by (auto simp: keyed_def dest!: map_of_SomeD)

lemma keyed_define_interval: "keyed m \<Longrightarrow> keyed (define_interval i m v)"
  by (cases "map_of m v") (auto simp: define_interval_def intro!: keyed_map_put dest: keyed_map_of)

lemma keyed_use_interval: "keyed m \<Longrightarrow> keyed (use_interval i m v)"
  by (cases "map_of m v") (auto simp: use_interval_def intro!: keyed_map_put dest: keyed_map_of)

lemma keyed_foldl_define: "keyed m \<Longrightarrow> keyed (foldl (define_interval i) m vs)"
  by (induction vs arbitrary: m) (simp_all add: keyed_define_interval)

lemma keyed_foldl_use: "keyed m \<Longrightarrow> keyed (foldl (use_interval i) m vs)"
  by (induction vs arbitrary: m) (simp_all add: keyed_use_interval)

lemma keyed_intervals_loop: "keyed m \<Longrightarrow> keyed (intervals_loop d u instructions i m)"
  by (induction instructions arbitrary: i m) (simp_all add: keyed_foldl_define keyed_foldl_use)

lemma interval_has_lifetime:
  assumes "a \<in> set (computeLiveIntervals d u instructions)"
  shows "(iv_var a, lifetime_of a) \<in> set (lifetimes_loop d u instructions 0 [])"
proof -
  let ?m = "intervals_loop d u instructions 0 []"
  from assms obtain k where in_m: "(k, a) \<in> set ?m"
    by (auto simp: computeLiveIntervals_def)
  have "keyed ?m" by (rule keyed_intervals_loop) (simp add: keyed_def)
  with in_m have "iv_var a = k" by (auto simp: keyed_def)
  with in_m have "(iv_var a, lifetime_of a) \<in> set (map (apsnd lifetime_of) ?m)" by force
  then show ?thesis
    using lifetimes_loop_intervals_loop [of d u instructions 0 "[]"] by simp
qed

text \<open>The edges of the interference graph.\<close>

definition edges :: "interference_graph \<Rightarrow> (string \<times> string) set" where
  "edges graph = {(a, b). b \<in> neighbors_of graph a}"

definition interferes :: "string \<times> int \<times> int \<Rightarrow> string \<times> int \<times> int \<Rightarrow> bool" where
  "interferes e1 e2 =
     (fst e1 \<noteq> fst e2 \<and> max (fst (snd e1)) (fst (snd e2)) \<le> min (snd (snd e1)) (snd (snd e2)))"

lemma neighbors_of_add_edge:
  "neighbors_of (add_edge a b g) x = (if x = a then insert b (neighbors_of g a) else neighbors_of g x)"
  by (simp add: add_edge_def neighbors_of_def map_of_map_put)

lemma edges_add_edge: "edges (add_edge a b g) = insert (a, b) (edges g)"
  by (auto simp: edges_def neighbors_of_add_edge split: if_splits)

definition linked :: "string \<times> int \<times> int \<Rightarrow> string \<times> int \<times> int \<Rightarrow> string \<Rightarrow> string \<Rightarrow> bool" where
  "linked e1 e2 a b =
     (interferes e1 e2 \<and> (a = fst e1 \<and> b = fst e2 \<or> a = fst e2 \<and> b = fst e1))"

lemma edges_interfere_pair:
  "(a, b) \<in> edges (interfere_pair e1 g e2) \<longleftrightarrow> (a, b) \<in> edges g \<or> linked e1 e2 a b"
  by (cases e1; cases e2)
     (auto simp: interfere_pair_def interferes_def linked_def edges_add_edge Let_def)

lemma edges_interfere_row:
  "(a, b) \<in> edges (foldl (interfere_pair e1) g ys)
     \<longleftrightarrow> (a, b) \<in> edges g \<or> (\<exists>e2 \<in> set ys. linked e1 e2 a b)"
  by (induction ys arbitrary: g) (auto simp: edges_interfere_pair)

lemma edges_interfere_rows:
  "(a, b) \<in> edges (foldl (\<lambda>g e1. foldl (interfere_pair e1) g ys) g xs)
     \<longleftrightarrow> (a, b) \<in> edges g \<or> (\<exists>e1 \<in> set xs. \<exists>e2 \<in> set ys. linked e1 e2 a b)"
  by (induction xs arbitrary: g) (auto simp: edges_interfere_row)

lemma no_edges_initially:
  "edges g = {} \<Longrightarrow> edges (foldl (\<lambda>g e. map_put (fst e) {} g) g xs) = {}"
proof (induction xs arbitrary: g)
  case Nil
  then show ?case by simp
next
  case (Cons x xs)
  from Cons.prems have "edges (map_put (fst x) {} g) = {}"
    by (auto simp: edges_def neighbors_of_def map_of_map_put split: if_splits)
  from Cons.IH [OF this] show ?case by simp
qed

lemma edges_buildInterferenceGraph:
  "(a, b) \<in> edges (buildInterferenceGraph d u instructions)
     \<longleftrightarrow> (\<exists>e1 \<in> set (lifetimes_loop d u instructions 0 []).
          \<exists>e2 \<in> set (lifetimes_loop d u instructions 0 []). linked e1 e2 a b)"
proof -
  let ?L = "lifetimes_loop d u instructions 0 []"
  have "edges (foldl (\<lambda>g e. map_put (fst e) {} g) [] ?L) = {}"
    by (rule no_edges_initially) (simp add: edges_def neighbors_of_def)
  then show ?thesis
    by (simp add: buildInterferenceGraph_def Let_def edges_interfere_rows)
qed

lemma interfering_variables_are_neighbors:
  assumes "e1 \<in> set (lifetimes_loop d u instructions 0 [])"
    and "e2 \<in> set (lifetimes_loop d u instructions 0 [])"
    and "interferes e1 e2"
  shows "fst e2 \<in> neighbors_of (buildInterferenceGraph d u instructions) (fst e1)"
proof -
  from assms(3) have "linked e1 e2 (fst e1) (fst e2)" by (simp add: linked_def)
  with assms(1,2) have "(fst e1, fst e2) \<in> edges (buildInterferenceGraph d u instructions)"
    unfolding edges_buildInterferenceGraph by blast
  then show ?thesis by (simp add: edges_def)
qed

text \<open>
  \<open>color\<close> never gives a node the register of a neighbour: the graph is symmetric, and a
  node is given a register that no neighbour has at that moment.
\<close>

definition symmetric_graph :: "interference_graph \<Rightarrow> bool" where
  "symmetric_graph graph = (\<forall>a b. b \<in> neighbors_of graph a \<longrightarrow> a \<in> neighbors_of graph b)"

definition proper_coloring :: "interference_graph \<Rightarrow> (string \<times> string) list \<Rightarrow> bool" where
  "proper_coloring graph allocation =
     (\<forall>a b. a \<noteq> b \<and> b \<in> neighbors_of graph a \<longrightarrow> \<not> share_register allocation a b)"

lemma symmetric_buildInterferenceGraph:
  "symmetric_graph (buildInterferenceGraph d u instructions)"
proof -
  have "linked e1 e2 a b \<Longrightarrow> linked e1 e2 b a" for e1 e2 a b
    by (auto simp: linked_def)
  then have "(a, b) \<in> edges (buildInterferenceGraph d u instructions)
          \<Longrightarrow> (b, a) \<in> edges (buildInterferenceGraph d u instructions)" for a b
    unfolding edges_buildInterferenceGraph by blast
  then show ?thesis by (simp add: symmetric_graph_def edges_def)
qed

lemma color_node_proper:
  assumes sym: "symmetric_graph g" and proper: "proper_coloring g allocation"
  shows "proper_coloring g (color_node g regNames allocation x)"
proof (cases "map_of g x")
  case None
  with proper show ?thesis by (simp add: color_node_def)
next
  case (Some nbs)
  define usedColors where
    "usedColors = (\<Union>neighbor \<in> nbs. case map_of allocation neighbor of Some r \<Rightarrow> {r} | None \<Rightarrow> {})"
  define selectedReg where
    "selectedReg = (case filter (\<lambda>reg. reg \<notin> usedColors) regNames of [] \<Rightarrow> '''' | reg # rest \<Rightarrow> reg)"
  have step: "color_node g regNames allocation x
                = (if selectedReg \<noteq> '''' then map_put x selectedReg allocation else allocation)"
    using Some by (simp add: color_node_def usedColors_def selectedReg_def Let_def)
  show ?thesis
  proof (cases "selectedReg = ''''")
    case True
    with step proper show ?thesis by simp
  next
    case False
    have "selectedReg \<notin> usedColors"
    proof (cases "filter (\<lambda>reg. reg \<notin> usedColors) regNames")
      case Nil
      with False show ?thesis by (simp add: selectedReg_def)
    next
      case (Cons reg rest)
      have "reg \<in> set (reg # rest)" by simp
      then have "reg \<in> set (filter (\<lambda>reg. reg \<notin> usedColors) regNames)"
        unfolding Cons [symmetric] .
      then have "reg \<notin> usedColors" by simp
      with Cons show ?thesis by (simp add: selectedReg_def)
    qed
    then have free: "map_of allocation n \<noteq> Some selectedReg" if "n \<in> neighbors_of g x" for n
      using that Some by (auto simp: usedColors_def neighbors_of_def)
    have "\<not> share_register (map_put x selectedReg allocation) a b"
      if ab: "a \<noteq> b" "b \<in> neighbors_of g a" for a b
    proof -
      from sym ab(2) have ba: "a \<in> neighbors_of g b" by (simp add: symmetric_graph_def)
      from proper ab have old: "\<not> share_register allocation a b" by (simp add: proper_coloring_def)
      show ?thesis
      proof (cases "a = x")
        case True
        with ab free [of b] show ?thesis
          by (simp add: share_register_def map_of_map_put)
      next
        case ax: False
        show ?thesis
        proof (cases "b = x")
          case True
          with ax ba free [of a] show ?thesis
            by (auto simp: share_register_def map_of_map_put split: option.splits)
        next
          case False
          with ax old show ?thesis
            by (auto simp: share_register_def map_of_map_put split: option.splits)
        qed
      qed
    qed
    with step False show ?thesis by (simp add: proper_coloring_def)
  qed
qed

lemma foldl_color_node_proper:
  "symmetric_graph g \<Longrightarrow> proper_coloring g allocation
     \<Longrightarrow> proper_coloring g (foldl (color_node g regNames) allocation order)"
  by (induction order arbitrary: allocation) (simp_all add: color_node_proper)

lemma color_proper:
  "symmetric_graph g \<Longrightarrow> proper_coloring g (color order g availableRegs)"
  unfolding color_def Let_def
  by (rule foldl_color_node_proper) (simp_all add: proper_coloring_def share_register_def)

lemma graph_coloring_valid:
  assumes "GraphColoring_allocate d u instructions availableRegs = Some allocation"
  shows "valid_coloring (computeLiveIntervals d u instructions) allocation"
proof -
  let ?g = "buildInterferenceGraph d u instructions"
  have proper: "proper_coloring ?g allocation"
  proof (cases "?g = []")
    case True
    with assms have "allocation = []" by (simp add: GraphColoring_allocate_def)
    then show ?thesis by (simp add: proper_coloring_def share_register_def)
  next
    case False
    with assms obtain order where "allocation = color order ?g availableRegs"
      by (auto simp: GraphColoring_allocate_def Let_def split: option.splits)
    then show ?thesis by (simp add: color_proper symmetric_buildInterferenceGraph)
  qed
  have "\<not> share_register allocation (iv_var a) (iv_var b)"
    if "a \<in> set (computeLiveIntervals d u instructions)"
       "b \<in> set (computeLiveIntervals d u instructions)"
       "iv_var a \<noteq> iv_var b" "overlaps a b" for a b
  proof -
    from that(3,4) have "interferes (iv_var a, lifetime_of a) (iv_var b, lifetime_of b)"
      by (simp add: interferes_def overlaps_def lifetime_of_def)
    from interfering_variables_are_neighbors
           [OF interval_has_lifetime [OF that(1)] interval_has_lifetime [OF that(2)] this]
    have "iv_var b \<in> neighbors_of ?g (iv_var a)" by simp
    with proper that(3) show ?thesis by (simp add: proper_coloring_def)
  qed
  then show ?thesis by (auto simp: valid_coloring_def)
qed

text \<open>
  \<open>simplify\<close> returns when some node of the work graph has fewer than \<open>INT_MAX\<close>
  neighbours, which holds for every program with fewer than \<open>INT_MAX\<close> variables.
\<close>

lemma min_degree_fold_key:
  "fst (foldl (\<lambda>(nodeToRemove, minDegree) (node, neighbors).
                 if int (card neighbors) < minDegree then (node, int (card neighbors))
                 else (nodeToRemove, minDegree)) (n0, d0) g)
     \<in> insert n0 (fst ` set g)"
  by (induction g arbitrary: n0 d0) (auto split: prod.splits)

lemma min_degree_fold_found:
  "\<exists>e \<in> set g. int (card (snd e)) < d0
     \<Longrightarrow> fst (foldl (\<lambda>(nodeToRemove, minDegree) (node, neighbors).
                 if int (card neighbors) < minDegree then (node, int (card neighbors))
                 else (nodeToRemove, minDegree)) (n0, d0) g)
           \<in> fst ` set g"
proof (induction g arbitrary: n0 d0)
  case Nil
  then show ?case by simp
next
  case (Cons x g)
  obtain node neighbors where x: "x = (node, neighbors)" by (cases x)
  show ?case
  proof (cases "int (card neighbors) < d0")
    case True
    with x min_degree_fold_key [of node "int (card neighbors)" g] show ?thesis by auto
  next
    case False
    with x Cons.prems have "\<exists>e \<in> set g. int (card (snd e)) < d0" by auto
    from Cons.IH [OF this, of n0] False x show ?thesis by auto
  qed
qed

lemma max_degree_fold_key:
  "fst (foldl (\<lambda>(nodeToRemove, maxDegree) (node, neighbors).
                 if int (card neighbors) > maxDegree mod 2 ^ 64 then (node, int (card neighbors))
                 else (nodeToRemove, maxDegree)) (n0, d0) g)
     \<in> insert n0 (fst ` set g)"
  by (induction g arbitrary: n0 d0) (auto split: prod.splits)

definition bounded_degrees :: "interference_graph \<Rightarrow> bool" where
  "bounded_degrees graph = (\<forall>e \<in> set graph. int (card (snd e)) < 2147483647)"

lemma node_to_remove_key:
  assumes "bounded_degrees g" and "g \<noteq> []"
  shows "node_to_remove g \<in> fst ` set g"
proof -
  from assms have "\<exists>e \<in> set g. int (card (snd e)) < 2147483647"
    by (cases g) (auto simp: bounded_degrees_def)
  then have key: "fst (min_degree_node g) \<in> fst ` set g"
    unfolding min_degree_node_def by (rule min_degree_fold_found)
  show ?thesis
  proof (cases "fst (min_degree_node g) = ''''")
    case True
    have "fst (max_degree_node g) \<in> insert '''' (fst ` set g)"
      unfolding max_degree_node_def by (rule max_degree_fold_key)
    with key True have "fst (max_degree_node g) \<in> fst ` set g" by (simp add: insert_absorb)
    with True show ?thesis by (simp add: node_to_remove_def Let_def)
  next
    case False
    with key show ?thesis by (simp add: node_to_remove_def Let_def)
  qed
qed

lemma bounded_degrees_remove_node:
  assumes "bounded_degrees g"
  shows "bounded_degrees (remove_node n g)"
proof -
  have "int (card (s - {n})) < 2147483647" if "(k, s) \<in> set g" for k s
  proof -
    have "card (s - {n}) \<le> card s" by (rule card_Diff1_le)
    moreover from assms that have "int (card s) < 2147483647"
      by (auto simp: bounded_degrees_def)
    ultimately show ?thesis by linarith
  qed
  then show ?thesis by (auto simp: bounded_degrees_def remove_node_def map_erase_def)
qed

lemma simplify_loop_returns:
  "bounded_degrees g \<Longrightarrow> \<exists>order. simplify_loop g acc = Some order"
proof (induction g acc rule: simplify_loop.induct)
  case (1 workGraph simplifiedOrder)
  show ?case
  proof (cases "workGraph = []")
    case True
    then show ?thesis by (simp add: simplify_loop.simps)
  next
    case False
    with "1.prems" have key: "node_to_remove workGraph \<in> fst ` set workGraph"
      by (intro node_to_remove_key)
    from "1.prems" have "bounded_degrees (remove_node (node_to_remove workGraph) workGraph)"
      by (rule bounded_degrees_remove_node)
    from "1.IH" [OF False key this] obtain order where
      "simplify_loop (remove_node (node_to_remove workGraph) workGraph)
         (simplifiedOrder @ [node_to_remove workGraph]) = Some order" ..
    with False key show ?thesis
      by (subst simplify_loop.simps) simp
  qed
qed

definition neighbors_within :: "string set \<Rightarrow> interference_graph \<Rightarrow> bool" where
  "neighbors_within vars graph = (\<forall>k s. (k, s) \<in> set graph \<longrightarrow> s \<subseteq> vars)"

lemma neighbors_within_map_put:
  "neighbors_within vars g \<Longrightarrow> s \<subseteq> vars \<Longrightarrow> neighbors_within vars (map_put k s g)"
  using set_map_put [of k s g] unfolding neighbors_within_def by blast

lemma neighbors_within_neighbors_of:
  "neighbors_within vars g \<Longrightarrow> neighbors_of g a \<subseteq> vars"
proof (cases "map_of g a")
  case None
  then show ?thesis by (simp add: neighbors_of_def)
next
  case (Some s)
  assume "neighbors_within vars g"
  moreover from Some have "(a, s) \<in> set g" by (rule map_of_SomeD)
  ultimately have "s \<subseteq> vars" unfolding neighbors_within_def by blast
  with Some show ?thesis by (simp add: neighbors_of_def)
qed

lemma neighbors_within_add_edge:
  "neighbors_within vars g \<Longrightarrow> b \<in> vars \<Longrightarrow> neighbors_within vars (add_edge a b g)"
  unfolding add_edge_def
  using neighbors_within_neighbors_of [of vars g a] by (intro neighbors_within_map_put) auto

lemma neighbors_within_interfere_pair:
  "neighbors_within vars g \<Longrightarrow> fst e1 \<in> vars \<Longrightarrow> fst e2 \<in> vars
     \<Longrightarrow> neighbors_within vars (interfere_pair e1 g e2)"
  by (cases e1; cases e2)
     (simp add: interfere_pair_def Let_def neighbors_within_add_edge)

lemma neighbors_within_row:
  "neighbors_within vars g \<Longrightarrow> fst e1 \<in> vars \<Longrightarrow> fst ` set ys \<subseteq> vars
     \<Longrightarrow> neighbors_within vars (foldl (interfere_pair e1) g ys)"
  by (induction ys arbitrary: g) (simp_all add: neighbors_within_interfere_pair)

lemma neighbors_within_rows:
  "neighbors_within vars g \<Longrightarrow> fst ` set xs \<subseteq> vars \<Longrightarrow> fst ` set ys \<subseteq> vars
     \<Longrightarrow> neighbors_within vars (foldl (\<lambda>g e1. foldl (interfere_pair e1) g ys) g xs)"
  by (induction xs arbitrary: g) (simp_all add: neighbors_within_row)

lemma neighbors_within_initially:
  "neighbors_within vars g
     \<Longrightarrow> neighbors_within vars (foldl (\<lambda>g e. map_put (fst e) {} g) g xs)"
  by (induction xs arbitrary: g) (simp_all add: neighbors_within_map_put)

lemma neighbors_within_buildInterferenceGraph:
  "neighbors_within (fst ` set (lifetimes_loop d u instructions 0 []))
     (buildInterferenceGraph d u instructions)"
  unfolding buildInterferenceGraph_def Let_def
  by (intro neighbors_within_rows neighbors_within_initially) (simp_all add: neighbors_within_def)

lemma length_lifetimes_loop:
  "length (lifetimes_loop d u instructions 0 []) = length (computeLiveIntervals d u instructions)"
  using lifetimes_loop_intervals_loop [of d u instructions 0 "[]"]
  by (simp add: computeLiveIntervals_def)

lemma graph_coloring_returns:
  assumes "length (computeLiveIntervals d u instructions) < 2147483647"
  shows "\<exists>allocation. GraphColoring_allocate d u instructions availableRegs = Some allocation"
proof -
  let ?L = "lifetimes_loop d u instructions 0 []"
  let ?g = "buildInterferenceGraph d u instructions"
  have "int (card s) < 2147483647" if "(k, s) \<in> set ?g" for k s
  proof -
    from that neighbors_within_buildInterferenceGraph [of d u instructions]
    have "s \<subseteq> fst ` set ?L" unfolding neighbors_within_def by blast
    then have "card s \<le> card (fst ` set ?L)" by (intro card_mono) simp_all
    also have "\<dots> \<le> card (set ?L)" by (intro card_image_le) simp
    also have "\<dots> \<le> length ?L" by (rule card_length)
    finally show ?thesis using assms by (simp add: length_lifetimes_loop)
  qed
  then have "bounded_degrees ?g" by (auto simp: bounded_degrees_def)
  from simplify_loop_returns [OF this, of "[]"] show ?thesis
    by (auto simp: GraphColoring_allocate_def simplify_def Let_def)
qed

text \<open>
  Three variables that are live together get three registers: \<open>simplify\<close> removes \<open>a\<close>,
  \<open>b\<close>, \<open>c\<close> in this order and \<open>color\<close> works through the reversed order.
\<close>

lemma three_live_graph_coloring:
  "GraphColoring_allocate fst snd
     [([''a''], []), ([''b''], [''a'']), ([''c''], [''b'']), ([], [''c'', ''a''])] allocatableRegs
   = Some [(''a'', ''t2''), (''b'', ''t1''), (''c'', ''t0'')]"
  by code_simp

section \<open>Direct code generation from the AST (code_generator.cpp)\<close>

text \<open>
  The generator writes lines to the stream \<open>output\<close>; \<open>output_lines\<close> is the list of the
  lines written so far, without the newline. The pool of temporary registers is \<open>T0\<close> to \<open>T6\<close> of the
  namespace \<open>RISCV\<close>, which names the registers \<open>x5\<close>, \<open>x6\<close>, \<open>x7\<close>, \<open>x28\<close> to \<open>x31\<close>; \<open>A0\<close>
  is \<open>x10\<close>. Of the fields of the class, the record has those that the generation of
  expressions reads or writes.
\<close>

definition temp_registers :: "string list" where
  "temp_registers = [''x5'', ''x6'', ''x7'', ''x28'', ''x29'', ''x30'', ''x31'']"

record CodeGenerator =
  symbol_table :: SymbolTable
  output_lines :: "string list"
  next_label_id :: int
  register_used :: "bool list"

definition new_CodeGenerator :: "SymbolTable \<Rightarrow> CodeGenerator" where
  "new_CodeGenerator sym_table =
     \<lparr>symbol_table = sym_table, output_lines = [], next_label_id = 0,
      register_used = replicate (length temp_registers) False\<rparr>"

definition emit :: "string \<Rightarrow> CodeGenerator \<Rightarrow> CodeGenerator" where
  "emit instruction g = g\<lparr>output_lines := output_lines g @ [''    '' @ instruction]\<rparr>"

definition emit_label :: "string \<Rightarrow> CodeGenerator \<Rightarrow> CodeGenerator" where
  "emit_label label g = g\<lparr>output_lines := output_lines g @ [label @ '':'']\<rparr>"

definition generate_label :: "string \<Rightarrow> CodeGenerator \<Rightarrow> string \<times> CodeGenerator" where
  "generate_label prefix g =
     (prefix @ ''_'' @ to_string (next_label_id g), g\<lparr>next_label_id := next_label_id g + 1\<rparr>)"

definition push_register :: "string \<Rightarrow> CodeGenerator \<Rightarrow> CodeGenerator" where
  "push_register reg g = emit (''sw '' @ reg @ '', 0(sp)'') (emit ''addi sp, sp, -4'' g)"

definition pop_register :: "string \<Rightarrow> CodeGenerator \<Rightarrow> CodeGenerator" where
  "pop_register reg g = emit ''addi sp, sp, 4'' (emit (''lw '' @ reg @ '', 0(sp)'') g)"

fun first_index :: "('a \<Rightarrow> bool) \<Rightarrow> 'a list \<Rightarrow> nat option" where
  "first_index P [] = None"
| "first_index P (x # xs) = (if P x then Some 0 else map_option Suc (first_index P xs))"

text \<open>
  \<open>allocate_temp_register\<close>: the first register of the pool that is not in use; when all
  are in use, the first register of the pool is pushed and handed out again.
\<close>

definition allocate_temp_register :: "CodeGenerator \<Rightarrow> string \<times> CodeGenerator" where
  "allocate_temp_register g =
     (case first_index (\<lambda>used. \<not> used) (register_used g) of
        Some i \<Rightarrow> (temp_registers ! i, g\<lparr>register_used := (register_used g)[i := True]\<rparr>)
      | None \<Rightarrow> (temp_registers ! 0, push_register (temp_registers ! 0) g))"

definition free_temp_register :: "string \<Rightarrow> CodeGenerator \<Rightarrow> CodeGenerator" where
  "free_temp_register reg g =
     (case first_index (\<lambda>r. r = reg) temp_registers of
        Some index \<Rightarrow> g\<lparr>register_used := (register_used g)[index := False]\<rparr>
      | None \<Rightarrow> g)"

definition load_variable :: "string \<Rightarrow> CodeGenerator \<Rightarrow> string \<times> CodeGenerator" where
  "load_variable nm g =
     (case lookup_symbol nm (symbol_table g) of
        None \<Rightarrow> (case allocate_temp_register g of (reg, g1) \<Rightarrow>
                   (reg, emit (''li '' @ reg @ '', 0'') g1))
      | Some smb \<Rightarrow> (case allocate_temp_register g of (reg, g1) \<Rightarrow>
                       (reg, emit (''lw '' @ reg @ '', '' @ to_string (stack_offset smb) @ ''(sp)'') g1)))"

definition save_caller_saved_registers :: "CodeGenerator \<Rightarrow> CodeGenerator" where
  "save_caller_saved_registers g =
     foldl (\<lambda>g1 i. if register_used g ! i then push_register (temp_registers ! i) g1 else g1)
           g [0 ..< length (register_used g)]"

definition restore_caller_saved_registers :: "CodeGenerator \<Rightarrow> CodeGenerator" where
  "restore_caller_saved_registers g =
     foldl (\<lambda>g1 i. if register_used g ! i then pop_register (temp_registers ! i) g1 else g1)
           g (rev [0 ..< length (register_used g)])"

text \<open>The instructions of an ordinary binary operator and of a unary operator.\<close>

definition binary_instructions :: "BinOperator \<Rightarrow> string \<Rightarrow> string \<Rightarrow> string \<Rightarrow> string list" where
  "binary_instructions op result_reg left_reg right_reg =
     (case op of
        ADD \<Rightarrow> [''add '' @ result_reg @ '', '' @ left_reg @ '', '' @ right_reg]
      | SUB \<Rightarrow> [''sub '' @ result_reg @ '', '' @ left_reg @ '', '' @ right_reg]
      | MUL \<Rightarrow> [''mul '' @ result_reg @ '', '' @ left_reg @ '', '' @ right_reg]
      | DIV \<Rightarrow> [''div '' @ result_reg @ '', '' @ left_reg @ '', '' @ right_reg]
      | MOD \<Rightarrow> [''rem '' @ result_reg @ '', '' @ left_reg @ '', '' @ right_reg]
      | LT \<Rightarrow> [''slt '' @ result_reg @ '', '' @ left_reg @ '', '' @ right_reg]
      | GT \<Rightarrow> [''slt '' @ result_reg @ '', '' @ right_reg @ '', '' @ left_reg]
      | LE \<Rightarrow> [''slt '' @ result_reg @ '', '' @ right_reg @ '', '' @ left_reg,
                ''xori '' @ result_reg @ '', '' @ result_reg @ '', 1'']
      | GE \<Rightarrow> [''slt '' @ result_reg @ '', '' @ left_reg @ '', '' @ right_reg,
                ''xori '' @ result_reg @ '', '' @ result_reg @ '', 1'']
      | EQ \<Rightarrow> [''sub '' @ result_reg @ '', '' @ left_reg @ '', '' @ right_reg,
                ''seqz '' @ result_reg @ '', '' @ result_reg]
      | NE \<Rightarrow> [''sub '' @ result_reg @ '', '' @ left_reg @ '', '' @ right_reg,
                ''snez '' @ result_reg @ '', '' @ result_reg]
      | AND \<Rightarrow> []
      | OR \<Rightarrow> [])"

definition unary_instruction :: "UnOperator \<Rightarrow> string \<Rightarrow> string \<Rightarrow> string" where
  "unary_instruction op result_reg operand_reg =
     (case op of
        PLUS \<Rightarrow> ''mv '' @ result_reg @ '', '' @ operand_reg
      | MINUS \<Rightarrow> ''neg '' @ result_reg @ '', '' @ operand_reg
      | NOT \<Rightarrow> ''seqz '' @ result_reg @ '', '' @ operand_reg)"

text \<open>
  \<open>generate_expr\<close> returns the register that holds the value. The arguments of a call are
  generated by \<open>generate_arguments\<close>, the loop of \<open>generate_function_call\<close> over at most
  eight arguments.
\<close>

function generate_expr :: "Expr \<Rightarrow> CodeGenerator \<Rightarrow> string \<times> CodeGenerator"
  and generate_short_circuit_and :: "Expr \<Rightarrow> Expr \<Rightarrow> CodeGenerator \<Rightarrow> string \<times> CodeGenerator"
  and generate_short_circuit_or :: "Expr \<Rightarrow> Expr \<Rightarrow> CodeGenerator \<Rightarrow> string \<times> CodeGenerator"
  and generate_arguments :: "Expr list \<Rightarrow> nat \<Rightarrow> CodeGenerator \<Rightarrow> CodeGenerator" where
  "generate_expr (NumberExpr v) g =
     (case allocate_temp_register g of (reg, g1) \<Rightarrow>
        (reg, emit (''li '' @ reg @ '', '' @ to_string (sint v)) g1))"
| "generate_expr (VarExpr nm) g = load_variable nm g"
| "generate_expr (BinaryExpr op l r) g =
     (if op = AND then generate_short_circuit_and l r g
      else if op = OR then generate_short_circuit_or l r g
      else (case generate_expr l g of (left_reg, g1) \<Rightarrow>
            case generate_expr r g1 of (right_reg, g2) \<Rightarrow>
            case allocate_temp_register g2 of (result_reg, g3) \<Rightarrow>
              (result_reg,
               free_temp_register right_reg
                 (free_temp_register left_reg
                    (foldl (\<lambda>g4 i. emit i g4) g3
                       (binary_instructions op result_reg left_reg right_reg))))))"
| "generate_expr (UnaryExpr op e) g =
     (case generate_expr e g of (operand_reg, g1) \<Rightarrow>
      case allocate_temp_register g1 of (result_reg, g2) \<Rightarrow>
        (result_reg,
         free_temp_register operand_reg (emit (unary_instruction op result_reg operand_reg) g2)))"
| "generate_expr (CallExpr callee args) g =
     (''x10'',
      restore_caller_saved_registers
        (emit (''call '' @ callee)
           (generate_arguments args 0 (save_caller_saved_registers g))))"
| "generate_short_circuit_and l r g =
     (case generate_label ''and_false'' g of (false_label, g1) \<Rightarrow>
      case generate_label ''and_end'' g1 of (end_label, g2) \<Rightarrow>
      case allocate_temp_register g2 of (result_reg, g3) \<Rightarrow>
      case generate_expr l g3 of (left_reg, g4) \<Rightarrow>
      case generate_expr r (emit (''beqz '' @ left_reg @ '', '' @ false_label) g4) of
        (right_reg, g5) \<Rightarrow>
        (result_reg,
         free_temp_register right_reg
           (free_temp_register left_reg
              (emit_label end_label
                 (emit (''li '' @ result_reg @ '', 0'')
                    (emit_label false_label
                       (emit (''j '' @ end_label)
                          (emit (''mv '' @ result_reg @ '', '' @ right_reg) g5))))))))"
| "generate_short_circuit_or l r g =
     (case generate_label ''or_true'' g of (true_label, g1) \<Rightarrow>
      case generate_label ''or_end'' g1 of (end_label, g2) \<Rightarrow>
      case allocate_temp_register g2 of (result_reg, g3) \<Rightarrow>
      case generate_expr l g3 of (left_reg, g4) \<Rightarrow>
      case generate_expr r (emit (''bnez '' @ left_reg @ '', '' @ true_label) g4) of
        (right_reg, g5) \<Rightarrow>
        (result_reg,
         free_temp_register right_reg
           (free_temp_register left_reg
              (emit_label end_label
                 (emit (''li '' @ result_reg @ '', 1'')
                    (emit_label true_label
                       (emit (''j '' @ end_label)
                          (emit (''mv '' @ result_reg @ '', '' @ right_reg) g5))))))))"
| "generate_arguments [] i g = g"
| "generate_arguments (arg # rest) i g =
     (if i < 8
      then (case generate_expr arg g of (arg_reg, g1) \<Rightarrow>
              generate_arguments rest (i + 1)
                (free_temp_register arg_reg
                   (if arg_reg \<noteq> ''a'' @ to_string (int i)
                    then emit (''mv '' @ ''a'' @ to_string (int i) @ '', '' @ arg_reg) g1
                    else g1)))
      else g)"
  by pat_completeness auto
termination
  by (relation "measure (\<lambda>x. case x of
          Inl (Inl (e, g)) \<Rightarrow> 2 * size e
        | Inl (Inr (l, r, g)) \<Rightarrow> 2 * (size l + size r) + 1
        | Inr (Inl (l, r, g)) \<Rightarrow> 2 * (size l + size r) + 1
        | Inr (Inr (args, i, g)) \<Rightarrow> 2 * size_list size args + 1)")
     auto

declare generate_expr.simps [simp del] generate_short_circuit_and.simps [simp del]
  generate_short_circuit_or.simps [simp del] generate_arguments.simps [simp del]

section \<open>Code generation from the IR: binary operations (codegen.cpp)\<close>

text \<open>
  The part of the IR code generator that \<open>processBinaryOp\<close> uses. \<open>toString\<close> of an
  instruction is declared in \<open>ir.h\<close> and implemented nowhere in the sources; it only
  produces the text of a comment line and is a parameter. \<open>ir_lines\<close> is the list of the
  lines written to \<open>output\<close>.
\<close>

datatype OperandType = OT_VARIABLE | OT_TEMP | OT_CONSTANT | OT_LABEL

record Operand =
  op_type :: OperandType
  op_name :: string
  op_value :: int32

datatype OpCode =
    OpADD | OpSUB | OpMUL | OpDIV | OpMOD | OpNEG | OpNOT
  | OpLT | OpGT | OpLE | OpGE | OpEQ | OpNE | OpAND | OpOR
  | OpASSIGN | OpGOTO | OpIF_GOTO | OpPARAM | OpCALL | OpRETURN | OpLABEL
  | OpFUNCTION_BEGIN | OpFUNCTION_END

record BinaryOpInstr =
  opcode :: OpCode
  result :: Operand
  left :: Operand
  right :: Operand

definition tempRegs :: "string list" where
  "tempRegs = [''t0'', ''t1'', ''t2'', ''t3'', ''t4'', ''t5'', ''t6'']"

record IRCodeGenerator =
  ir_lines :: "string list"
  register_table :: "Register list"
  nextTempReg :: nat
  usedCallerSavedRegs :: "string set"
  localVars :: "string \<rightharpoonup> int"
  regAlloc :: "string \<rightharpoonup> string"
  currentFunctionParams :: "string list"
  localVarsSize :: int
  currentStackOffset :: int
  labelCount :: int

text \<open>
  The generator after its constructor with the naive strategy (no register assignment),
  without the header lines, and \<open>resetStackOffset\<close> of \<open>processFunctionBegin\<close>.
\<close>

definition new_IRCodeGenerator :: IRCodeGenerator where
  "new_IRCodeGenerator =
     \<lparr>ir_lines = [], register_table = registers, nextTempReg = 0, usedCallerSavedRegs = {},
      localVars = Map.empty, regAlloc = Map.empty, currentFunctionParams = [],
      localVarsSize = 0, currentStackOffset = 0, labelCount = 0\<rparr>"

definition resetStackOffset :: "IRCodeGenerator \<Rightarrow> IRCodeGenerator" where
  "resetStackOffset G = G\<lparr>currentStackOffset := - 12\<rparr>"

definition genLabel :: "IRCodeGenerator \<Rightarrow> string \<times> IRCodeGenerator" where
  "genLabel G = (''L'' @ to_string (labelCount G), G\<lparr>labelCount := labelCount G + 1\<rparr>)"

definition emitComment :: "string \<Rightarrow> IRCodeGenerator \<Rightarrow> IRCodeGenerator" where
  "emitComment comment G = G\<lparr>ir_lines := ir_lines G @ [''# '' @ comment]\<rparr>"

definition emitInstruction :: "string \<Rightarrow> IRCodeGenerator \<Rightarrow> IRCodeGenerator" where
  "emitInstruction instr G = G\<lparr>ir_lines := ir_lines G @ [CHR 0x09 # instr]\<rparr>"

definition emitLabel :: "string \<Rightarrow> IRCodeGenerator \<Rightarrow> IRCodeGenerator" where
  "emitLabel label G = G\<lparr>ir_lines := ir_lines G @ [label @ '':'']\<rparr>"

text \<open>
  \<open>allocTempReg\<close> hands out \<open>t0\<close> to \<open>t6\<close> in turn and starts again, with all registers
  marked unused, after \<open>t6\<close>; the empty name is the answer when the register is marked
  used. \<open>freeTempReg\<close> has an empty body.
\<close>

definition allocTempReg :: "IRCodeGenerator \<Rightarrow> string \<times> IRCodeGenerator" where
  "allocTempReg G =
     (let G1 = (if nextTempReg G \<ge> length tempRegs
                then G\<lparr>nextTempReg := 0,
                       register_table := map (\<lambda>reg. reg\<lparr>isUsed := False\<rparr>) (register_table G)\<rparr>
                else G);
          wanted = tempRegs ! nextTempReg G1
      in case first_index (\<lambda>reg. name reg = wanted) (register_table G1) of
           None \<Rightarrow> (wanted, G1\<lparr>nextTempReg := nextTempReg G1 + 1\<rparr>)
         | Some i \<Rightarrow>
             if isUsed (register_table G1 ! i) then ('''', G1)
             else (wanted,
                   G1\<lparr>register_table :=
                         (register_table G1)[i := (register_table G1 ! i)\<lparr>isUsed := True\<rparr>],
                       usedCallerSavedRegs := insert wanted (usedCallerSavedRegs G1),
                       nextTempReg := nextTempReg G1 + 1\<rparr>))"

definition freeTempReg :: "string \<Rightarrow> IRCodeGenerator \<Rightarrow> IRCodeGenerator" where
  "freeTempReg reg G = G"

definition isValidRegister :: "string \<Rightarrow> IRCodeGenerator \<Rightarrow> bool" where
  "isValidRegister reg G = list_ex (\<lambda>r. name r = reg) (register_table G)"

definition getOperandOffset :: "Operand \<Rightarrow> IRCodeGenerator \<Rightarrow> int \<times> IRCodeGenerator" where
  "getOperandOffset op G =
     (if op_type op \<noteq> OT_VARIABLE \<and> op_type op \<noteq> OT_TEMP then (0, G)
      else (case localVars G (op_name op) of
              Some off \<Rightarrow> (off, G)
            | None \<Rightarrow>
                if op_name op \<in> set (currentFunctionParams G)
                then (currentStackOffset G,
                      G\<lparr>currentStackOffset := currentStackOffset G - 4,
                        localVars := (localVars G)(op_name op \<mapsto> currentStackOffset G)\<rparr>)
                else (currentStackOffset G,
                      G\<lparr>currentStackOffset := currentStackOffset G - 4,
                        localVars := (localVars G)(op_name op \<mapsto> currentStackOffset G),
                        localVarsSize := localVarsSize G + 4\<rparr>)))"

definition allocated_register :: "Operand \<Rightarrow> IRCodeGenerator \<Rightarrow> string option" where
  "allocated_register op G =
     (case regAlloc G (op_name op) of
        None \<Rightarrow> None
      | Some r \<Rightarrow> if isValidRegister r G then Some r else None)"

definition loadOperand :: "Operand \<Rightarrow> string \<Rightarrow> IRCodeGenerator \<Rightarrow> IRCodeGenerator" where
  "loadOperand op reg G =
     (case op_type op of
        OT_CONSTANT \<Rightarrow> emitInstruction (''li '' @ reg @ '', '' @ to_string (sint (op_value op))) G
      | OT_LABEL \<Rightarrow> G
      | _ \<Rightarrow>
          (case allocated_register op G of
             Some r \<Rightarrow> emitInstruction (''addi '' @ reg @ '', '' @ r @ '', 0'') G
           | None \<Rightarrow>
               (case getOperandOffset op G of (off, G1) \<Rightarrow>
                  if \<bar>off\<bar> \<le> 2047
                  then emitInstruction (''lw '' @ reg @ '', '' @ to_string off @ ''(fp)'') G1
                  else (let tempReg = (if reg \<noteq> ''t0'' then ''t0'' else ''t1'')
                        in emitInstruction (''lw '' @ reg @ '', 0('' @ tempReg @ '')'')
                             (emitInstruction (''add '' @ tempReg @ '', fp, '' @ tempReg)
                                (emitInstruction (''li '' @ tempReg @ '', '' @ to_string off) G1))))))"

definition storeRegister :: "string \<Rightarrow> Operand \<Rightarrow> IRCodeGenerator \<Rightarrow> IRCodeGenerator" where
  "storeRegister reg op G =
     (if op_type op = OT_VARIABLE \<or> op_type op = OT_TEMP
      then (case allocated_register op G of
              Some r \<Rightarrow> if reg \<noteq> r then emitInstruction (''addi '' @ r @ '', '' @ reg @ '', 0'') G else G
            | None \<Rightarrow>
                (case getOperandOffset op G of (off, G1) \<Rightarrow>
                   if \<bar>off\<bar> \<le> 2047
                   then emitInstruction (''sw '' @ reg @ '', '' @ to_string off @ ''(fp)'') G1
                   else (let tempReg = (if reg \<noteq> ''t0'' then ''t0'' else ''t1'')
                         in emitInstruction (''sw '' @ reg @ '', 0('' @ tempReg @ '')'')
                              (emitInstruction (''add '' @ tempReg @ '', fp, '' @ tempReg)
                                 (emitInstruction (''li '' @ tempReg @ '', '' @ to_string off) G1)))))
      else G)"

text \<open>The instructions of an operator other than \<open>AND\<close> and \<open>OR\<close>.\<close>

definition ir_binary_instructions :: "OpCode \<Rightarrow> string \<Rightarrow> string \<Rightarrow> string \<Rightarrow> string list" where
  "ir_binary_instructions oc resultReg leftReg rightReg =
     (if oc = OpADD then [''add '' @ resultReg @ '', '' @ leftReg @ '', '' @ rightReg]
      else if oc = OpSUB then [''sub '' @ resultReg @ '', '' @ leftReg @ '', '' @ rightReg]
      else if oc = OpMUL then [''mul '' @ resultReg @ '', '' @ leftReg @ '', '' @ rightReg]
      else if oc = OpDIV then [''div '' @ resultReg @ '', '' @ leftReg @ '', '' @ rightReg]
      else if oc = OpMOD then [''rem '' @ resultReg @ '', '' @ leftReg @ '', '' @ rightReg]
      else if oc = OpLT then [''slt '' @ resultReg @ '', '' @ leftReg @ '', '' @ rightReg]
      else if oc = OpGT then [''slt '' @ resultReg @ '', '' @ rightReg @ '', '' @ leftReg]
      else if oc = OpLE then [''slt '' @ resultReg @ '', '' @ rightReg @ '', '' @ leftReg,
                              ''xori '' @ resultReg @ '', '' @ resultReg @ '', 1'']
      else if oc = OpGE then [''slt '' @ resultReg @ '', '' @ leftReg @ '', '' @ rightReg,
                              ''xori '' @ resultReg @ '', '' @ resultReg @ '', 1'']
      else if oc = OpEQ then [''xor '' @ resultReg @ '', '' @ leftReg @ '', '' @ rightReg,
                              ''seqz '' @ resultReg @ '', '' @ resultReg]
      else if oc = OpNE then [''xor '' @ resultReg @ '', '' @ leftReg @ '', '' @ rightReg,
                              ''snez '' @ resultReg @ '', '' @ resultReg]
      else [])"

definition processBinaryOp ::
  "(BinaryOpInstr \<Rightarrow> string) \<Rightarrow> BinaryOpInstr \<Rightarrow> IRCodeGenerator \<Rightarrow> IRCodeGenerator" where
  "processBinaryOp toString instr G =
     (case allocTempReg (emitComment (toString instr) G) of (resultReg, G1) \<Rightarrow>
        if opcode instr = OpAND \<or> opcode instr = OpOR
        then (case allocTempReg G1 of (leftReg, G2) \<Rightarrow>
              case genLabel (loadOperand (left instr) leftReg G2) of (endLabel, G3) \<Rightarrow>
              case genLabel G3 of (shortCircuitLabel, G4) \<Rightarrow>
              case allocTempReg
                     (emitInstruction
                        ((if opcode instr = OpAND then ''beqz '' else ''bnez '')
                           @ leftReg @ '', '' @ shortCircuitLabel) G4) of
                (rightReg, G5) \<Rightarrow>
                  freeTempReg resultReg
                    (storeRegister resultReg (result instr)
                       (freeTempReg leftReg
                          (emitLabel endLabel
                             (emitInstruction
                                (''li '' @ resultReg
                                   @ (if opcode instr = OpAND then '', 0'' else '', 1''))
                                (emitLabel shortCircuitLabel
                                   (emitInstruction (''j '' @ endLabel)
                                      (freeTempReg rightReg
                                         (emitInstruction (''snez '' @ resultReg @ '', '' @ rightReg)
                                            (loadOperand (right instr) rightReg G5))))))))))
        else (case allocTempReg G1 of (leftReg, G2) \<Rightarrow>
              case allocTempReg G2 of (rightReg, G3) \<Rightarrow>
                freeTempReg resultReg
                  (storeRegister resultReg (result instr)
                     (freeTempReg leftReg
                        (freeTempReg rightReg
                           (foldl (\<lambda>G4 i. emitInstruction i G4)
                              (loadOperand (right instr) rightReg
                                 (loadOperand (left instr) leftReg G3))
                              (ir_binary_instructions (opcode instr) resultReg leftReg rightReg)))))))"

section \<open>Execution of the emitted assembly\<close>

text \<open>
  Modelled from the spec: the output of the compiler is RISC-V 32-bit assembly, whose
  instruction set is not part of the sources. This is a small machine with the meaning
  that the RISC-V instruction set gives to a list of assembly lines. It has the 32
  integer registers, \<open>x0\<close> being constant zero, and a memory of words. It knows the
  instructions that the two generators emit for expressions, apart from \<open>call\<close>. A line that
  it does not know stops it with \<open>None\<close>; label lines, comment lines, directives and empty
  lines do nothing. Running ends when control leaves the list at its end.
\<close>

definition abi_names :: "(string \<times> nat) list" where
  "abi_names =
     [(''zero'', 0), (''ra'', 1), (''sp'', 2), (''gp'', 3), (''tp'', 4), (''t0'', 5), (''t1'', 6),
      (''t2'', 7), (''s0'', 8), (''fp'', 8), (''s1'', 9), (''a0'', 10), (''a1'', 11), (''a2'', 12),
      (''a3'', 13), (''a4'', 14), (''a5'', 15), (''a6'', 16), (''a7'', 17), (''s2'', 18),
      (''s3'', 19), (''s4'', 20), (''s5'', 21), (''s6'', 22), (''s7'', 23), (''s8'', 24),
      (''s9'', 25), (''s10'', 26), (''s11'', 27), (''t3'', 28), (''t4'', 29), (''t5'', 30),
      (''t6'', 31)]"

definition x_names :: "(string \<times> nat) list" where
  "x_names =
     [(''x0'', 0), (''x1'', 1), (''x2'', 2), (''x3'', 3), (''x4'', 4), (''x5'', 5),
      (''x6'', 6), (''x7'', 7), (''x8'', 8), (''x9'', 9), (''x10'', 10), (''x11'', 11),
      (''x12'', 12), (''x13'', 13), (''x14'', 14), (''x15'', 15), (''x16'', 16), (''x17'', 17),
      (''x18'', 18), (''x19'', 19), (''x20'', 20), (''x21'', 21), (''x22'', 22), (''x23'', 23),
      (''x24'', 24), (''x25'', 25), (''x26'', 26), (''x27'', 27), (''x28'', 28), (''x29'', 29),
      (''x30'', 30), (''x31'', 31)]"

definition register_number :: "string \<Rightarrow> nat option" where
  "register_number r = map_of (abi_names @ x_names) r"

definition is_blank :: "char \<Rightarrow> bool" where
  "is_blank c = (c = CHR '' '' \<or> c = CHR 0x09)"

fun split_fields :: "string \<Rightarrow> string \<Rightarrow> string list" where
  "split_fields field [] = (if field = [] then [] else [field])"
| "split_fields field (c # cs) =
     (if is_blank c \<or> c = CHR '',''
      then (if field = [] then split_fields [] cs else field # split_fields [] cs)
      else split_fields (field @ [c]) cs)"

fun parse_digits :: "string \<Rightarrow> nat \<Rightarrow> nat option" where
  "parse_digits [] acc = Some acc"
| "parse_digits (c # cs) acc =
     (if 48 \<le> (of_char c :: nat) \<and> (of_char c :: nat) \<le> 57
      then parse_digits cs (10 * acc + (of_char c - 48))
      else None)"

definition parse_int :: "string \<Rightarrow> int option" where
  "parse_int s =
     (case s of
        [] \<Rightarrow> None
      | c # cs \<Rightarrow>
          if c = CHR ''-'' then (if cs = [] then None else map_option (\<lambda>n. - int n) (parse_digits cs 0))
          else map_option int (parse_digits s 0))"

text \<open>A memory operand \<open>offset(register)\<close>.\<close>

definition parse_address :: "string \<Rightarrow> (int \<times> nat) option" where
  "parse_address s =
     (case parse_int (takeWhile (\<lambda>c. c \<noteq> CHR ''('') s) of
        None \<Rightarrow> None
      | Some off \<Rightarrow>
          (case register_number
                  (takeWhile (\<lambda>c. c \<noteq> CHR '')'') (drop 1 (dropWhile (\<lambda>c. c \<noteq> CHR ''('') s))) of
             None \<Rightarrow> None
           | Some r \<Rightarrow> Some (off, r)))"

record machine =
  pc :: nat
  regs :: "nat \<Rightarrow> int32"
  mem :: "int32 \<Rightarrow> int32"

definition read_reg :: "machine \<Rightarrow> nat \<Rightarrow> int32" where
  "read_reg m r = (if r = 0 then 0 else regs m r)"

definition write_reg :: "nat \<Rightarrow> int32 \<Rightarrow> machine \<Rightarrow> machine" where
  "write_reg r v m = (if r = 0 then m else m\<lparr>regs := (regs m)(r := v)\<rparr>)"

definition next_line :: "machine \<Rightarrow> machine" where
  "next_line m = m\<lparr>pc := pc m + 1\<rparr>"

definition find_label :: "string list \<Rightarrow> string \<Rightarrow> nat option" where
  "find_label prog label = first_index (\<lambda>line. split_fields [] line = [label @ '':'']) prog"

definition jump :: "string list \<Rightarrow> string \<Rightarrow> machine \<Rightarrow> machine option" where
  "jump prog label m = map_option (\<lambda>i. m\<lparr>pc := i\<rparr>) (find_label prog label)"

definition op2 :: "(int32 \<Rightarrow> int32) \<Rightarrow> string \<Rightarrow> string \<Rightarrow> machine \<Rightarrow> machine option" where
  "op2 f rd rs m =
     (case (register_number rd, register_number rs) of
        (Some d, Some s) \<Rightarrow> Some (next_line (write_reg d (f (read_reg m s)) m))
      | _ \<Rightarrow> None)"

definition op3 :: "(int32 \<Rightarrow> int32 \<Rightarrow> int32) \<Rightarrow> string \<Rightarrow> string \<Rightarrow> string \<Rightarrow> machine \<Rightarrow> machine option" where
  "op3 f rd rs1 rs2 m =
     (case (register_number rd, register_number rs1, register_number rs2) of
        (Some d, Some s1, Some s2) \<Rightarrow>
          Some (next_line (write_reg d (f (read_reg m s1) (read_reg m s2)) m))
      | _ \<Rightarrow> None)"

definition op_imm :: "(int32 \<Rightarrow> int32 \<Rightarrow> int32) \<Rightarrow> string \<Rightarrow> string \<Rightarrow> string \<Rightarrow> machine \<Rightarrow> machine option" where
  "op_imm f rd rs imm m =
     (case (register_number rd, register_number rs, parse_int imm) of
        (Some d, Some s, Some i) \<Rightarrow>
          Some (next_line (write_reg d (f (read_reg m s) (word_of_int i)) m))
      | _ \<Rightarrow> None)"

definition branch :: "(int32 \<Rightarrow> bool) \<Rightarrow> string list \<Rightarrow> string \<Rightarrow> string \<Rightarrow> machine \<Rightarrow> machine option" where
  "branch taken prog rs label m =
     (case register_number rs of
        None \<Rightarrow> None
      | Some s \<Rightarrow> if taken (read_reg m s) then jump prog label m else Some (next_line m))"

definition rv_div :: "int32 \<Rightarrow> int32 \<Rightarrow> int32" where
  "rv_div a b = (if b = 0 then - 1 else wrap_div a b)"

definition rv_rem :: "int32 \<Rightarrow> int32 \<Rightarrow> int32" where
  "rv_rem a b = (if b = 0 then a else wrap_mod a b)"

definition is_no_instruction :: "string list \<Rightarrow> bool" where
  "is_no_instruction ws =
     (case ws of
        [] \<Rightarrow> True
      | f # rest \<Rightarrow> hd f = CHR ''#'' \<or> hd f = CHR ''.'' \<or> (rest = [] \<and> last f = CHR '':''))"

definition step :: "string list \<Rightarrow> machine \<Rightarrow> machine option" where
  "step prog m =
     (let ws = split_fields [] (prog ! pc m)
      in if is_no_instruction ws then Some (next_line m)
         else (case ws of
            [mnemonic, a] \<Rightarrow>
              if mnemonic = ''j'' then jump prog a m else None
          | [mnemonic, a, b] \<Rightarrow>
              if mnemonic = ''li'' then
                (case (register_number a, parse_int b) of
                   (Some d, Some i) \<Rightarrow> Some (next_line (write_reg d (word_of_int i) m))
                 | _ \<Rightarrow> None)
              else if mnemonic = ''mv'' then op2 (\<lambda>v. v) a b m
              else if mnemonic = ''neg'' then op2 (\<lambda>v. - v) a b m
              else if mnemonic = ''seqz'' then op2 (\<lambda>v. b2i (v = 0)) a b m
              else if mnemonic = ''snez'' then op2 (\<lambda>v. b2i (v \<noteq> 0)) a b m
              else if mnemonic = ''beqz'' then branch (\<lambda>v. v = 0) prog a b m
              else if mnemonic = ''bnez'' then branch (\<lambda>v. v \<noteq> 0) prog a b m
              else if mnemonic = ''lw'' then
                (case (register_number a, parse_address b) of
                   (Some d, Some (off, base)) \<Rightarrow>
                     Some (next_line (write_reg d (mem m (read_reg m base + word_of_int off)) m))
                 | _ \<Rightarrow> None)
              else if mnemonic = ''sw'' then
                (case (register_number a, parse_address b) of
                   (Some s, Some (off, base)) \<Rightarrow>
                     Some (next_line
                             (m\<lparr>mem := (mem m)(read_reg m base + word_of_int off := read_reg m s)\<rparr>))
                 | _ \<Rightarrow> None)
              else None
          | [mnemonic, a, b, c] \<Rightarrow>
              if mnemonic = ''add'' then op3 (\<lambda>x y. x + y) a b c m
              else if mnemonic = ''sub'' then op3 (\<lambda>x y. x - y) a b c m
              else if mnemonic = ''mul'' then op3 (\<lambda>x y. x * y) a b c m
              else if mnemonic = ''div'' then op3 rv_div a b c m
              else if mnemonic = ''rem'' then op3 rv_rem a b c m
              else if mnemonic = ''slt'' then op3 (\<lambda>x y. b2i (slt x y)) a b c m
              else if mnemonic = ''xor'' then op3 (\<lambda>x y. xor x y) a b c m
              else if mnemonic = ''xori'' then op_imm (\<lambda>x y. xor x y) a b c m
              else if mnemonic = ''addi'' then op_imm (\<lambda>x y. x + y) a b c m
              else None
          | _ \<Rightarrow> None))"

text \<open>
  \<open>run\<close> has a bound on the number of lines it executes; \<open>None\<close> is also the answer when
  the bound is reached.
\<close>

fun run :: "nat \<Rightarrow> string list \<Rightarrow> machine \<Rightarrow> machine option" where
  "run 0 prog m = None"
| "run (Suc n) prog m =
     (if pc m \<ge> length prog then Some m
      else (case step prog m of None \<Rightarrow> None | Some m1 \<Rightarrow> run n prog m1))"

definition start :: machine where
  "start = \<lparr>pc = 0, regs = (\<lambda>r. 0), mem = (\<lambda>a. 0)\<rparr>"

section \<open>Short-circuit evaluation in the generated code\<close>

text \<open>
  The code of an expression, generated by a fresh generator, and the value that it leaves
  in the register returned by \<open>generate_expr\<close>, when run from \<open>start\<close>.
\<close>

definition code_of :: "Expr \<Rightarrow> string list" where
  "code_of e = output_lines (snd (generate_expr e (new_CodeGenerator new_SymbolTable)))"

definition register_of :: "Expr \<Rightarrow> string" where
  "register_of e = fst (generate_expr e (new_CodeGenerator new_SymbolTable))"

definition value_of :: "Expr \<Rightarrow> int32 option" where
  "value_of e =
     (case register_number (register_of e) of
        None \<Rightarrow> None
      | Some r \<Rightarrow> map_option (\<lambda>m. read_reg m r) (run 1000 (code_of e) start))"

text \<open>
  An \<open>AND\<close> or \<open>OR\<close> instruction on two constants, with a temporary as result; the value
  stored for the result after running the emitted lines from \<open>start\<close>.
\<close>

definition logical_instr :: "OpCode \<Rightarrow> int32 \<Rightarrow> int32 \<Rightarrow> BinaryOpInstr" where
  "logical_instr oc a b =
     \<lparr>opcode = oc,
      result = \<lparr>op_type = OT_TEMP, op_name = ''t_0'', op_value = 0\<rparr>,
      left = \<lparr>op_type = OT_CONSTANT, op_name = [], op_value = a\<rparr>,
      right = \<lparr>op_type = OT_CONSTANT, op_name = [], op_value = b\<rparr>\<rparr>"

definition ir_code_of :: "BinaryOpInstr \<Rightarrow> string list" where
  "ir_code_of instr =
     ir_lines (processBinaryOp (\<lambda>i. ''binary operation'') instr (resetStackOffset new_IRCodeGenerator))"

definition ir_value_of :: "BinaryOpInstr \<Rightarrow> int32 option" where
  "ir_value_of instr =
     map_option (\<lambda>m. mem m (read_reg m 8 + word_of_int (- 12))) (run 1000 (ir_code_of instr) start)"

text \<open>
  The direct generator stores the value of the right operand, not its normalization:
  \<open>mv result, right\<close>. The left operand decides as the claim says.
\<close>

lemma and_code:
  "code_of (BinaryExpr AND (NumberExpr 1) (NumberExpr 5)) =
     [''    li x6, 1'', ''    beqz x6, and_false_0'', ''    li x7, 5'', ''    mv x5, x7'',
      ''    j and_end_1'', ''and_false_0:'', ''    li x5, 0'', ''and_end_1:'']
   \<and> register_of (BinaryExpr AND (NumberExpr 1) (NumberExpr 5)) = ''x5''"
  by code_simp

lemma or_code:
  "code_of (BinaryExpr OR (NumberExpr 0) (NumberExpr 5)) =
     [''    li x6, 0'', ''    bnez x6, or_true_0'', ''    li x7, 5'', ''    mv x5, x7'',
      ''    j or_end_1'', ''or_true_0:'', ''    li x5, 1'', ''or_end_1:'']
   \<and> register_of (BinaryExpr OR (NumberExpr 0) (NumberExpr 5)) = ''x5''"
  by code_simp

lemma left_operand_decides:
  "value_of (BinaryExpr AND (NumberExpr 0) (NumberExpr 5)) = Some 0
   \<and> value_of (BinaryExpr OR (NumberExpr 7) (NumberExpr 5)) = Some 1"
  by code_simp

lemma comparison_as_right_operand:
  "value_of (BinaryExpr AND (NumberExpr 2) (BinaryExpr NE (NumberExpr 5) (NumberExpr 0))) = Some 1"
  by code_simp

text \<open>
  The generator of the IR pipeline normalizes the right operand with \<open>snez\<close>.
\<close>

lemma ir_and_code:
  "ir_code_of (logical_instr OpAND 1 5) =
     [''# binary operation'', CHR 0x09 # ''li t1, 1'', CHR 0x09 # ''beqz t1, L1'',
      CHR 0x09 # ''li t2, 5'', CHR 0x09 # ''snez t0, t2'', CHR 0x09 # ''j L0'', ''L1:'',
      CHR 0x09 # ''li t0, 0'', ''L0:'', CHR 0x09 # ''sw t0, -12(fp)'']"
  by code_simp

lemma ir_logical_normalized:
  "ir_value_of (logical_instr OpAND 1 5) = Some 1
   \<and> ir_value_of (logical_instr OpAND 0 5) = Some 0
   \<and> ir_value_of (logical_instr OpAND 3 0) = Some 0
   \<and> ir_value_of (logical_instr OpOR 0 5) = Some 1
   \<and> ir_value_of (logical_instr OpOR 7 5) = Some 1
   \<and> ir_value_of (logical_instr OpOR 0 0) = Some 0"
  by code_simp

text \<open>
  C7. The code that the direct generator emits for \<open>1 && 5\<close> leaves 5 in the result
  register, and so does the code for \<open>0 || 5\<close>: the right operand is evaluated as the
  claim says, but its value is copied, not normalized to 1.
\<close>

theorem short_circuit_result_not_normalized:
  "value_of (BinaryExpr AND (NumberExpr 1) (NumberExpr 5)) = Some 5
   \<and> value_of (BinaryExpr OR (NumberExpr 0) (NumberExpr 5)) = Some 5"
  by code_simp

theorem short_circuit_result_not_normalized_witness:
  "value_of (BinaryExpr AND (NumberExpr 1) (NumberExpr 5)) \<noteq> Some 1
   \<and> value_of (BinaryExpr OR (NumberExpr 0) (NumberExpr 5)) \<noteq> Some 1"
  using short_circuit_result_not_normalized by simp

end
